theory Spec2Isabelle
  imports Complex_Main
begin

section \<open>AeroVECTOR: the aerodynamic core of \<^verbatim>\<open>rocket_functions.py\<close>\<close>

text \<open>
  A shallow embedding of the classes \<^verbatim>\<open>Airfoil\<close>, \<^verbatim>\<open>Fin\<close> and \<^verbatim>\<open>Rocket\<close>.

  Conventions of the embedding.
  \<^item> Python floats and numpy's \<^verbatim>\<open>float64\<close> are real numbers: rounding, overflow and
    underflow are not modelled.
  \<^item> A method that mutates \<^verbatim>\<open>self\<close> takes the object as a record and returns the
    updated record. The module-level list \<^verbatim>\<open>fin = [Fin(), Fin()]\<close> always has two
    entries; it is carried in the rocket's record as a pair.
  \<^item> A \<^verbatim>\<open>raise\<close> of the interpreter is the left summand of a result \<open>error + 'a\<close>.
  \<^item> numpy does not raise on a scalar division by zero or on the square root of a
    negative number: it warns and yields \<^verbatim>\<open>nan\<close> or \<^verbatim>\<open>inf\<close>. A value that the source
    stores and may never read again (\<^verbatim>\<open>Airfoil.cn_alpha\<close>, \<^verbatim>\<open>Rocket.beta\<close>) is a
    \<open>real option\<close>, with \<open>None\<close> for such a non-finite float. Where a non-finite float
    is produced and consumed by further arithmetic the model stops with the result
    \<open>Inl NonFinite\<close>: this stands for "the source goes on computing with nan or inf",
    not for an exception. \<open>Inl ComplexValue\<close> stands in the same way for a comparison
    with the complex number that Python's power of a negative base yields.
\<close>

subsection \<open>Errors and the primitives of the interpreter\<close>

datatype error =
    ZeroDivisionError
  | IndexError
  | ValueError
  | UnboundLocalError
  | TypeError
  | NonFinite
  | ComplexValue
  | AttributeError

definition bindE :: "error + 'a \<Rightarrow> ('a \<Rightarrow> error + 'b) \<Rightarrow> error + 'b" where
  "bindE m f = (case m of Inl e \<Rightarrow> Inl e | Inr v \<Rightarrow> f v)"

text \<open>\<^verbatim>\<open>a / b\<close> on Python floats raises; on a numpy scalar it yields nan or inf.\<close>

definition py_div :: "real \<Rightarrow> real \<Rightarrow> error + real" where
  "py_div a b = (if b = 0 then Inl ZeroDivisionError else Inr (a / b))"

definition np_div :: "real \<Rightarrow> real \<Rightarrow> error + real" where
  "np_div a b = (if b = 0 then Inl NonFinite else Inr (a / b))"

definition np_sqrt :: "real \<Rightarrow> real option" where
  "np_sqrt v = (if v < 0 then None else Some (sqrt v))"

definition finite_val :: "real option \<Rightarrow> error + real" where
  "finite_val v = (case v of None \<Rightarrow> Inl NonFinite | Some r \<Rightarrow> Inr r)"

text \<open>\<^verbatim>\<open>xs[i]\<close> for \<open>i \<ge> 0\<close>, \<^verbatim>\<open>xs[-1]\<close> and \<^verbatim>\<open>xs[i] = v\<close>.\<close>

definition py_index :: "'a list \<Rightarrow> nat \<Rightarrow> error + 'a" where
  "py_index xs i = (if i < length xs then Inr (xs ! i) else Inl IndexError)"

definition py_last :: "'a list \<Rightarrow> error + 'a" where
  "py_last xs = (if xs = [] then Inl IndexError else Inr (last xs))"

definition py_assign :: "'a list \<Rightarrow> nat \<Rightarrow> 'a \<Rightarrow> error + 'a list" where
  "py_assign xs i v = (if i < length xs then Inr (xs[i := v]) else Inl IndexError)"

text \<open>\<^verbatim>\<open>for i in range(n): body\<close>, the loop stopping at the first error.\<close>

primrec for_each :: "nat list \<Rightarrow> (nat \<Rightarrow> 's \<Rightarrow> error + 's) \<Rightarrow> 's \<Rightarrow> error + 's" where
  "for_each [] body s = Inr s"
| "for_each (i # is) body s = bindE (body i s) (for_each is body)"

definition for_range :: "nat \<Rightarrow> (nat \<Rightarrow> 's \<Rightarrow> error + 's) \<Rightarrow> 's \<Rightarrow> error + 's" where
  "for_range n body s = for_each [0..<n] body s"

subsection \<open>\<^verbatim>\<open>numpy.interp\<close>\<close>

text \<open>
  \<^verbatim>\<open>numpy.interp(x, xp, fp)\<close> for a scalar \<open>x\<close>, as numpy documents and implements it:
  an empty \<open>xp\<close> and an \<open>fp\<close> of another length are a \<^verbatim>\<open>ValueError\<close>; beyond the last
  sample the result is the last value, before the first sample the first value; at a
  sample the result is its value; inside an interval it is
  \<^verbatim>\<open>slope*(x - xp[j]) + fp[j]\<close>. numpy finds the interval \<open>xp[j] \<le> x < xp[j+1]\<close> by
  binary search and requires \<open>xp\<close> to be increasing; on such an \<open>xp\<close> the walk from the
  left finds the same interval.
\<close>

fun interp_walk :: "real \<Rightarrow> real list \<Rightarrow> real list \<Rightarrow> real" where
  "interp_walk x (x0 # x1 # xs) (y0 # y1 # ys) =
     (if x < x1 then (if x = x0 then y0 else ((y1 - y0) / (x1 - x0)) * (x - x0) + y0)
      else interp_walk x (x1 # xs) (y1 # ys))"
| "interp_walk x [x0] (y0 # ys) = y0"
| "interp_walk x xs ys = 0"

definition np_interp :: "real \<Rightarrow> real list \<Rightarrow> real list \<Rightarrow> error + real" where
  "np_interp x xp fp =
     (if xp = [] then Inl ValueError
      else if length fp \<noteq> length xp then Inl ValueError
      else if x > last xp then Inr (last fp)
      else if x < hd xp then Inr (hd fp)
      else Inr (interp_walk x xp fp))"

subsection \<open>\<^verbatim>\<open>class Airfoil\<close>\<close>

record Airfoil =
  af_use_2pi :: bool
  af_use_windtunel :: bool
  af_use_windtunnel_modified :: bool
  af_aoa_cl :: "real list"
  af_cl_list :: "real list"
  af_aoa_cl_modified :: "real list"
  af_cl_list_modified :: "real list"
  af_aoa_cd :: "real list"
  af_cd_list :: "real list"
  af_sign :: real
  af_x :: real
  af_cl :: real
  af_cd :: real
  af_cn :: real
  af_ca :: real
  af_cn_alpha :: "real option"

text \<open>\<^verbatim>\<open>Airfoil.__init__\<close>: the three mode flags and the wind tunnel tables.\<close>

definition Airfoil_init :: Airfoil where
  "Airfoil_init = \<lparr>
     af_use_2pi = False,
     af_use_windtunel = False,
     af_use_windtunnel_modified = True,
     af_aoa_cl = [0.0, 0.08386924860853417, 0.1620549165120595,
                0.25889438775510176, 0.4498044063079776, 0.62461094619666,
                0.7766831632653057, 0.9458061224489793, 1.1321255565862705,
                1.3189550556586267, 1.595045918367347, 1.846872263450835,
                2.0253221243042674, 2.2514994897959184, 2.4605532467532463,
                2.6914669294990725, 2.83479517625232, 2.98810612244898,
                3.105202458256029, 3.150015306122449],
     af_cl_list = [0.0, 0.5363636363636364, 0.781818181818182, 0.7,
                0.8818181818181818, 1.0727272727272728, 1.1, 1.0,
                0.7545454545454546, 0.44545454545454555, 0.0,
                -0.418181818181818, -0.6818181818181817, -0.9000000000000004,
                -0.9818181818181819, -0.790909090909091, -0.6727272727272728,
                -0.8000000000000003, -0.40909090909090917, 0.0],
     af_aoa_cl_modified = [0.0, 0.13658937500000003, 0.7249800000000002,
                0.9137768750000002, 1.0950218750000003, 1.57079,
                2.0239025, 2.4166, 2.937679375, 3.103820625],
     af_cl_list_modified = [0.0, 0.7739130434782606, 1.1043478260869564,
                1.026086956521739, 0.8086956521739128, 0.0,
                -0.7217391304347824, -0.991304347826087,
                -0.8086956521739128, -0.008695652173913215],
     af_aoa_cd = [0, 0.18521494914149783, 0.3982734933252401,
                0.7643841635684416, 1.10988734808282, 1.3509577689207464,
                1.5468165300174515, 1.7918205335344766, 1.960067086805354,
                2.1704261134642255, 2.359869138105717, 2.4862486286726804,
                2.668785095490799, 2.819614501925884, 2.9527883625749265,
                3.040406988525037, 3.1349532075000113, 3.1415972095888027],
     af_cd_list = [0.001, 0.11315179890472304, 0.3266637804448056,
                1.053982763006967, 1.5607557140498007, 1.7623865781756995,
                1.8074741244259172, 1.7606280656808881, 1.5891418548289915,
                1.3457262344177494, 1.0581157136927424, 0.8182796034866748,
                0.47852963361347545, 0.262866375366543, 0.13929739838341826,
                0.05557613600353495, 0.011970382007828295,
                0.0009187156610269724],
     af_sign = 1,
     af_x = 0,
     af_cl = 0,
     af_cd = 0,
     af_cn = 0,
     af_ca = 0,
     af_cn_alpha = Some 0 \<rparr>"

text \<open>\<^verbatim>\<open>Airfoil.__sign_correction\<close>\<close>

definition Airfoil_sign_correction :: "real \<Rightarrow> real" where
  "Airfoil_sign_correction aoa = (if aoa \<ge> 0 then 1 else - 1)"

text \<open>
  \<^verbatim>\<open>Airfoil._calculate_cn_ca\<close>. With neither wind tunnel flag set the names
  \<^verbatim>\<open>aoa_list_interp\<close> and \<^verbatim>\<open>cl_list_interp\<close> are unbound at their first use.
\<close>

definition Airfoil_calculate_cn_ca :: "Airfoil \<Rightarrow> real \<Rightarrow> error + Airfoil" where
  "Airfoil_calculate_cn_ca self aoa =
     (let self = self\<lparr>af_sign := Airfoil_sign_correction aoa\<rparr>;
          self = self\<lparr>af_x := \<bar>aoa\<bar>\<rparr>
      in bindE (if af_use_windtunel self then Inr (af_aoa_cl self, af_cl_list self)
                else if af_use_windtunnel_modified self
                  then Inr (af_aoa_cl_modified self, af_cl_list_modified self)
                else Inl UnboundLocalError) (\<lambda>tables.
         let aoa_list_interp = fst tables;
             cl_list_interp = snd tables
         in
         bindE (np_interp (af_x self) aoa_list_interp cl_list_interp) (\<lambda>cl.
         bindE (np_interp (af_x self) (af_aoa_cd self) (af_cd_list self)) (\<lambda>cd.
           let self = self\<lparr>af_cl := cl\<rparr>;
               self = self\<lparr>af_cd := cd\<rparr>;
               self = self\<lparr>af_cn := af_sign self
                        * (af_cl self * cos (af_x self) + af_cd self * sin (af_x self))\<rparr>;
               self = self\<lparr>af_ca := - af_cl self * sin (af_x self)
                        + af_cd self * cos (af_x self)\<rparr>
           in Inr self))))"

text \<open>
  \<^verbatim>\<open>Airfoil._calculate_cn_alpha\<close>: \<^verbatim>\<open>self.cn\<close> is a numpy scalar, so \<^verbatim>\<open>self.cn / aoa\<close> at
  \<^verbatim>\<open>aoa == 0\<close> is nan or inf, stored in \<^verbatim>\<open>self.cn_alpha\<close>.
\<close>

definition Airfoil_calculate_cn_alpha :: "Airfoil \<Rightarrow> real \<Rightarrow> Airfoil" where
  "Airfoil_calculate_cn_alpha self aoa =
     (let self = self\<lparr>af_cn_alpha := (if aoa = 0 then None else Some (af_cn self / aoa))\<rparr>
      in if af_use_2pi self then self\<lparr>af_cn_alpha := Some (2 * pi)\<rparr> else self)"

text \<open>\<^verbatim>\<open>Airfoil.get_aero_coef\<close> returns \<^verbatim>\<open>(cn, ca, cn_alpha)\<close>.\<close>

definition Airfoil_get_aero_coef ::
    "Airfoil \<Rightarrow> real \<Rightarrow> error + ((real \<times> real \<times> real option) \<times> Airfoil)" where
  "Airfoil_get_aero_coef self aoa =
     bindE (Airfoil_calculate_cn_ca self aoa) (\<lambda>self.
       let self = Airfoil_calculate_cn_alpha self aoa
       in Inr ((af_cn self, af_ca self, af_cn_alpha self), self))"

subsection \<open>\<^verbatim>\<open>class Fin\<close>\<close>

text \<open>
  \<^verbatim>\<open>self._dim\<close> starts as the integer 0 (\<open>None\<close> here: indexing it is a
  \<^verbatim>\<open>TypeError\<close>) and holds the four planform points \<^verbatim>\<open>[x, z]\<close> after \<^verbatim>\<open>update\<close>.
\<close>

record Fin =
  fin_dim :: "(real \<times> real) list option"
  fin_flat_plate :: Airfoil
  fin_fin_attached :: bool
  fin_c_root :: real
  fin_c_tip :: real
  fin_x_tail :: real
  fin_wingspan :: real
  fin_area :: real
  fin_y_mac :: real
  fin_x_force_fin :: real
  fin_aspect_ratio :: real
  fin_cp_total :: real
  fin_sb_angle :: real
  fin_beta :: "real option"
  fin_mach :: real
  fin_cn0 :: real
  fin_ca :: real
  fin_cn_alpha_0 :: "real option"
  fin_cn_alpha :: real

definition Fin_init :: Fin where
  "Fin_init = \<lparr>
     fin_dim = None,
     fin_flat_plate = Airfoil_init,
     fin_fin_attached = True,
     fin_c_root = 1,
     fin_c_tip = 1,
     fin_x_tail = 1,
     fin_wingspan = 1,
     fin_area = 1,
     fin_y_mac = 1,
     fin_x_force_fin = 1,
     fin_aspect_ratio = 1,
     fin_cp_total = 1,
     fin_sb_angle = 1,
     fin_beta = Some 1,
     fin_mach = 0,
     fin_cn0 = 0,
     fin_ca = 0,
     fin_cn_alpha_0 = Some 0,
     fin_cn_alpha = 0 \<rparr>"

text \<open>\<^verbatim>\<open>self._dim[i]\<close>\<close>

definition Fin_dim_at :: "Fin \<Rightarrow> nat \<Rightarrow> error + (real \<times> real)" where
  "Fin_dim_at self i = (case fin_dim self of None \<Rightarrow> Inl TypeError | Some d \<Rightarrow> py_index d i)"

text \<open>\<^verbatim>\<open>Fin._calculate_real_dimension\<close>\<close>

definition Fin_calculate_real_dimension :: "Fin \<Rightarrow> error + Fin" where
  "Fin_calculate_real_dimension self =
     bindE (Fin_dim_at self 3) (\<lambda>p3.
     bindE (Fin_dim_at self 0) (\<lambda>p0.
     bindE (Fin_dim_at self 2) (\<lambda>p2.
     bindE (Fin_dim_at self 1) (\<lambda>p1.
       Inr (self\<lparr>fin_c_root := fst p3 - fst p0,
                 fin_c_tip := fst p2 - fst p1,
                 fin_x_tail := fst p1 - fst p0,
                 fin_wingspan := snd p1 - snd p0\<rparr>)))))"

text \<open>\<^verbatim>\<open>Fin._calculate_area\<close>\<close>

definition Fin_calculate_area :: "Fin \<Rightarrow> Fin" where
  "Fin_calculate_area self =
     self\<lparr>fin_area := (fin_c_root self + fin_c_tip self) * fin_wingspan self / 2\<rparr>"

text \<open>\<^verbatim>\<open>Fin._calculate_mac_xf_ar\<close>: every division is behind its own guard.\<close>

definition Fin_calculate_mac_xf_ar :: "Fin \<Rightarrow> Fin" where
  "Fin_calculate_mac_xf_ar self =
     (let k1 = fin_c_root self + 2 * fin_c_tip self;
          k2 = fin_c_root self + fin_c_tip self;
          k3 = (fin_c_root self)\<^sup>2 + (fin_c_tip self)\<^sup>2 + fin_c_root self * fin_c_tip self;
          self = (if k2 \<noteq> 0
                  then self\<lparr>fin_y_mac := (fin_wingspan self / 3) * (k1 / k2),
                            fin_x_force_fin := (fin_x_tail self / 3) * (k1 / k2)
                                                 + (1 / 6) * (k3 / k2)\<rparr>
                  else self\<lparr>fin_x_force_fin := 0\<rparr>);
          self = (if fin_area self \<noteq> 0
                  then self\<lparr>fin_aspect_ratio := 2 * (fin_wingspan self)\<^sup>2 / fin_area self\<rparr>
                  else self)
      in if fin_fin_attached self then self
         else self\<lparr>fin_aspect_ratio := fin_aspect_ratio self * 0.625\<rparr>)"

text \<open>\<^verbatim>\<open>Fin._calculate_force_application_point\<close>\<close>

definition Fin_calculate_force_application_point :: "Fin \<Rightarrow> error + Fin" where
  "Fin_calculate_force_application_point self =
     bindE (Fin_dim_at self 0) (\<lambda>p0.
       Inr (self\<lparr>fin_cp_total := fst p0 + fin_x_force_fin self\<rparr>))"

text \<open>\<^verbatim>\<open>Fin._calculate_sweepback_angle\<close>: a division of Python floats.\<close>

definition Fin_calculate_sweepback_angle :: "Fin \<Rightarrow> error + Fin" where
  "Fin_calculate_sweepback_angle self =
     bindE (Fin_dim_at self 1) (\<lambda>p1.
     bindE (Fin_dim_at self 0) (\<lambda>p0.
       let x_tip = fst p1 + 0.25 * fin_c_tip self;
           x_root = fst p0 + 0.25 * fin_c_root self
       in bindE (py_div (x_tip - x_root) (fin_wingspan self)) (\<lambda>t.
            Inr (self\<lparr>fin_sb_angle := arctan t\<rparr>))))"

text \<open>\<^verbatim>\<open>Fin.update\<close>\<close>

definition Fin_update :: "Fin \<Rightarrow> (real \<times> real) list \<Rightarrow> bool \<Rightarrow> error + Fin" where
  "Fin_update self l fin_attached =
     (let self = self\<lparr>fin_fin_attached := fin_attached\<rparr>;
          self = self\<lparr>fin_dim := Some l\<rparr>
      in bindE (Fin_calculate_real_dimension self) (\<lambda>self.
         let self = Fin_calculate_area self;
             self = Fin_calculate_mac_xf_ar self
         in bindE (Fin_calculate_force_application_point self) (\<lambda>self.
            Fin_calculate_sweepback_angle self)))"

text \<open>
  \<^verbatim>\<open>Fin._correct_cna_diederich\<close>. Every operand of its divisions is a numpy scalar, so a
  zero divisor, a nan \<^verbatim>\<open>beta\<close> or a nan \<^verbatim>\<open>cn_alpha_0\<close> makes \<^verbatim>\<open>self.cn_alpha\<close> nan.
\<close>

definition Fin_correct_cna_diederich :: "Fin \<Rightarrow> error + Fin" where
  "Fin_correct_cna_diederich self =
     bindE (finite_val (fin_cn_alpha_0 self)) (\<lambda>cn_alpha_0.
     bindE (finite_val (fin_beta self)) (\<lambda>beta.
     let eff_factor = cn_alpha_0 / (2 * pi) in
     bindE (finite_val (np_sqrt (1 - (fin_mach self)\<^sup>2 * (cos (fin_sb_angle self))\<^sup>2))) (\<lambda>root.
     bindE (np_div beta root) (\<lambda>ratio.
     let cos_sbe = ratio * cos (fin_sb_angle self) in
     bindE (np_div 1 beta) (\<lambda>k1.
     bindE (np_div (fin_aspect_ratio self * beta) (eff_factor * cos_sbe)) (\<lambda>k2.
     bindE (np_div (4 * eff_factor\<^sup>2 * cos_sbe\<^sup>2) ((fin_aspect_ratio self)\<^sup>2 * beta\<^sup>2)) (\<lambda>k3.
     bindE (finite_val (np_sqrt (1 + k3))) (\<lambda>k4.
     bindE (np_div k2 (k2 * k4 + 2)) (\<lambda>frac.
       Inr (self\<lparr>fin_cn_alpha := k1 * frac * cn_alpha_0 * cos_sbe\<rparr>))))))))))"

text \<open>\<^verbatim>\<open>Fin.calculate_cn_alpha\<close> returns \<^verbatim>\<open>self.cn_alpha\<close>.\<close>

definition Fin_calculate_cn_alpha ::
    "Fin \<Rightarrow> real \<Rightarrow> real option \<Rightarrow> real \<Rightarrow> error + (real \<times> Fin)" where
  "Fin_calculate_cn_alpha self aoa beta mach =
     (let self = self\<lparr>fin_beta := beta\<rparr>;
          self = self\<lparr>fin_mach := mach\<rparr>
      in bindE (Airfoil_get_aero_coef (fin_flat_plate self) aoa) (\<lambda>r.
         let coef = fst r;
             self = self\<lparr>fin_flat_plate := snd r\<rparr>;
             self = self\<lparr>fin_cn0 := fst coef, fin_ca := fst (snd coef),
                         fin_cn_alpha_0 := snd (snd coef)\<rparr>
         in bindE (Fin_correct_cna_diederich self) (\<lambda>self.
              Inr (fin_cn_alpha self, self))))"

subsection \<open>\<^verbatim>\<open>class Rocket\<close>: the object\<close>

text \<open>
  A field that \<^verbatim>\<open>__init__\<close> sets to a number and a later method to a list is a
  \<open>pyval\<close>: indexing the number is a \<^verbatim>\<open>TypeError\<close>.
\<close>

datatype pyval = PyNum real | PyList "real list"

definition pv_index :: "pyval \<Rightarrow> nat \<Rightarrow> error + real" where
  "pv_index v i = (case v of PyNum r \<Rightarrow> Inl TypeError | PyList xs \<Rightarrow> py_index xs i)"

definition pv_assign :: "pyval \<Rightarrow> nat \<Rightarrow> real \<Rightarrow> error + pyval" where
  "pv_assign v i r =
     (case v of PyNum r \<Rightarrow> Inl TypeError
      | PyList xs \<Rightarrow> bindE (py_assign xs i r) (\<lambda>ys. Inr (PyList ys)))"

text \<open>
  The Reynolds number is the one float whose infinities decide a branch (a zero
  viscosity makes it infinite, and the comparisons of \<^verbatim>\<open>_calculate_cf\<close> then choose the
  rough regime), so it keeps the four kinds of a float apart.
\<close>

datatype npfloat = Finite real | PosInf | NegInf | NaN

definition np_div_ext :: "real \<Rightarrow> real \<Rightarrow> npfloat" where
  "np_div_ext a b =
     (if b \<noteq> 0 then Finite (a / b)
      else if a > 0 then PosInf else if a < 0 then NegInf else NaN)"

definition np_less :: "npfloat \<Rightarrow> real \<Rightarrow> bool" where
  "np_less v r = (case v of Finite x \<Rightarrow> x < r | PosInf \<Rightarrow> False | NegInf \<Rightarrow> True | NaN \<Rightarrow> False)"

text \<open>
  The fields of \<^verbatim>\<open>Rocket\<close>, in the order of \<^verbatim>\<open>__init__\<close>. \<^verbatim>\<open>length\<close> and \<^verbatim>\<open>q\<close> are
  \<open>length_rocket\<close> and \<open>q_dyn\<close>. \<^verbatim>\<open>reynolds_crit\<close> is \<open>None\<close> when the power that defines
  it has a negative base (Python then yields a complex number). \<^verbatim>\<open>q\<close>,
  \<^verbatim>\<open>q_damp_body\<close> and \<^verbatim>\<open>q_damp_fin\<close> do not exist before the methods that create them
  (\<open>None\<close>; reading one then is an \<^verbatim>\<open>AttributeError\<close>). \<open>fin\<close> is the
  module-level pair of fins; \<open>printed\<close> is what \<^verbatim>\<open>print\<close> has written.
\<close>

record Rocket =
  thrust :: real
  cn :: real
  sign_corr :: real
  xcp :: real
  ca :: real
  cp :: real
  xcg :: real
  q_damp :: real
  motor :: "real list \<times> real list"
  is_in_the_pad_flag :: bool
  component_cn :: "real list"
  component_cn_alpha :: "real list"
  component_cm :: "real list"
  station_cross_area :: "real list"
  component_plan_area :: "real list"
  component_volume :: "real list"
  component_centroid :: "real list"
  ogive :: bool
  reynolds_crit :: "real option"
  relative_rough :: real
  aoa_list_ca :: "real list"
  ca_scale :: "real list"
  use_fins :: bool
  fins_attached :: "bool \<times> bool"
  use_fins_control :: bool
  rocket_dim :: "(real \<times> real) list"
  max_diam :: real
  length_rocket :: real
  diameter :: real
  fineness :: real
  area_ref :: real
  plan_area :: real
  area_wet_component :: pyval
  area_wet_body :: real
  avg_rad_aft :: real
  avg_rad_fore :: real
  v_loc_tot :: "real list"
  mach :: real
  beta :: "real option"
  actuator_angle :: real
  aoa_ctrl_fin :: real
  cn_alpha_og :: pyval
  cn_alpha_fin_control :: pyval
  cn_alpha_control_normal :: real
  cn_alpha_fin :: pyval
  cn_alpha_axial :: real
  reynolds :: npfloat
  Cf :: real
  cd_pressure_component :: pyval
  base_drag :: real
  cd0_friction :: real
  pressure_cd :: real
  base_drag_cd :: real
  cd0 :: real
  q_dyn :: "real option"
  q_damp_body :: "real option"
  q_damp_fin :: "real option"
  fin :: "Fin \<times> Fin"
  printed :: "string list"

definition DEG2RAD :: real where
  "DEG2RAD = pi / 180"

text \<open>
  \<^verbatim>\<open>Rocket.__init__\<close>, each field with the last value the constructor gives it
  (\<^verbatim>\<open>station_cross_area\<close> ends as \<^verbatim>\<open>[0]*0\<close>). \<^verbatim>\<open>fins_attached\<close> starts as \<^verbatim>\<open>True\<close> and is a
  two-element list from \<^verbatim>\<open>update_rocket\<close> on, the only place that enables the fins.
\<close>

definition Rocket_init :: Rocket where
  "Rocket_init = \<lparr>
     thrust = 0,
     cn = 0,
     sign_corr = - 1,
     xcp = 0,
     ca = 0,
     cp = 0,
     xcg = 1,
     q_damp = 0,
     motor = ([], []),
     is_in_the_pad_flag = True,
     component_cn = [0],
     component_cn_alpha = [0],
     component_cm = [0],
     station_cross_area = [],
     component_plan_area = [0],
     component_volume = [0],
     component_centroid = [0],
     ogive = False,
     reynolds_crit = Some 1,
     relative_rough = 150 / 10 ^ 6,
     aoa_list_ca = [- 180 * DEG2RAD, - (180 - 17) * DEG2RAD,
                    - (180 - 70) * DEG2RAD, - 90 * DEG2RAD,
                    - 70 * DEG2RAD, - 17 * DEG2RAD, 0,
                    17 * DEG2RAD, 70 * DEG2RAD, 90 * DEG2RAD,
                    (180 - 70) * DEG2RAD, (180 - 17) * DEG2RAD,
                    180 * DEG2RAD],
     ca_scale = [- 1, - 1.3, - 0.097777, 0, 0.097777, 1.3,
                 1, 1.3, 0.097777, 0, - 0.097777, - 1.3, - 1],
     use_fins = False,
     fins_attached = (True, True),
     use_fins_control = False,
     rocket_dim = [],
     max_diam = 1,
     length_rocket = 1,
     diameter = 1,
     fineness = 1,
     area_ref = 1,
     plan_area = 1,
     area_wet_component = PyNum 1,
     area_wet_body = 1,
     avg_rad_aft = 1,
     avg_rad_fore = 1,
     v_loc_tot = [10, 0],
     mach = 0.001,
     beta = Some 1,
     actuator_angle = 0,
     aoa_ctrl_fin = 0,
     cn_alpha_og = PyNum 6.28,
     cn_alpha_fin_control = PyNum 2,
     cn_alpha_control_normal = 2,
     cn_alpha_fin = PyNum 2,
     cn_alpha_axial = 0,
     reynolds = Finite 100,
     Cf = 1,
     cd_pressure_component = PyNum 1,
     base_drag = 1,
     cd0_friction = 1,
     pressure_cd = 1,
     base_drag_cd = 1,
     cd0 = 1,
     q_dyn = None,
     q_damp_body = None,
     q_damp_fin = None,
     fin = (Fin_init, Fin_init),
     printed = [] \<rparr>"

subsection \<open>Motor and launch pad\<close>

text \<open>\<^verbatim>\<open>Rocket.set_motor\<close>: \<^verbatim>\<open>data\<close> is \<^verbatim>\<open>[time, thrust]\<close>.\<close>

definition set_motor :: "Rocket \<Rightarrow> real list \<times> real list \<Rightarrow> Rocket" where
  "set_motor self data = self\<lparr>motor := (fst data, snd data)\<rparr>"

text \<open>\<^verbatim>\<open>Rocket.get_thrust\<close>\<close>

definition get_thrust :: "Rocket \<Rightarrow> real \<Rightarrow> real \<Rightarrow> error + (real \<times> Rocket)" where
  "get_thrust self t t_launch =
     (let x = t - t_launch
      in bindE (np_interp x (fst (motor self)) (snd (motor self))) (\<lambda>v.
         let self = self\<lparr>thrust := v\<rparr>;
             self = (if thrust self < 0.001 then self\<lparr>thrust := 0.001\<rparr> else self)
         in Inr (thrust self, self)))"

text \<open>\<^verbatim>\<open>Rocket.is_in_the_pad\<close>\<close>

definition is_in_the_pad :: "Rocket \<Rightarrow> real \<Rightarrow> bool \<times> Rocket" where
  "is_in_the_pad self alt =
     (let self = (if alt > 0.2 \<and> is_in_the_pad_flag self
                  then self\<lparr>is_in_the_pad_flag := False\<rparr> else self)
      in (is_in_the_pad_flag self, self))"

text \<open>\<^verbatim>\<open>Rocket.burnout_time\<close>: \<^verbatim>\<open>self.motor[0][-1]\<close>\<close>

definition burnout_time :: "Rocket \<Rightarrow> error + real" where
  "burnout_time self = py_last (fst (motor self))"

text \<open>\<^verbatim>\<open>Rocket.reset_variables\<close>\<close>

definition reset_variables :: "Rocket \<Rightarrow> Rocket" where
  "reset_variables self =
     self\<lparr>thrust := 0, cn := 0, xcp := 0, ca := 0, motor := ([], []),
          is_in_the_pad_flag := True\<rparr>"


subsection \<open>\<^verbatim>\<open>class Rocket\<close>: geometry\<close>

text \<open>\<^verbatim>\<open>Rocket.__initialize\<close>\<close>

definition initialize :: "Rocket \<Rightarrow> nat \<Rightarrow> Rocket" where
  "initialize self n =
     self\<lparr>is_in_the_pad_flag := True,
          component_cn := replicate (n - 1) 0,
          component_cn_alpha := replicate (n - 1) 0,
          component_cm := replicate (n - 1) 0,
          station_cross_area := replicate n 0,
          component_plan_area := replicate (n - 1) 0,
          component_volume := replicate (n - 1) 0,
          component_centroid := replicate (n - 1) 0\<rparr>"

text \<open>
  Every loop \<^verbatim>\<open>for i in range(n)\<close> of the class has its body as a function of its own, named
  after the method with the suffix \<open>_step\<close>.
\<close>

text \<open>\<^verbatim>\<open>Rocket._maximum_diameter\<close>\<close>

definition maximum_diameter_step :: "Rocket \<Rightarrow> nat \<Rightarrow> real \<Rightarrow> error + real" where
  "maximum_diameter_step self i d =
     bindE (py_index (rocket_dim self) i) (\<lambda>p.
       if snd p > d then Inr (snd p) else Inr d)"

definition maximum_diameter :: "Rocket \<Rightarrow> error + real" where
  "maximum_diameter self =
     for_range (length (rocket_dim self)) (maximum_diameter_step self) 0"

text \<open>\<^verbatim>\<open>Rocket._compute_total_rocket_plan_area\<close>\<close>

definition compute_total_rocket_plan_area_step :: "nat \<Rightarrow> Rocket \<Rightarrow> error + Rocket" where
  "compute_total_rocket_plan_area_step i self =
     bindE (py_index (component_plan_area self) i) (\<lambda>a.
       Inr (self\<lparr>plan_area := plan_area self + a\<rparr>))"

definition compute_total_rocket_plan_area :: "Rocket \<Rightarrow> error + Rocket" where
  "compute_total_rocket_plan_area self =
     (let self = self\<lparr>plan_area := 0\<rparr>
      in for_range (length (component_plan_area self)) compute_total_rocket_plan_area_step self)"

text \<open>\<^verbatim>\<open>Rocket._calculate_wet_area_body\<close>, with its two loops.\<close>

definition calculate_wet_area_body_step :: "nat \<Rightarrow> Rocket \<Rightarrow> error + Rocket" where
  "calculate_wet_area_body_step i self =
     bindE (py_index (rocket_dim self) (i + 1)) (\<lambda>p1.
     bindE (py_index (rocket_dim self) i) (\<lambda>p0.
       let l = fst p1 - fst p0;
           r1 = snd p0 / 2;
           r2 = snd p1 / 2
       in bindE (pv_assign (area_wet_component self) i
                   (pi * (r1 + r2) * sqrt ((r2 - r1)\<^sup>2 + l\<^sup>2))) (\<lambda>v.
            Inr (self\<lparr>area_wet_component := v\<rparr>))))"

definition calculate_wet_area_body_sum_step :: "nat \<Rightarrow> Rocket \<Rightarrow> error + Rocket" where
  "calculate_wet_area_body_sum_step i self =
     bindE (pv_index (area_wet_component self) i) (\<lambda>a.
       Inr (self\<lparr>area_wet_body := area_wet_body self + a\<rparr>))"

definition calculate_wet_area_body :: "Rocket \<Rightarrow> error + Rocket" where
  "calculate_wet_area_body self =
     (let self = self\<lparr>area_wet_component := PyList (replicate (length (rocket_dim self) - 1) 0)\<rparr>
      in bindE (for_range (length (rocket_dim self) - 1) calculate_wet_area_body_step self)
           (\<lambda>self.
         let self = self\<lparr>area_wet_body := 0\<rparr>
         in for_range (length (rocket_dim self) - 1) calculate_wet_area_body_sum_step self))"

text \<open>
  The body of the loop of \<^verbatim>\<open>Rocket._update_rocket_dim\<close>, for the segment \<open>i\<close>. The branch
  for the ogive is inside the loop, as in the source.
\<close>

definition update_rocket_dim_step :: "nat \<Rightarrow> Rocket \<Rightarrow> error + Rocket" where
  "update_rocket_dim_step i self =
     bindE (py_index (rocket_dim self) (i + 1)) (\<lambda>p1.
     bindE (py_index (rocket_dim self) i) (\<lambda>p0.
       let l = fst p1 - fst p0;
           r1 = snd p0 / 2;
           r2 = snd p1 / 2;
           area = pi * r2\<^sup>2
       in bindE (py_assign (station_cross_area self) (i + 1) area) (\<lambda>sca.
          let self = self\<lparr>station_cross_area := sca\<rparr>;
              plan_area = l * (r1 + r2)
          in bindE (py_assign (component_plan_area self) i plan_area) (\<lambda>cpa.
          let self = self\<lparr>component_plan_area := cpa\<rparr>;
              volume = (1 / 3) * pi * l * (r1\<^sup>2 + r2\<^sup>2 + r1 * r2)
          in bindE (py_assign (component_volume self) i volume) (\<lambda>cv.
          let self = self\<lparr>component_volume := cv\<rparr>
          in bindE (py_div (l * (2 * r2 + r1)) (3 * (r1 + r2))) (\<lambda>centroid.
             bindE (py_assign (component_centroid self) i centroid) (\<lambda>cc.
          let self = self\<lparr>component_centroid := cc\<rparr>
          in if ogive self
             then bindE (py_index (rocket_dim self) 1) (\<lambda>q1.
                  bindE (py_index (rocket_dim self) 0) (\<lambda>q0.
                    let l = fst q1 - fst q0
                    in bindE (py_assign (component_centroid self) 0 (0.4625 * l)) (\<lambda>cc.
                       let self = self\<lparr>component_centroid := cc\<rparr>;
                           d = snd q1
                       in bindE (py_assign (component_plan_area self) 0 (2 / 3 * l * d)) (\<lambda>cpa.
                            Inr (self\<lparr>component_plan_area := cpa\<rparr>)))))
             else Inr self)))))))"

text \<open>\<^verbatim>\<open>Rocket._update_rocket_dim\<close>\<close>

definition update_rocket_dim :: "Rocket \<Rightarrow> (real \<times> real) list \<Rightarrow> error + Rocket" where
  "update_rocket_dim self l =
     (let self = self\<lparr>rocket_dim := l\<rparr>;
          self = initialize self (length (rocket_dim self))
      in bindE (maximum_diameter self) (\<lambda>d.
         let self = self\<lparr>max_diam := d\<rparr>
         in bindE (py_last (rocket_dim self)) (\<lambda>p.
         let self = self\<lparr>length_rocket := fst p\<rparr>
         in bindE (py_index (rocket_dim self) 1) (\<lambda>p.
         let self = self\<lparr>diameter := snd p\<rparr>
         in bindE (py_div (length_rocket self) (max_diam self)) (\<lambda>f.
         let self = self\<lparr>fineness := f\<rparr>
         in bindE (compute_total_rocket_plan_area self) (\<lambda>self.
            bindE (calculate_wet_area_body self) (\<lambda>self.
         let self = self\<lparr>area_ref := pi * (max_diam self / 2)\<^sup>2\<rparr>
         in for_range (length (rocket_dim self) - 1) update_rocket_dim_step self)))))))"

text \<open>
  The two \<^verbatim>\<open>while\<close> loops of \<^verbatim>\<open>_calculate_avg_radius_fore\<close> and
  \<^verbatim>\<open>_calculate_avg_radius_aft\<close> add up station positions while a test on the position
  holds. Each visits the stations in a fixed order and ends in an \<^verbatim>\<open>IndexError\<close> when it
  runs out of them: \<open>walk_while\<close> takes the stations in the order of the visit.
\<close>

fun walk_while :: "(real \<Rightarrow> bool) \<Rightarrow> (real \<times> real) list \<Rightarrow> real \<Rightarrow> error + real" where
  "walk_while test [] tot_radius = Inl IndexError"
| "walk_while test (p # ps) tot_radius =
     (if test (fst p) then walk_while test ps (tot_radius + fst p) else Inr tot_radius)"

text \<open>\<^verbatim>\<open>Rocket._calculate_avg_radius_fore\<close>: the index runs \<open>0, 1, 2, ...\<close>.\<close>

definition calculate_avg_radius_fore :: "Rocket \<Rightarrow> error + Rocket" where
  "calculate_avg_radius_fore self =
     bindE (walk_while (\<lambda>x. x < xcg self) (rocket_dim self) 0) (\<lambda>tot_radius.
     bindE (py_div tot_radius (xcg self)) (\<lambda>r.
       Inr (self\<lparr>avg_rad_fore := r\<rparr>)))"

text \<open>
  \<^verbatim>\<open>Rocket._calculate_avg_radius_aft\<close>: the index runs down from \<open>len - 1\<close>; below zero
  Python counts from the end again, so the stations are visited backwards twice before
  the index \<open>- len - 1\<close> is out of range.
\<close>

definition calculate_avg_radius_aft :: "Rocket \<Rightarrow> error + Rocket" where
  "calculate_avg_radius_aft self =
     bindE (walk_while (\<lambda>x. x > xcg self)
              (rev (rocket_dim self) @ rev (rocket_dim self)) 0) (\<lambda>tot_radius.
     bindE (py_last (rocket_dim self)) (\<lambda>p.
     bindE (py_div tot_radius (fst p - xcg self)) (\<lambda>r.
       Inr (self\<lparr>avg_rad_aft := r\<rparr>))))"

text \<open>\<^verbatim>\<open>Rocket._calculate_pitch_damping_body\<close>\<close>

definition calculate_pitch_damping_body :: "Rocket \<Rightarrow> error + Rocket" where
  "calculate_pitch_damping_body self =
     bindE (calculate_avg_radius_fore self) (\<lambda>self.
     bindE (calculate_avg_radius_aft self) (\<lambda>self.
     let l_fore = xcg self in
     bindE (py_last (rocket_dim self)) (\<lambda>p.
     let l_aft = fst p - xcg self;
         q_damp_fore = 0.275 * avg_rad_fore self * l_fore ^ 4;
         q_damp_aft = 0.275 * avg_rad_aft self * l_aft ^ 4
     in Inr (self\<lparr>q_damp_body := Some (q_damp_fore + q_damp_aft)\<rparr>))))"

text \<open>
  \<^verbatim>\<open>Rocket._calculate_reynolds_crit\<close>: \<^verbatim>\<open>51 * (relative_rough/length)**-1.039\<close>. A negative
  base makes the power a complex number.
\<close>

definition calculate_reynolds_crit :: "Rocket \<Rightarrow> error + Rocket" where
  "calculate_reynolds_crit self =
     (let self = self\<lparr>relative_rough := 60 / 10 ^ 6\<rparr>
      in bindE (py_div (relative_rough self) (length_rocket self)) (\<lambda>b.
           Inr (self\<lparr>reynolds_crit :=
                      (if b < 0 then None else Some (51 * (b powr (- 1.039))))\<rparr>)))"

text \<open>
  The argument \<^verbatim>\<open>l0\<close> of \<^verbatim>\<open>update_rocket\<close> is the list
  \<^verbatim>\<open>[ogive, use_fins, fins_attached[0], use_fins_control, fins_attached[1], body, fin0, fin1]\<close>.
\<close>

record rocket_data =
  l_ogive :: bool
  l_use_fins :: bool
  l_fin0_attached :: bool
  l_use_fins_control :: bool
  l_fin1_attached :: bool
  l_rocket_dim :: "(real \<times> real) list"
  l_fin0 :: "(real \<times> real) list"
  l_fin1 :: "(real \<times> real) list"

definition zero_fin :: "(real \<times> real) list" where
  "zero_fin = [(0.00001, 0.0000), (0.0001, 0.0001), (0.0002, 0.0001), (0.0002, 0.0000)]"

text \<open>\<^verbatim>\<open>Rocket.update_rocket\<close>\<close>

definition update_rocket :: "Rocket \<Rightarrow> rocket_data \<Rightarrow> real \<Rightarrow> error + Rocket" where
  "update_rocket self l xcg0 =
     (let self = self\<lparr>ogive := l_ogive l\<rparr>;
          self = self\<lparr>use_fins := l_use_fins l\<rparr>;
          self = self\<lparr>fins_attached := (l_fin0_attached l, l_fin1_attached l)\<rparr>;
          self = self\<lparr>use_fins_control := l_use_fins_control l\<rparr>
      in bindE (update_rocket_dim self (l_rocket_dim l)) (\<lambda>self.
         bindE (Fin_update (snd (fin self)) zero_fin True) (\<lambda>f1.
         let self = self\<lparr>fin := (fst (fin self), f1)\<rparr>
         in bindE (if use_fins self
                   then bindE (Fin_update (fst (fin self)) (l_fin0 l) (fst (fins_attached self)))
                          (\<lambda>f0.
                        let self = self\<lparr>fin := (f0, snd (fin self))\<rparr>
                        in if use_fins_control self
                           then bindE (Fin_update (snd (fin self)) (l_fin1 l)
                                         (snd (fins_attached self))) (\<lambda>f1.
                                  Inr (self\<lparr>fin := (fst (fin self), f1)\<rparr>))
                           else Inr self)
                   else Inr self) (\<lambda>self.
         let self = self\<lparr>xcg := xcg0\<rparr>
         in bindE (calculate_pitch_damping_body self) calculate_reynolds_crit))))"

subsection \<open>\<^verbatim>\<open>class Rocket\<close>: normal force and centre of pressure\<close>

text \<open>\<^verbatim>\<open>fin[i]\<close>, \<^verbatim>\<open>fin[i] = f\<close> (the mutation of the object \<^verbatim>\<open>fin[i]\<close>) and \<^verbatim>\<open>self.fins_attached[i]\<close>.\<close>

definition fin_at :: "Rocket \<Rightarrow> nat \<Rightarrow> error + Fin" where
  "fin_at self i =
     (if i = 0 then Inr (fst (fin self)) else if i = 1 then Inr (snd (fin self))
      else Inl IndexError)"

definition set_fin_at :: "Rocket \<Rightarrow> nat \<Rightarrow> Fin \<Rightarrow> Rocket" where
  "set_fin_at self i f =
     (if i = 0 then self\<lparr>fin := (f, snd (fin self))\<rparr> else self\<lparr>fin := (fst (fin self), f)\<rparr>)"

definition fins_attached_at :: "Rocket \<Rightarrow> nat \<Rightarrow> error + bool" where
  "fins_attached_at self i =
     (if i = 0 then Inr (fst (fins_attached self))
      else if i = 1 then Inr (snd (fins_attached self)) else Inl IndexError)"

text \<open>\<^verbatim>\<open>Rocket.__sign_correction\<close>\<close>

definition sign_correction :: "real \<Rightarrow> real" where
  "sign_correction aoa = (if aoa \<ge> 0 then - 1 else 1)"

text \<open>
  \<^verbatim>\<open>Rocket._barrowman_cn\<close>: \<^verbatim>\<open>np.sin(aoa)\<close> is a numpy scalar, so the division by
  \<^verbatim>\<open>area_ref\<close> is numpy's.
\<close>

definition barrowman_cn_step :: "real \<Rightarrow> nat \<Rightarrow> Rocket \<Rightarrow> error + Rocket" where
  "barrowman_cn_step aoa i self =
     bindE (np_div (2 * sin aoa) (area_ref self)) (\<lambda>k1.
     bindE (py_index (station_cross_area self) (i + 1)) (\<lambda>a1.
     bindE (py_index (station_cross_area self) i) (\<lambda>a0.
     bindE (py_assign (component_cn self) i (k1 * (a1 - a0))) (\<lambda>c.
       Inr (self\<lparr>component_cn := c\<rparr>)))))"

definition barrowman_cn :: "Rocket \<Rightarrow> real \<Rightarrow> error + Rocket" where
  "barrowman_cn self aoa =
     for_range (length (station_cross_area self) - 1) (barrowman_cn_step aoa) self"

text \<open>
  \<^verbatim>\<open>Rocket._body_cn\<close>: the first loop fills the local list \<^verbatim>\<open>cn\<close> (here \<open>cn_local\<close>), the second adds it to
  \<^verbatim>\<open>self.component_cn\<close>.
\<close>

definition body_cn_step :: "Rocket \<Rightarrow> real \<Rightarrow> nat \<Rightarrow> real list \<Rightarrow> error + real list" where
  "body_cn_step self aoa i cn_local =
     (let K = 1.1
      in bindE (py_index (component_plan_area self) i) (\<lambda>a.
         bindE (py_div a (area_ref self)) (\<lambda>k1.
           py_assign cn_local i (K * k1 * (sin aoa)\<^sup>2))))"

definition body_cn_add_step :: "real list \<Rightarrow> nat \<Rightarrow> Rocket \<Rightarrow> error + Rocket" where
  "body_cn_add_step cn_local i self =
     bindE (py_index (component_cn self) i) (\<lambda>c.
     bindE (py_index cn_local i) (\<lambda>d.
     bindE (py_assign (component_cn self) i (c + d)) (\<lambda>c'.
       Inr (self\<lparr>component_cn := c'\<rparr>))))"

definition body_cn :: "Rocket \<Rightarrow> real \<Rightarrow> error + Rocket" where
  "body_cn self aoa =
     bindE (for_range (length (component_plan_area self)) (body_cn_step self aoa)
              (replicate (length (component_plan_area self)) 0)) (\<lambda>cn_local.
       for_range (length (component_cn self)) (body_cn_add_step cn_local) self)"

text \<open>\<^verbatim>\<open>Rocket._calculate_cn_alpha\<close>\<close>

definition calculate_cn_alpha_step :: "real \<Rightarrow> nat \<Rightarrow> Rocket \<Rightarrow> error + Rocket" where
  "calculate_cn_alpha_step aoa i self =
     (if aoa \<noteq> 0
      then bindE (py_index (component_cn self) i) (\<lambda>c.
           bindE (py_assign (component_cn_alpha self) i (c / aoa)) (\<lambda>ca.
             Inr (self\<lparr>component_cn_alpha := ca\<rparr>)))
      else bindE (py_assign (component_cn_alpha self) i 0) (\<lambda>ca.
             Inr (self\<lparr>component_cn_alpha := ca\<rparr>)))"

definition calculate_cn_alpha :: "Rocket \<Rightarrow> real \<Rightarrow> error + Rocket" where
  "calculate_cn_alpha self aoa =
     for_range (length (component_cn self)) (calculate_cn_alpha_step aoa) self"

text \<open>
  The bodies of the two loops over the fins in \<^verbatim>\<open>Rocket._fin_cn\<close>: the slope of fin \<open>i\<close>
  referred to the reference area of the rocket (\<^verbatim>\<open>n_fin = 2\<close>), and the gain \<^verbatim>\<open>KT\<close> of the
  body interference for an attached fin.
\<close>

definition fin_cn_area_step :: "nat \<Rightarrow> Rocket \<Rightarrow> error + Rocket" where
  "fin_cn_area_step i self =
     (let n_fin = 2
      in bindE (fin_at self i) (\<lambda>f.
         bindE (py_div (fin_area f) (area_ref self)) (\<lambda>r.
         bindE (pv_index (cn_alpha_og self) i) (\<lambda>og.
         bindE (pv_assign (cn_alpha_fin self) i (n_fin * r * og)) (\<lambda>cf.
           Inr (self\<lparr>cn_alpha_fin := cf\<rparr>))))))"

definition fin_cn_interference_step :: "nat \<Rightarrow> Rocket \<Rightarrow> error + Rocket" where
  "fin_cn_interference_step i self =
     bindE (fins_attached_at self i) (\<lambda>attached.
       if attached
       then bindE (fin_at self i) (\<lambda>f.
            bindE (Fin_dim_at f 0) (\<lambda>p0.
            let r_body_at_fin = snd p0
            in bindE (py_div r_body_at_fin (fin_wingspan f + r_body_at_fin)) (\<lambda>r.
               let KT = 1 + r
               in bindE (pv_index (cn_alpha_fin self) i) (\<lambda>c.
                  bindE (pv_assign (cn_alpha_fin self) i (KT * c)) (\<lambda>cf.
                  let self = self\<lparr>cn_alpha_fin := cf\<rparr>
                  in bindE (pv_index (cn_alpha_og self) i) (\<lambda>c.
                     bindE (pv_assign (cn_alpha_og self) i (KT * c)) (\<lambda>og.
                       Inr (self\<lparr>cn_alpha_og := og\<rparr>))))))))
       else Inr self)"

text \<open>
  \<^verbatim>\<open>Rocket._fin_cn\<close>. The main fin is evaluated at the angle it is given, the control fin
  at \<^verbatim>\<open>self.aoa_ctrl_fin\<close>.
\<close>

definition fin_cn :: "Rocket \<Rightarrow> real \<Rightarrow> real \<Rightarrow> error + Rocket" where
  "fin_cn self aoa actuator_angle0 =
     (let self = self\<lparr>cn_alpha_og := PyList (replicate 2 0)\<rparr>;
          self = self\<lparr>cn_alpha_fin_control := PyList (replicate 2 0)\<rparr>
      in bindE (Fin_calculate_cn_alpha (fst (fin self)) aoa (beta self) (mach self)) (\<lambda>r0.
         let self = self\<lparr>fin := (snd r0, snd (fin self))\<rparr>
         in bindE (pv_assign (cn_alpha_og self) 0 (fst r0)) (\<lambda>og.
         let self = self\<lparr>cn_alpha_og := og\<rparr>
         in bindE (Fin_calculate_cn_alpha (snd (fin self)) (aoa_ctrl_fin self) (beta self)
                     (mach self)) (\<lambda>r1.
         let self = self\<lparr>fin := (fst (fin self), snd r1)\<rparr>
         in bindE (pv_assign (cn_alpha_og self) 1 (fst r1)) (\<lambda>og.
         let self = self\<lparr>cn_alpha_og := og\<rparr>;
             self = self\<lparr>cn_alpha_fin := PyList (replicate 2 0)\<rparr>
         in bindE (for_range 2 fin_cn_area_step self) (\<lambda>self.
            bindE (for_range 2 fin_cn_interference_step self) (\<lambda>self.
            bindE (pv_index (cn_alpha_fin self) 1) (\<lambda>c.
            let self = self\<lparr>cn_alpha_control_normal := c\<rparr>
            in bindE (pv_assign (cn_alpha_fin self) 1
                        (cn_alpha_control_normal self * cos actuator_angle0)) (\<lambda>cf.
               let self = self\<lparr>cn_alpha_fin := cf\<rparr>
               in Inr (self\<lparr>cn_alpha_axial :=
                          cn_alpha_control_normal self * \<bar>sin actuator_angle0\<bar>\<rparr>))))))))))"

text \<open>\<^verbatim>\<open>Rocket._calculate_total_cn\<close>, with its two loops that add up \<^verbatim>\<open>self.cn\<close>.\<close>

definition calculate_total_cn_step :: "nat \<Rightarrow> Rocket \<Rightarrow> error + Rocket" where
  "calculate_total_cn_step i self =
     bindE (py_index (component_cn self) i) (\<lambda>c.
       Inr (self\<lparr>cn := cn self + c\<rparr>))"

definition calculate_total_cn_fin_step :: "real \<Rightarrow> nat \<Rightarrow> Rocket \<Rightarrow> error + Rocket" where
  "calculate_total_cn_fin_step aoa i self =
     bindE (pv_index (cn_alpha_fin self) i) (\<lambda>c.
       Inr (self\<lparr>cn := cn self + c * aoa\<rparr>))"

definition calculate_total_cn :: "Rocket \<Rightarrow> real \<Rightarrow> real \<Rightarrow> error + Rocket" where
  "calculate_total_cn self aoa0 actuator_angle0 =
     (let self = self\<lparr>cn := 0\<rparr>;
          self = self\<lparr>sign_corr := sign_correction aoa0\<rparr>;
          aoa = (if aoa0 = 0 then 0.0001 else \<bar>aoa0\<bar>)
      in bindE (barrowman_cn self aoa) (\<lambda>self.
         bindE (body_cn self aoa) (\<lambda>self.
         bindE (calculate_cn_alpha self aoa) (\<lambda>self.
         bindE (if use_fins self then fin_cn self aoa actuator_angle0 else Inr self) (\<lambda>self.
         bindE (for_range (length (component_cn self)) calculate_total_cn_step self) (\<lambda>self.
         bindE (if use_fins self
                then for_range 2 (calculate_total_cn_fin_step aoa) self
                else Inr self) (\<lambda>self.
           Inr (self\<lparr>cn := sign_corr self * cn self\<rparr>))))))))"

text \<open>
  \<^verbatim>\<open>Rocket._calculate_cp_position\<close>; the pair \<open>ab\<close> holds its local sums \<^verbatim>\<open>a\<close> and \<^verbatim>\<open>b\<close>.
\<close>

definition calculate_cp_position_step ::
    "Rocket \<Rightarrow> nat \<Rightarrow> real \<times> real \<Rightarrow> error + (real \<times> real)" where
  "calculate_cp_position_step self i ab =
     bindE (py_index (component_centroid self) i) (\<lambda>c.
     bindE (py_index (rocket_dim self) i) (\<lambda>p.
     bindE (py_index (component_cn_alpha self) i) (\<lambda>s.
       Inr (fst ab + (c + fst p) * s, snd ab + s))))"

definition calculate_cp_position_fin_step ::
    "Rocket \<Rightarrow> nat \<Rightarrow> real \<times> real \<Rightarrow> error + (real \<times> real)" where
  "calculate_cp_position_fin_step self i ab =
     bindE (fin_at self i) (\<lambda>f.
     bindE (pv_index (cn_alpha_fin self) i) (\<lambda>s.
       Inr (fst ab + fin_cp_total f * s, snd ab + s)))"

definition calculate_cp_position :: "Rocket \<Rightarrow> error + Rocket" where
  "calculate_cp_position self =
     (let self = self\<lparr>cp := 0\<rparr>
      in bindE (for_range (length (component_cn_alpha self)) (calculate_cp_position_step self)
                  (0, 0)) (\<lambda>ab.
         bindE (if use_fins self
                then for_range 2 (calculate_cp_position_fin_step self) ab
                else Inr ab) (\<lambda>ab.
           if snd ab \<noteq> 0 then Inr (self\<lparr>cp := fst ab / snd ab\<rparr>)
           else bindE (py_index (component_centroid self) 0) (\<lambda>c.
                  Inr (self\<lparr>cp := c\<rparr>)))))"

subsection \<open>\<^verbatim>\<open>class Rocket\<close>: drag\<close>

text \<open>
  \<^verbatim>\<open>Rocket._calculate_reynolds\<close>: \<^verbatim>\<open>velocity_0\<close> is a numpy scalar, so a zero viscosity
  gives an infinite or nan Reynolds number.
\<close>

definition calculate_reynolds :: "Rocket \<Rightarrow> real \<Rightarrow> real \<Rightarrow> real \<Rightarrow> Rocket" where
  "calculate_reynolds self velocity_0 rho mu =
     self\<lparr>reynolds := np_div_ext (rho * velocity_0 * length_rocket self) mu\<rparr>"

text \<open>\<^verbatim>\<open>Rocket._calculate_cf\<close>; \<^verbatim>\<open>10e4\<close> is 100000.\<close>

definition calculate_cf :: "Rocket \<Rightarrow> error + Rocket" where
  "calculate_cf self =
     bindE (if np_less (reynolds self) 100000 then Inr 0.0148
            else bindE (case reynolds_crit self of None \<Rightarrow> Inl ComplexValue
                        | Some c \<Rightarrow> Inr (np_less (reynolds self) c)) (\<lambda>below.
                 if below
                 then (case reynolds self of
                         Finite re \<Rightarrow> np_div 1 ((1.5 * ln re - 5.6)\<^sup>2)
                       | PosInf \<Rightarrow> Inl NonFinite | NegInf \<Rightarrow> Inl NonFinite
                       | NaN \<Rightarrow> Inl NonFinite)
                 else bindE (py_div (relative_rough self) (length_rocket self)) (\<lambda>b.
                        if b < 0 then Inl NonFinite else Inr (0.032 * (b powr 0.2))))) (\<lambda>c.
       let self = self\<lparr>Cf := c\<rparr>
       in Inr (self\<lparr>Cf := Cf self * (1 - 0.1 * (mach self)\<^sup>2)\<rparr>))"

text \<open>
  The body of the loop of \<^verbatim>\<open>Rocket._calculate_pressure_drag\<close>. The local \<^verbatim>\<open>phi\<close> is carried
  beside the object: \<open>None\<close> before its first assignment. The \<^verbatim>\<open>try\<close> catches the
  \<^verbatim>\<open>ZeroDivisionError\<close> of a segment of length zero, prints, and goes on with the \<^verbatim>\<open>phi\<close>
  it has.
\<close>

definition pressure_drag_step ::
    "nat \<Rightarrow> Rocket \<times> real option \<Rightarrow> error + (Rocket \<times> real option)" where
  "pressure_drag_step i st =
     (let self = fst st; phi = snd st
      in bindE (py_index (rocket_dim self) (i + 1)) (\<lambda>p1.
         bindE (py_index (rocket_dim self) i) (\<lambda>p0.
           let l = fst p1 - fst p0;
               r1 = snd p0 / 2;
               r2 = snd p1 / 2;
               self = (if l = 0
                       then self\<lparr>printed := printed self @ [''Component length is zero'']\<rparr>
                       else self);
               phi = (if l = 0 then phi else Some (arctan ((r2 - r1) / l)))
           in bindE (case phi of None \<Rightarrow> Inl UnboundLocalError | Some v \<Rightarrow> Inr v) (\<lambda>v.
              bindE (pv_assign (cd_pressure_component self) i (0.8 * (sin v)\<^sup>2)) (\<lambda>c.
                Inr (self\<lparr>cd_pressure_component := c\<rparr>, phi))))))"

text \<open>\<^verbatim>\<open>Rocket._calculate_pressure_drag\<close>\<close>

definition calculate_pressure_drag :: "Rocket \<Rightarrow> error + Rocket" where
  "calculate_pressure_drag self =
     (let n = length (rocket_dim self) - 1;
          self = self\<lparr>cd_pressure_component := PyList (replicate n 0)\<rparr>
      in bindE (for_range n pressure_drag_step (self, None)) (\<lambda>st.
         let self = fst st
         in if ogive self
            then bindE (pv_assign (cd_pressure_component self) 0 0) (\<lambda>c.
                   Inr (self\<lparr>cd_pressure_component := c\<rparr>))
            else Inr self))"

text \<open>\<^verbatim>\<open>Rocket._calculate_base_drag\<close>\<close>

definition calculate_base_drag :: "Rocket \<Rightarrow> Rocket" where
  "calculate_base_drag self = self\<lparr>base_drag := 0.12 + 0.13 * (mach self)\<^sup>2\<rparr>"

text \<open>
  \<^verbatim>\<open>Rocket._calculate_cd\<close>. The wetted area is a numpy scalar, so the division of the
  friction term by \<^verbatim>\<open>area_ref\<close> is numpy's; the other divisions are Python's.
\<close>

definition calculate_cd_step :: "nat \<Rightarrow> real \<Rightarrow> nat \<Rightarrow> Rocket \<Rightarrow> error + Rocket" where
  "calculate_cd_step n aoa i self =
     (if i = n - 1 \<and> \<bar>aoa\<bar> > pi / 2
      then bindE (py_index (station_cross_area self) (i + 1)) (\<lambda>area_ref_component.
           bindE (pv_assign (cd_pressure_component self) i 1) (\<lambda>c.
           let self = self\<lparr>cd_pressure_component := c\<rparr>
           in bindE (py_div area_ref_component (area_ref self)) (\<lambda>r.
              bindE (pv_index (cd_pressure_component self) i) (\<lambda>cdp.
                Inr (self\<lparr>pressure_cd := pressure_cd self + r * cdp\<rparr>)))))
      else bindE (py_index (station_cross_area self) (i + 1)) (\<lambda>a1.
           bindE (py_index (station_cross_area self) i) (\<lambda>a0.
           let area_ref_component = \<bar>a1 - a0\<bar>
           in bindE (py_div area_ref_component (area_ref self)) (\<lambda>r.
              bindE (pv_index (cd_pressure_component self) i) (\<lambda>cdp.
                Inr (self\<lparr>pressure_cd := pressure_cd self + r * cdp\<rparr>))))))"

definition calculate_cd :: "Rocket \<Rightarrow> real \<Rightarrow> error + Rocket" where
  "calculate_cd self aoa =
     bindE (py_div 1 (2 * fineness self)) (\<lambda>h.
     bindE (np_div (Cf self * ((1 + h) * area_wet_body self)) (area_ref self)) (\<lambda>fr.
     let self = self\<lparr>cd0_friction := fr\<rparr>;
         n = length (station_cross_area self) - 1;
         self = self\<lparr>pressure_cd := 0\<rparr>
     in bindE (for_range n (calculate_cd_step n aoa) self) (\<lambda>self.
        bindE (py_last (station_cross_area self)) (\<lambda>a.
        bindE (py_div a (area_ref self)) (\<lambda>r.
        let self = self\<lparr>base_drag_cd := r * base_drag self\<rparr>
        in Inr (self\<lparr>cd0 := pressure_cd self + base_drag_cd self + cd0_friction self\<rparr>))))))"

text \<open>\<^verbatim>\<open>Rocket._fin_ca\<close>\<close>

definition fin_ca_step :: "nat \<Rightarrow> Rocket \<Rightarrow> error + Rocket" where
  "fin_ca_step i self =
     bindE (fin_at self i) (\<lambda>f.
     bindE (py_div (2 * fin_area f) (area_ref self)) (\<lambda>r.
       Inr (self\<lparr>ca := ca self + fin_ca f * r\<rparr>)))"

definition fin_ca_sum :: "Rocket \<Rightarrow> error + Rocket" where
  "fin_ca_sum self = for_range 2 fin_ca_step self"

text \<open>\<^verbatim>\<open>Rocket._control_fin_drag\<close>\<close>

definition control_fin_drag :: "Rocket \<Rightarrow> real \<Rightarrow> Rocket" where
  "control_fin_drag self aoa =
     self\<lparr>ca := ca self + cn_alpha_axial self * (aoa - actuator_angle self)\<rparr>"

text \<open>\<^verbatim>\<open>Rocket._calculate_ca\<close>\<close>

definition calculate_ca :: "Rocket \<Rightarrow> real \<Rightarrow> error + Rocket" where
  "calculate_ca self aoa =
     bindE (np_interp aoa (aoa_list_ca self) (ca_scale self)) (\<lambda>cd2ca.
     let self = self\<lparr>ca := cd0 self * cd2ca\<rparr>
     in if use_fins self
        then bindE (fin_ca_sum self) (\<lambda>self. Inr (control_fin_drag self aoa))
        else Inr self)"

text \<open>\<^verbatim>\<open>Rocket._calculate_total_ca\<close>\<close>

definition calculate_total_ca :: "Rocket \<Rightarrow> real \<Rightarrow> real \<Rightarrow> real \<Rightarrow> real \<Rightarrow> error + Rocket" where
  "calculate_total_ca self aoa velocity_0 rho mu =
     (let self = calculate_reynolds self velocity_0 rho mu
      in bindE (calculate_cf self) (\<lambda>self.
         bindE (calculate_pressure_drag self) (\<lambda>self.
         let self = calculate_base_drag self
         in bindE (calculate_cd self aoa) (\<lambda>self.
            calculate_ca self aoa))))"

subsection \<open>\<^verbatim>\<open>Rocket.calculate_aero_coef\<close>\<close>

text \<open>
  The method returns \<^verbatim>\<open>(cn, cp, ca)\<close>. \<^verbatim>\<open>self.beta\<close> is computed from the argument
  \<^verbatim>\<open>mach\<close>, as the source writes it; beyond Mach 1 it is nan.
\<close>

definition calculate_aero_coef ::
    "Rocket \<Rightarrow> real \<Rightarrow> real list \<Rightarrow> real \<Rightarrow> real \<Rightarrow> real \<Rightarrow> real \<Rightarrow> real
       \<Rightarrow> error + ((real \<times> real \<times> real) \<times> Rocket)" where
  "calculate_aero_coef self aoa v_loc_tot0 rho mu mach0 actuator_angle0 q =
     (let self = self\<lparr>q_dyn := Some q\<rparr>;
          self = self\<lparr>v_loc_tot := v_loc_tot0\<rparr>
      in bindE (py_index v_loc_tot0 0) (\<lambda>v0.
         bindE (py_index v_loc_tot0 1) (\<lambda>v1.
         let velocity_0 = sqrt (v0\<^sup>2 + v1\<^sup>2);
             self = (if mach0 < 0.001 then self\<lparr>mach := 0.001\<rparr> else self\<lparr>mach := mach0\<rparr>);
             self = self\<lparr>beta := np_sqrt (1 - mach0\<^sup>2)\<rparr>;
             self = self\<lparr>actuator_angle := actuator_angle0\<rparr>;
             self = self\<lparr>aoa_ctrl_fin := aoa - actuator_angle0\<rparr>
         in bindE (calculate_total_cn self aoa actuator_angle0) (\<lambda>self.
            bindE (calculate_cp_position self) (\<lambda>self.
            bindE (calculate_total_ca self aoa velocity_0 rho mu) (\<lambda>self.
              Inr ((cn self, cp self, ca self), self)))))))"

subsection \<open>\<^verbatim>\<open>class Rocket\<close>: the damping accessors and the reference area\<close>

text \<open>
  \<^verbatim>\<open>Rocket._calculate_pitch_damp_fin\<close>: the loop over the two fins adds to the local \<^verbatim>\<open>m\<close>
  (here \<open>m_local\<close>).
\<close>

definition calculate_pitch_damp_fin_step :: "Rocket \<Rightarrow> nat \<Rightarrow> real \<Rightarrow> error + real" where
  "calculate_pitch_damp_fin_step self i m_local =
     (let flat_plate_slope = 5.65
      in bindE (py_index (v_loc_tot self) 0) (\<lambda>v0.
         bindE (fin_at self i) (\<lambda>f.
           let F = 0.5 * v0 * flat_plate_slope * (fin_cp_total f - xcg self)
                     * 2 * fin_area f
           in Inr (m_local + \<bar>F * (fin_cp_total f - xcg self)\<bar>))))"

definition calculate_pitch_damp_fin :: "Rocket \<Rightarrow> error + real" where
  "calculate_pitch_damp_fin self = for_range 2 (calculate_pitch_damp_fin_step self) 0"

text \<open>\<^verbatim>\<open>Rocket.get_q_damp_body\<close>\<close>

definition get_q_damp_body :: "Rocket \<Rightarrow> error + real" where
  "get_q_damp_body self =
     (case q_damp_body self of None \<Rightarrow> Inl AttributeError | Some v \<Rightarrow> Inr v)"

text \<open>\<^verbatim>\<open>Rocket.get_q_damp_fin\<close> stores the moment in \<^verbatim>\<open>self.q_damp_fin\<close> and returns it.\<close>

definition get_q_damp_fin :: "Rocket \<Rightarrow> error + (real \<times> Rocket)" where
  "get_q_damp_fin self =
     (if use_fins self
      then bindE (calculate_pitch_damp_fin self) (\<lambda>m_local.
             Inr (m_local, self\<lparr>q_damp_fin := Some m_local\<rparr>))
      else Inr (0, self\<lparr>q_damp_fin := Some 0\<rparr>))"

text \<open>The property \<^verbatim>\<open>Rocket.reference_area\<close>\<close>

definition reference_area :: "Rocket \<Rightarrow> real" where
  "reference_area self = area_ref self"

subsection \<open>Sequences of calls\<close>

text \<open>
  The public methods of \<^verbatim>\<open>Rocket\<close> with their arguments, and what a call returns. A
  program that uses one \<^verbatim>\<open>Rocket\<close> is a list of such calls; it stops at the first
  exception.
\<close>

datatype call =
    UpdateRocket rocket_data real
  | CalculateAeroCoef real "real list" real real real real real
  | GetQDampBody
  | GetQDampFin
  | ReferenceArea
  | SetMotor "real list \<times> real list"
  | GetThrust real real
  | IsInThePad real
  | BurnoutTime
  | ResetVariables

datatype returned =
    NoValue
  | Number real
  | Coefficients "real \<times> real \<times> real"
  | Flag bool

definition perform :: "call \<Rightarrow> Rocket \<Rightarrow> error + (returned \<times> Rocket)" where
  "perform c self =
     (case c of
        UpdateRocket l0 xcg0 \<Rightarrow>
          bindE (update_rocket self l0 xcg0) (\<lambda>self. Inr (NoValue, self))
      | CalculateAeroCoef aoa v_loc_tot0 rho mu mach0 actuator_angle0 q \<Rightarrow>
          bindE (calculate_aero_coef self aoa v_loc_tot0 rho mu mach0 actuator_angle0 q)
            (\<lambda>r. Inr (Coefficients (fst r), snd r))
      | GetQDampBody \<Rightarrow> bindE (get_q_damp_body self) (\<lambda>v. Inr (Number v, self))
      | GetQDampFin \<Rightarrow> bindE (get_q_damp_fin self) (\<lambda>r. Inr (Number (fst r), snd r))
      | ReferenceArea \<Rightarrow> Inr (Number (reference_area self), self)
      | SetMotor data \<Rightarrow> Inr (NoValue, set_motor self data)
      | GetThrust t t_launch \<Rightarrow>
          bindE (get_thrust self t t_launch) (\<lambda>r. Inr (Number (fst r), snd r))
      | IsInThePad alt \<Rightarrow> Inr (Flag (fst (is_in_the_pad self alt)), snd (is_in_the_pad self alt))
      | BurnoutTime \<Rightarrow> bindE (burnout_time self) (\<lambda>v. Inr (Number v, self))
      | ResetVariables \<Rightarrow> Inr (NoValue, reset_variables self))"

fun run :: "Rocket \<Rightarrow> call list \<Rightarrow> error + (returned list \<times> Rocket)" where
  "run self [] = Inr ([], self)"
| "run self (c # cs) =
     bindE (perform c self) (\<lambda>r.
     bindE (run (snd r) cs) (\<lambda>rs.
       Inr (fst r # fst rs, snd rs)))"

subsection \<open>Predicates of the properties\<close>

text \<open>
  The tables of an airfoil are those of \<^verbatim>\<open>Airfoil.__init__\<close>: no method of the source
  changes them.
\<close>

definition Airfoil_tables_of_init :: "Airfoil \<Rightarrow> bool" where
  "Airfoil_tables_of_init af =
     (af_aoa_cl af = af_aoa_cl Airfoil_init \<and> af_cl_list af = af_cl_list Airfoil_init
      \<and> af_aoa_cl_modified af = af_aoa_cl_modified Airfoil_init
      \<and> af_cl_list_modified af = af_cl_list_modified Airfoil_init
      \<and> af_aoa_cd af = af_aoa_cd Airfoil_init \<and> af_cd_list af = af_cd_list Airfoil_init)"

text \<open>
  The lengths of the arrays of the body for \<open>n\<close> stations: \<open>n\<close> cross-sections, the first of
  them 0, and \<open>n - 1\<close> entries for every array of the components.
\<close>

definition body_arrays :: "nat \<Rightarrow> Rocket \<Rightarrow> bool" where
  "body_arrays n self =
     (length (station_cross_area self) = n
      \<and> station_cross_area self ! 0 = 0
      \<and> length (component_plan_area self) = n - 1
      \<and> length (component_volume self) = n - 1
      \<and> length (component_centroid self) = n - 1
      \<and> length (component_cn self) = n - 1
      \<and> length (component_cn_alpha self) = n - 1
      \<and> length (component_cm self) = n - 1)"

text \<open>
  The example body of the specification: the stations \<^verbatim>\<open>[(0,0),(1,0.1),(3,0.1)]\<close>, a cone
  and a cylinder, without fins; the centre of gravity is put at 1.5.
\<close>

definition example_data :: rocket_data where
  "example_data = \<lparr>
     l_ogive = False,
     l_use_fins = False,
     l_fin0_attached = True,
     l_use_fins_control = False,
     l_fin1_attached = True,
     l_rocket_dim = [(0, 0), (1, 0.1), (3, 0.1)],
     l_fin0 = [],
     l_fin1 = [] \<rparr>"

text \<open>
  The contributors to the centre of pressure, each as the pair of its location and its
  slope: the body segments (centroid plus the position of the station in front), then,
  with fins enabled, the two fins.
\<close>

definition cp_contributions :: "Rocket \<Rightarrow> (real \<times> real) list" where
  "cp_contributions s =
     map (\<lambda>i. (component_centroid s ! i + fst (rocket_dim s ! i), component_cn_alpha s ! i))
       [0..<length (component_cn_alpha s)]
     @ (if use_fins s
        then (case cn_alpha_fin s of
                PyList xs \<Rightarrow> [(fin_cp_total (fst (fin s)), xs ! 0),
                              (fin_cp_total (snd (fin s)), xs ! 1)]
              | PyNum r \<Rightarrow> [])
        else [])"

text \<open>
  What \<^verbatim>\<open>update_rocket\<close> leaves in the object for a body of a cone and a cylinder without
  fins, with the stations \<^verbatim>\<open>[(0,0),(x1,dm),(x2,dm)]\<close>: the fields that
  \<^verbatim>\<open>calculate_aero_coef\<close> reads and does not write.
\<close>

definition cone_cylinder :: "real \<Rightarrow> real \<Rightarrow> real \<Rightarrow> Rocket \<Rightarrow> bool" where
  "cone_cylinder x1 x2 dm s =
     (rocket_dim s = [(0, 0), (x1, dm), (x2, dm)]
      \<and> station_cross_area s = [0, pi * (dm / 2)\<^sup>2, pi * (dm / 2)\<^sup>2]
      \<and> area_ref s = pi * (dm / 2)\<^sup>2
      \<and> component_plan_area s
           = [if ogive s then 2 / 3 * x1 * dm else x1 * (dm / 2), (x2 - x1) * dm]
      \<and> length (component_cn s) = 2 \<and> length (component_cn_alpha s) = 2
      \<and> length (component_centroid s) = 2
      \<and> \<not> use_fins s
      \<and> length_rocket s = x2 \<and> fineness s = x2 / dm
      \<and> reynolds_crit s = Some (51 * ((60 / 10 ^ 6 / x2) powr (- 1.039)))
      \<and> relative_rough s = 60 / 10 ^ 6
      \<and> aoa_list_ca s = aoa_list_ca Rocket_init \<and> ca_scale s = ca_scale Rocket_init)"

text \<open>
  The normal force coefficient of such a body at the angle of attack \<open>aoa\<close>, as the
  formulas of \<^verbatim>\<open>_barrowman_cn\<close> and \<^verbatim>\<open>_body_cn\<close> add up: the sign of
  \<^verbatim>\<open>__sign_correction\<close>, the angle 0.0001 in place of 0, and the planform area of the two
  segments over the reference area.
\<close>

definition cone_cylinder_cn :: "bool \<Rightarrow> real \<Rightarrow> real \<Rightarrow> real \<Rightarrow> real \<Rightarrow> real" where
  "cone_cylinder_cn og x1 x2 dm aoa =
     (let a = (if aoa = 0 then 0.0001 else \<bar>aoa\<bar>);
          plan = (if og then 2 / 3 * x1 * dm else x1 * (dm / 2)) + (x2 - x1) * dm
      in sign_correction aoa
           * (2 * sin a + 1.1 * (plan / (pi * (dm / 2)\<^sup>2)) * (sin a)\<^sup>2))"

text \<open>The example body configured on a fresh \<^verbatim>\<open>Rocket\<close>.\<close>

definition example_rocket :: Rocket where
  "example_rocket = projr (update_rocket Rocket_init example_data 1.5)"


text \<open>
  The number of segments of zero length in a list of stations, and a body with one: the
  cone of the example followed by a cylinder of length 0.
\<close>

definition zero_length_segments :: "(real \<times> real) list \<Rightarrow> nat" where
  "zero_length_segments stations =
     length (filter (\<lambda>i. fst (stations ! (i + 1)) - fst (stations ! i) = 0)
               [0..<length stations - 1])"

definition zero_length_data :: rocket_data where
  "zero_length_data = \<lparr>
     l_ogive = False,
     l_use_fins = False,
     l_fin0_attached = True,
     l_use_fins_control = False,
     l_fin1_attached = True,
     l_rocket_dim = [(0, 0), (1, 0.1), (1, 0.1)],
     l_fin0 = [],
     l_fin1 = [] \<rparr>"

definition zero_length_rocket :: Rocket where
  "zero_length_rocket = projr (update_rocket Rocket_init zero_length_data 0.5)"

text \<open>
  The example body with a pair of fixed fins at its tail, attached to the body, and no
  control fins, configured on a fresh \<^verbatim>\<open>Rocket\<close>.
\<close>

definition finned_data :: rocket_data where
  "finned_data = \<lparr>
     l_ogive = False,
     l_use_fins = True,
     l_fin0_attached = True,
     l_use_fins_control = False,
     l_fin1_attached = True,
     l_rocket_dim = [(0, 0), (1, 0.1), (3, 0.1)],
     l_fin0 = [(2.5, 0.05), (2.7, 0.15), (3, 0.15), (3, 0.05)],
     l_fin1 = [] \<rparr>"

definition finned_rocket :: Rocket where
  "finned_rocket = projr (update_rocket Rocket_init finned_data 1.5)"

text \<open>
  The calls that set the pad latch again: \<^verbatim>\<open>reset_variables\<close>, and \<^verbatim>\<open>update_rocket\<close>, whose
  \<^verbatim>\<open>__initialize\<close> assigns \<^verbatim>\<open>is_in_the_pad_flag = True\<close>. The altitudes of the calls of
  \<^verbatim>\<open>is_in_the_pad\<close> in a sequence of calls, and the answers of these calls among what the
  sequence returned.
\<close>

fun rearms :: "call \<Rightarrow> bool" where
  "rearms (UpdateRocket l0 xcg0) = True"
| "rearms ResetVariables = True"
| "rearms c = False"

fun altitudes :: "call list \<Rightarrow> real list" where
  "altitudes [] = []"
| "altitudes (IsInThePad alt # cs) = alt # altitudes cs"
| "altitudes (c # cs) = altitudes cs"

fun pad_answers :: "returned list \<Rightarrow> bool list" where
  "pad_answers [] = []"
| "pad_answers (Flag b # rs) = b # pad_answers rs"
| "pad_answers (r # rs) = pad_answers rs"
section \<open>Properties\<close>

subsection \<open>Evaluating the primitives\<close>

lemma bindE_simps [simp]:
  "bindE (Inl e) f = Inl e"
  "bindE (Inr v) f = f v"
  by (simp_all add: bindE_def)

lemma bindE_eq_Inr:
  "bindE m f = Inr r \<longleftrightarrow> (\<exists>v. m = Inr v \<and> f v = Inr r)"
  by (cases m) simp_all

subsection \<open>Loops\<close>

lemma bindE_InrE:
  assumes "bindE m f = Inr r"
  obtains v where "m = Inr v" and "f v = Inr r"
  using assms by (cases m) simp_all

lemma for_each_append:
  "for_each (xs @ ys) body s = bindE (for_each xs body s) (for_each ys body)"
  by (induction xs arbitrary: s) (auto simp: bindE_def split: sum.splits)

lemma for_range_0 [simp]: "for_range 0 body s = Inr s"
  by (simp add: for_range_def)

lemma for_range_Suc: "for_range (Suc n) body s = bindE (for_range n body s) (body n)"
  by (simp add: for_range_def for_each_append) (simp add: bindE_def split: sum.splits)

lemma for_range_2: "for_range 2 body s = bindE (body 0 s) (body 1)"
  by (simp add: numeral_2_eq_2 for_range_Suc)

text \<open>A property of the state that every pass keeps holds after the loop.\<close>

lemma for_range_invariant:
  assumes "for_range n body s = Inr s'" and "P s"
    and "\<And>i t t'. i < n \<Longrightarrow> P t \<Longrightarrow> body i t = Inr t' \<Longrightarrow> P t'"
  shows "P s'"
proof -
  have "for_range m body s = Inr u \<Longrightarrow> m \<le> n \<Longrightarrow> P u" for m u
  proof (induction m arbitrary: u)
    case 0
    then show ?case using assms(2) by simp
  next
    case (Suc m)
    from Suc.prems(1) obtain t where t: "for_range m body s = Inr t" and b: "body m t = Inr u"
      by (auto simp: for_range_Suc bindE_eq_Inr)
    have "P t" using Suc.IH [OF t] Suc.prems(2) by simp
    then show ?case using assms(3) [of m t u] b Suc.prems(2) by simp
  qed
  then show ?thesis using assms(1) by blast
qed

text \<open>The same with a property that depends on the number of passes made.\<close>

lemma for_range_counted:
  assumes "for_range n body s = Inr s'" and "P 0 s"
    and "\<And>i t t'. i < n \<Longrightarrow> P i t \<Longrightarrow> body i t = Inr t' \<Longrightarrow> P (Suc i) t'"
  shows "P n s'"
proof -
  have "for_range m body s = Inr u \<Longrightarrow> m \<le> n \<Longrightarrow> P m u" for m u
  proof (induction m arbitrary: u)
    case 0
    then show ?case using assms(2) by simp
  next
    case (Suc m)
    from Suc.prems(1) obtain t where t: "for_range m body s = Inr t" and b: "body m t = Inr u"
      by (auto simp: for_range_Suc bindE_eq_Inr)
    have "P m t" using Suc.IH [OF t] Suc.prems(2) by simp
    then show ?case using assms(3) [of m t u] b Suc.prems(2) by simp
  qed
  then show ?thesis using assms(1) by blast
qed

text \<open>A loop whose every pass succeeds from a state with the invariant succeeds.\<close>

lemma for_range_succeeds:
  assumes "P 0 s"
    and "\<And>i t. i < n \<Longrightarrow> P i t \<Longrightarrow> \<exists>t'. body i t = Inr t' \<and> P (Suc i) t'"
  shows "\<exists>s'. for_range n body s = Inr s' \<and> P n s'"
proof -
  have "m \<le> n \<Longrightarrow> \<exists>u. for_range m body s = Inr u \<and> P m u" for m
  proof (induction m)
    case 0
    then show ?case using assms(1) by simp
  next
    case (Suc m)
    then obtain t where t: "for_range m body s = Inr t" and p: "P m t" by auto
    from assms(2) [of m t] p Suc.prems obtain u where "body m t = Inr u" and "P (Suc m) u"
      by auto
    then show ?case using t by (auto simp: for_range_Suc)
  qed
  then show ?thesis by blast
qed

subsection \<open>What an access that succeeds gives\<close>

lemma py_index_Inr: "py_index xs i = Inr v \<Longrightarrow> v = xs ! i \<and> i < length xs"
  by (simp add: py_index_def split: if_splits)

lemma py_assign_Inr: "py_assign xs i v = Inr ys \<Longrightarrow> ys = xs[i := v] \<and> i < length xs"
  by (simp add: py_assign_def split: if_splits)

lemma pv_assign_Inr:
  "pv_assign v i r = Inr w \<Longrightarrow> \<exists>xs. v = PyList xs \<and> w = PyList (xs[i := r]) \<and> i < length xs"
  by (cases v) (auto simp: pv_assign_def py_assign_def bindE_eq_Inr split: if_splits)

lemma pv_index_Inr:
  "pv_index v i = Inr r \<Longrightarrow> \<exists>xs. v = PyList xs \<and> r = xs ! i \<and> i < length xs"
  by (cases v) (auto simp: pv_index_def py_index_def split: if_splits)

lemma py_div_Inr: "py_div a b = Inr r \<Longrightarrow> r = a / b \<and> b \<noteq> 0"
  by (simp add: py_div_def split: if_splits)

lemma np_div_Inr: "np_div a b = Inr r \<Longrightarrow> r = a / b \<and> b \<noteq> 0"
  by (simp add: np_div_def split: if_splits)

lemma py_last_Inr: "py_last xs = Inr v \<Longrightarrow> v = last xs \<and> xs \<noteq> []"
  by (simp add: py_last_def split: if_splits)

subsection \<open>The airfoil\<close>

lemma np_interp_total:
  "xp \<noteq> [] \<Longrightarrow> length fp = length xp \<Longrightarrow> \<exists>v. np_interp x xp fp = Inr v"
  by (simp add: np_interp_def)

lemma Airfoil_get_aero_coef_value:
  assumes "Airfoil_tables_of_init af" and "af_use_windtunel af \<or> af_use_windtunnel_modified af"
  shows "\<exists>cl cd k af'. Airfoil_get_aero_coef af a
           = Inr ((Airfoil_sign_correction a * (cl * cos (abs a) + cd * sin (abs a)),
                   - cl * sin (abs a) + cd * cos (abs a), k), af')
         \<and> np_interp (abs a) (if af_use_windtunel af then af_aoa_cl af else af_aoa_cl_modified af)
               (if af_use_windtunel af then af_cl_list af else af_cl_list_modified af) = Inr cl
         \<and> np_interp (abs a) (af_aoa_cd af) (af_cd_list af) = Inr cd"
proof -
  let ?xp = "if af_use_windtunel af then af_aoa_cl af else af_aoa_cl_modified af"
  let ?fp = "if af_use_windtunel af then af_cl_list af else af_cl_list_modified af"
  have "?xp \<noteq> [] \<and> length ?fp = length ?xp"
    using assms(1) by (simp add: Airfoil_tables_of_init_def Airfoil_init_def)
  then obtain cl where cl: "np_interp (abs a) ?xp ?fp = Inr cl"
    using np_interp_total by blast
  have "af_aoa_cd af \<noteq> [] \<and> length (af_cd_list af) = length (af_aoa_cd af)"
    using assms(1) by (simp add: Airfoil_tables_of_init_def Airfoil_init_def)
  then obtain cd where cd: "np_interp (abs a) (af_aoa_cd af) (af_cd_list af) = Inr cd"
    using np_interp_total by blast
  show ?thesis
    using cl cd assms(2)
    by (auto simp add: Airfoil_get_aero_coef_def Airfoil_calculate_cn_ca_def
        Airfoil_calculate_cn_alpha_def Let_def)
qed

lemma cl_at_zero:
  assumes "Airfoil_tables_of_init af"
  shows "np_interp 0 (if af_use_windtunel af then af_aoa_cl af else af_aoa_cl_modified af)
               (if af_use_windtunel af then af_cl_list af else af_cl_list_modified af) = Inr 0"
  using assms by (simp add: Airfoil_tables_of_init_def Airfoil_init_def np_interp_def)

text \<open>
  C2. For every angle \<open>a\<close>, \<^verbatim>\<open>Airfoil.get_aero_coef\<close> returns at \<open>- a\<close> the same axial
  coefficient \<^verbatim>\<open>ca\<close> as at \<open>a\<close> and the opposite normal coefficient \<^verbatim>\<open>cn\<close>, for the tables of
  the constructor and either wind tunnel table selected (the constructor selects the
  modified one).
\<close>

theorem airfoil_cn_odd_ca_even:
  assumes "Airfoil_tables_of_init af" and "af_use_windtunel af \<or> af_use_windtunnel_modified af"
  shows "\<exists>cn ca k k' af1 af2.
           Airfoil_get_aero_coef af a = Inr ((cn, ca, k), af1)
         \<and> Airfoil_get_aero_coef af (- a) = Inr ((- cn, ca, k'), af2)"
proof -
  obtain cl cd k af1 where
    p: "Airfoil_get_aero_coef af a
           = Inr ((Airfoil_sign_correction a * (cl * cos (abs a) + cd * sin (abs a)),
                   - cl * sin (abs a) + cd * cos (abs a), k), af1)"
    and cl: "np_interp (abs a) (if af_use_windtunel af then af_aoa_cl af else af_aoa_cl_modified af)
               (if af_use_windtunel af then af_cl_list af else af_cl_list_modified af) = Inr cl"
    and cd: "np_interp (abs a) (af_aoa_cd af) (af_cd_list af) = Inr cd"
    using Airfoil_get_aero_coef_value [OF assms, of a] by blast
  obtain cl' cd' k' af2 where
    n: "Airfoil_get_aero_coef af (- a)
           = Inr ((Airfoil_sign_correction (- a) * (cl' * cos (abs (- a)) + cd' * sin (abs (- a))),
                   - cl' * sin (abs (- a)) + cd' * cos (abs (- a)), k'), af2)"
    and cl': "np_interp (abs (- a)) (if af_use_windtunel af then af_aoa_cl af else af_aoa_cl_modified af)
               (if af_use_windtunel af then af_cl_list af else af_cl_list_modified af) = Inr cl'"
    and cd': "np_interp (abs (- a)) (af_aoa_cd af) (af_cd_list af) = Inr cd'"
    using Airfoil_get_aero_coef_value [OF assms, of "- a"] by blast
  have e: "cl' = cl" "cd' = cd" using cl cl' cd cd' by simp_all
  have "Airfoil_sign_correction (- a) * (cl * cos (abs a) + cd * sin (abs a))
          = - (Airfoil_sign_correction a * (cl * cos (abs a) + cd * sin (abs a)))"
  proof (cases "a = 0")
    case True
    then have "cl = 0" using cl cl_at_zero [OF assms(1)] by simp
    then show ?thesis using True by simp
  next
    case False
    then show ?thesis by (simp add: Airfoil_sign_correction_def)
  qed
  then show ?thesis using p n e by simp
qed

theorem airfoil_cn_odd_ca_even_witness:
  "(\<exists>cn ca k k' af1 af2.
      Airfoil_get_aero_coef Airfoil_init 0.5 = Inr ((cn, ca, k), af1)
    \<and> Airfoil_get_aero_coef Airfoil_init (- 0.5) = Inr ((- cn, ca, k'), af2))
   \<and> (\<exists>cn ca k k' af1 af2.
      Airfoil_get_aero_coef Airfoil_init 0 = Inr ((cn, ca, k), af1)
    \<and> Airfoil_get_aero_coef Airfoil_init (- 0) = Inr ((- cn, ca, k'), af2))"
proof -
  have t: "Airfoil_tables_of_init Airfoil_init" by (simp add: Airfoil_tables_of_init_def)
  have f: "af_use_windtunel Airfoil_init \<or> af_use_windtunnel_modified Airfoil_init"
    by (simp add: Airfoil_init_def)
  show ?thesis
    using airfoil_cn_odd_ca_even [OF t f, of "0.5"] airfoil_cn_odd_ca_even [OF t f, of 0]
    by (rule conjI)
qed

subsection \<open>Configuring the body\<close>

lemma body_arrays_initialize: "0 < n \<Longrightarrow> body_arrays n (initialize self n)"
  by (simp add: body_arrays_def initialize_def)

lemma update_rocket_dim_step_arrays:
  assumes "body_arrays n self" and "update_rocket_dim_step i self = Inr self'"
  shows "body_arrays n self' \<and> rocket_dim self' = rocket_dim self"
proof (cases "ogive self")
  case True
  show ?thesis
    using assms(2) True unfolding update_rocket_dim_step_def Let_def
    apply (elim bindE_InrE)
    apply (simp del: bindE_simps)
    apply (elim bindE_InrE)
    apply (drule py_assign_Inr)+
    using assms(1) apply (clarsimp simp add: body_arrays_def)
    done
next
  case False
  show ?thesis
    using assms(2) False unfolding update_rocket_dim_step_def Let_def
    apply (elim bindE_InrE)
    apply (drule py_assign_Inr)+
    using assms(1) apply (clarsimp simp add: body_arrays_def)
    done
qed

lemma compute_total_rocket_plan_area_frame:
  assumes "compute_total_rocket_plan_area self = Inr self'"
  shows "\<exists>a. self' = self\<lparr>plan_area := a\<rparr>"
  using assms unfolding compute_total_rocket_plan_area_def Let_def
  apply (rule for_range_invariant [where P = "\<lambda>t. \<exists>a. t = self\<lparr>plan_area := a\<rparr>"])
   apply blast
  subgoal for i t t'
    unfolding compute_total_rocket_plan_area_step_def
    apply (elim bindE_InrE exE)
    apply (rule exI [of _ "plan_area t'"])
    apply auto
    done
  done

lemma calculate_wet_area_body_frame:
  assumes "calculate_wet_area_body self = Inr self'"
  shows "\<exists>c b. self' = self\<lparr>area_wet_component := c, area_wet_body := b\<rparr>"
proof -
  let ?s0 = "self\<lparr>area_wet_component := PyList (replicate (length (rocket_dim self) - 1) 0)\<rparr>"
  from assms obtain u where
    u: "for_range (length (rocket_dim ?s0) - 1) calculate_wet_area_body_step ?s0 = Inr u"
    and v: "for_range (length (rocket_dim (u\<lparr>area_wet_body := 0\<rparr>)) - 1)
              calculate_wet_area_body_sum_step (u\<lparr>area_wet_body := 0\<rparr>) = Inr self'"
    unfolding calculate_wet_area_body_def Let_def by (elim bindE_InrE) blast
  have "\<exists>c. u = self\<lparr>area_wet_component := c\<rparr>"
    using u
    apply (rule for_range_invariant [where P = "\<lambda>t. \<exists>c. t = self\<lparr>area_wet_component := c\<rparr>"])
     apply blast
    subgoal for i t t'
      unfolding calculate_wet_area_body_step_def Let_def
      apply (elim bindE_InrE exE)
      apply (rule exI [of _ "area_wet_component t'"])
      apply auto
      done
    done
  then obtain c where c: "u = self\<lparr>area_wet_component := c\<rparr>" by blast
  have "\<exists>b. self' = u\<lparr>area_wet_body := b\<rparr>"
    using v
    apply (rule for_range_invariant [where P = "\<lambda>t. \<exists>b. t = u\<lparr>area_wet_body := b\<rparr>"])
     apply blast
    subgoal for i t t'
      unfolding calculate_wet_area_body_sum_step_def
      apply (elim bindE_InrE exE)
      apply (rule exI [of _ "area_wet_body t'"])
      apply auto
      done
    done
  then show ?thesis using c by auto
qed

lemma update_rocket_dim_needs_two:
  assumes "update_rocket_dim self l = Inr self'"
  shows "2 \<le> length l"
  using assms unfolding update_rocket_dim_def Let_def
  apply (elim bindE_InrE)
  apply (drule py_index_Inr)
  apply (simp add: initialize_def)
  done

lemma update_rocket_dim_arrays:
  assumes "update_rocket_dim self l = Inr self'"
  shows "body_arrays (length l) self' \<and> rocket_dim self' = l"
proof -
  have "0 < length l" using update_rocket_dim_needs_two [OF assms] by auto
  with assms show ?thesis
    unfolding update_rocket_dim_def Let_def
  apply (elim bindE_InrE)
  apply (drule compute_total_rocket_plan_area_frame)
  apply (drule calculate_wet_area_body_frame)
  apply (elim exE)
  apply (erule for_range_invariant
      [where P = "\<lambda>t. body_arrays (length l) t \<and> rocket_dim t = l"])
   apply (simp add: body_arrays_def initialize_def)
  apply (drule update_rocket_dim_step_arrays [rotated])
   apply (erule conjunct1)
  apply simp
  done
qed

lemma calculate_pitch_damping_body_frame:
  assumes "calculate_pitch_damping_body self = Inr self'"
  shows "\<exists>a b c. self' = self\<lparr>avg_rad_fore := a, avg_rad_aft := b, q_damp_body := c\<rparr>"
  using assms
  unfolding calculate_pitch_damping_body_def calculate_avg_radius_fore_def
    calculate_avg_radius_aft_def Let_def
  apply (elim bindE_InrE)
  apply (rule exI [of _ "avg_rad_fore self'"], rule exI [of _ "avg_rad_aft self'"],
      rule exI [of _ "q_damp_body self'"])
  apply auto
  done

lemma calculate_reynolds_crit_frame:
  assumes "calculate_reynolds_crit self = Inr self'"
  shows "\<exists>c. self' = self\<lparr>relative_rough := 60 / 10 ^ 6, reynolds_crit := c\<rparr>"
  using assms unfolding calculate_reynolds_crit_def Let_def
  apply (elim bindE_InrE)
  apply (rule exI [of _ "reynolds_crit self'"])
  apply auto
  done

lemma calculate_reynolds_crit_value:
  assumes "calculate_reynolds_crit self = Inr self'"
  shows "length_rocket self' \<noteq> 0 \<and> relative_rough self' = 60 / 10 ^ 6
         \<and> reynolds_crit self'
              = (if 60 / 10 ^ 6 / length_rocket self' < 0 then None
                 else Some (51 * ((60 / 10 ^ 6 / length_rocket self') powr (- 1.039))))"
  using assms unfolding calculate_reynolds_crit_def Let_def
  apply (elim bindE_InrE)
  apply (drule py_div_Inr)
  apply auto
  done

lemma update_rocket_reynolds_crit:
  assumes "update_rocket self d x = Inr self'"
  shows "length_rocket self' \<noteq> 0 \<and> relative_rough self' = 60 / 10 ^ 6
         \<and> reynolds_crit self'
              = (if 60 / 10 ^ 6 / length_rocket self' < 0 then None
                 else Some (51 * ((60 / 10 ^ 6 / length_rocket self') powr (- 1.039))))"
  using assms unfolding update_rocket_def Let_def
  apply (elim bindE_InrE)
  apply (erule calculate_reynolds_crit_value)
  done

lemma update_rocket_frame:
  assumes "update_rocket self d x = Inr self'"
  shows "\<exists>s1 F a b c r.
           update_rocket_dim
             (self\<lparr>ogive := l_ogive d, use_fins := l_use_fins d,
                   fins_attached := (l_fin0_attached d, l_fin1_attached d),
                   use_fins_control := l_use_fins_control d\<rparr>) (l_rocket_dim d) = Inr s1
         \<and> self' = s1\<lparr>fin := F, xcg := x, avg_rad_fore := a, avg_rad_aft := b,
                       q_damp_body := c, relative_rough := 60 / 10 ^ 6, reynolds_crit := r\<rparr>"
  using assms unfolding update_rocket_def Let_def
  apply (elim bindE_InrE)
  apply (drule calculate_pitch_damping_body_frame)
  apply (drule calculate_reynolds_crit_frame)
  apply (elim exE)
  apply (rule exI, rule exI [of _ "fin self'"], rule exI [of _ "avg_rad_fore self'"],
      rule exI [of _ "avg_rad_aft self'"], rule exI [of _ "q_damp_body self'"],
      rule exI [of _ "reynolds_crit self'"], rule conjI, assumption)
  apply (split if_split_asm)
   apply (elim bindE_InrE)
   apply (split if_split_asm)
    apply (elim bindE_InrE)
    apply auto[1]
   apply auto[1]
  apply auto
  done

lemma update_rocket_dim_step_frame:
  assumes "update_rocket_dim_step i t = Inr t'"
  shows "\<exists>a b c d. t' = t\<lparr>station_cross_area := a, component_plan_area := b,
                               component_volume := c, component_centroid := d\<rparr>"
  using assms unfolding update_rocket_dim_step_def Let_def
  apply (elim bindE_InrE)
  apply (rule exI [of _ "station_cross_area t'"], rule exI [of _ "component_plan_area t'"],
      rule exI [of _ "component_volume t'"], rule exI [of _ "component_centroid t'"])
  apply (split if_split_asm)
   apply (elim bindE_InrE)
   apply auto
  done

lemma update_rocket_dim_frame:
  assumes "update_rocket_dim self l = Inr self'"
  shows "\<exists>a b c d m x dm f p w wb.
           self' = (initialize (self\<lparr>rocket_dim := l\<rparr>) (length l))
                     \<lparr>station_cross_area := a, component_plan_area := b,
                      component_volume := c, component_centroid := d,
                      max_diam := m, length_rocket := x, diameter := dm, fineness := f,
                      plan_area := p, area_wet_component := w, area_wet_body := wb,
                      area_ref := pi * (m / 2)\<^sup>2\<rparr>"
  using assms unfolding update_rocket_dim_def Let_def
  apply (elim bindE_InrE)
  apply (drule compute_total_rocket_plan_area_frame)
  apply (drule calculate_wet_area_body_frame)
  apply (elim exE)
  apply (erule for_range_invariant)
   apply (rule exI [of _ "replicate (length l) 0"], rule exI [of _ "replicate (length l - 1) 0"],
      rule exI [of _ "replicate (length l - 1) 0"], rule exI [of _ "replicate (length l - 1) 0"])
   apply (rule exI, rule exI, rule exI, rule exI, rule exI, rule exI, rule exI)
   apply (simp add: initialize_def)
  apply (drule update_rocket_dim_step_frame)
  apply (elim exE)
  subgoal for v va vb vc vd ve a c b i t t'
    apply (rule exI [of _ "station_cross_area t'"], rule exI [of _ "component_plan_area t'"],
      rule exI [of _ "component_volume t'"], rule exI [of _ "component_centroid t'"],
      rule exI [of _ "max_diam t'"], rule exI [of _ "length_rocket t'"],
      rule exI [of _ "diameter t'"], rule exI [of _ "fineness t'"],
      rule exI [of _ "plan_area t'"], rule exI [of _ "area_wet_component t'"],
      rule exI [of _ "area_wet_body t'"])
    apply auto
    done
  done

lemmas prim_defs = py_index_def py_assign_def py_last_def py_div_def np_div_def pv_index_def
  pv_assign_def finite_val_def np_sqrt_def

lemmas for_range_eval = for_range_Suc numeral_2_eq_2 numeral_3_eq_3

lemmas geometry_defs = update_rocket_dim_def initialize_def maximum_diameter_def
  maximum_diameter_step_def compute_total_rocket_plan_area_def
  compute_total_rocket_plan_area_step_def calculate_wet_area_body_def
  calculate_wet_area_body_step_def calculate_wet_area_body_sum_step_def
  update_rocket_dim_step_def

lemmas fin_geometry_defs = Fin_update_def Fin_calculate_real_dimension_def Fin_dim_at_def
  Fin_calculate_area_def Fin_calculate_mac_xf_ar_def Fin_calculate_force_application_point_def
  Fin_calculate_sweepback_angle_def

lemmas setup_defs = update_rocket_def calculate_pitch_damping_body_def
  calculate_avg_radius_fore_def calculate_avg_radius_aft_def calculate_reynolds_crit_def

lemma cone_cylinder_dim:
  assumes "0 < dm"
  shows "\<exists>s. update_rocket_dim self [(0, 0), (x1, dm), (x2, dm)] = Inr s
          \<and> station_cross_area s = [0, pi * (dm / 2)\<^sup>2, pi * (dm / 2)\<^sup>2]
          \<and> area_ref s = pi * (dm / 2)\<^sup>2
          \<and> component_plan_area s
               = [if ogive self then 2 / 3 * x1 * dm else x1 * (dm / 2), (x2 - x1) * dm]
          \<and> component_centroid s
               = [if ogive self then 0.4625 * x1 else x1 * dm / (3 * (dm / 2)),
                  (x2 - x1) * (3 * (dm / 2)) / (3 * dm)]
          \<and> max_diam s = dm \<and> length_rocket s = x2 \<and> fineness s = x2 / dm"
  using assms
  by (simp add: geometry_defs for_range_eval prim_defs Let_def)

lemma zero_fin_succeeds: "\<exists>f. Fin_update f0 zero_fin True = Inr f"
  by (simp add: fin_geometry_defs zero_fin_def prim_defs Let_def)

text \<open>
  A cone and a cylinder without fins, with the centre of gravity inside the body, is
  accepted by \<^verbatim>\<open>update_rocket\<close>; the arrays that the aerodynamics read are these.
\<close>

lemma cone_cylinder_rocket:
  assumes "0 < dm" and "0 < x" and "x < x2"
    and "l_rocket_dim d = [(0, 0), (x1, dm), (x2, dm)]" and "\<not> l_use_fins d"
  shows "\<exists>s. update_rocket self d x = Inr s
          \<and> rocket_dim s = [(0, 0), (x1, dm), (x2, dm)]
          \<and> station_cross_area s = [0, pi * (dm / 2)\<^sup>2, pi * (dm / 2)\<^sup>2]
          \<and> area_ref s = pi * (dm / 2)\<^sup>2
          \<and> component_plan_area s
               = [if l_ogive d then 2 / 3 * x1 * dm else x1 * (dm / 2), (x2 - x1) * dm]
          \<and> length (component_cn s) = 2 \<and> length (component_cn_alpha s) = 2
          \<and> length (component_centroid s) = 2
          \<and> \<not> use_fins s \<and> ogive s = l_ogive d
          \<and> length_rocket s = x2 \<and> fineness s = x2 / dm
          \<and> reynolds_crit s = Some (51 * ((60 / 10 ^ 6 / x2) powr (- 1.039)))
          \<and> relative_rough s = 60 / 10 ^ 6
          \<and> aoa_list_ca s = aoa_list_ca self \<and> ca_scale s = ca_scale self
          \<and> printed s = printed self"
proof -
  let ?s0 = "self\<lparr>ogive := l_ogive d, use_fins := l_use_fins d,
                   fins_attached := (l_fin0_attached d, l_fin1_attached d),
                   use_fins_control := l_use_fins_control d\<rparr>"
  obtain s1 where s1: "update_rocket_dim ?s0 [(0, 0), (x1, dm), (x2, dm)] = Inr s1"
    and f1: "station_cross_area s1 = [0, pi * (dm / 2)\<^sup>2, pi * (dm / 2)\<^sup>2]"
      "area_ref s1 = pi * (dm / 2)\<^sup>2"
      "component_plan_area s1
         = [if ogive ?s0 then 2 / 3 * x1 * dm else x1 * (dm / 2), (x2 - x1) * dm]"
      "length_rocket s1 = x2" "fineness s1 = x2 / dm"
    using cone_cylinder_dim [OF assms(1), of ?s0 x1 x2] by blast
  obtain a b c e m xl dd f p w wb where
    fr: "s1 = (initialize (?s0\<lparr>rocket_dim := [(0, 0), (x1, dm), (x2, dm)]\<rparr>)
                  (length [(0, 0), (x1, dm), (x2, dm)]))
                     \<lparr>station_cross_area := a, component_plan_area := b,
                      component_volume := c, component_centroid := e,
                      max_diam := m, length_rocket := xl, diameter := dd, fineness := f,
                      plan_area := p, area_wet_component := w, area_wet_body := wb,
                      area_ref := pi * (m / 2)\<^sup>2\<rparr>"
    using update_rocket_dim_frame [OF s1] by blast
  have ar: "body_arrays 3 s1" and rd: "rocket_dim s1 = [(0, 0), (x1, dm), (x2, dm)]"
    using update_rocket_dim_arrays [OF s1] by (simp_all add: numeral_3_eq_3)
  obtain fz where fz: "Fin_update (snd (fin s1)) zero_fin True = Inr fz"
    using zero_fin_succeeds by blast
  have g: "use_fins s1 = l_use_fins d" "ogive s1 = l_ogive d" "printed s1 = printed self"
    "aoa_list_ca s1 = aoa_list_ca self" "ca_scale s1 = ca_scale self"
    by (simp_all add: fr initialize_def)
  have x2: "x2 \<noteq> 0" "0 < x2" using assms(2,3) by simp_all
  have "\<exists>s. update_rocket self d x = Inr s"
    using s1 fz rd g(1) f1(4) assms(2-5) x2
    by (simp add: setup_defs Let_def prim_defs)
  then obtain s where s: "update_rocket self d x = Inr s" by blast
  from update_rocket_frame [OF s] assms(4) s1 obtain F a' b' c' r where
    sf: "s = s1\<lparr>fin := F, xcg := x, avg_rad_fore := a', avg_rad_aft := b',
                  q_damp_body := c', relative_rough := 60 / 10 ^ 6, reynolds_crit := r\<rparr>"
    by auto
  have l: "length_rocket s = x2" using sf f1(4) by simp
  have rc: "reynolds_crit s = Some (51 * ((60 / 10 ^ 6 / x2) powr (- 1.039)))"
    using update_rocket_reynolds_crit [OF s] l x2 by simp
  have "rocket_dim s = [(0, 0), (x1, dm), (x2, dm)]
          \<and> station_cross_area s = [0, pi * (dm / 2)\<^sup>2, pi * (dm / 2)\<^sup>2]
          \<and> area_ref s = pi * (dm / 2)\<^sup>2
          \<and> component_plan_area s
               = [if l_ogive d then 2 / 3 * x1 * dm else x1 * (dm / 2), (x2 - x1) * dm]
          \<and> length (component_cn s) = 2 \<and> length (component_cn_alpha s) = 2
          \<and> length (component_centroid s) = 2
          \<and> \<not> use_fins s \<and> ogive s = l_ogive d
          \<and> length_rocket s = x2 \<and> fineness s = x2 / dm
          \<and> relative_rough s = 60 / 10 ^ 6
          \<and> aoa_list_ca s = aoa_list_ca self \<and> ca_scale s = ca_scale self
          \<and> printed s = printed self"
    using f1 g ar rd assms(5) by (simp add: sf body_arrays_def)
  then show ?thesis using s rc by simp
qed

text \<open>
  C6. Configuring the body with \<open>N\<close> stations leaves \<^verbatim>\<open>station_cross_area\<close> with \<open>N\<close>
  entries, the first of them 0, and \<^verbatim>\<open>component_plan_area\<close>, \<^verbatim>\<open>component_volume\<close>,
  \<^verbatim>\<open>component_centroid\<close>, \<^verbatim>\<open>component_cn\<close>, \<^verbatim>\<open>component_cn_alpha\<close> and \<^verbatim>\<open>component_cm\<close> with
  \<open>N - 1\<close> entries each: \<^verbatim>\<open>__initialize\<close> creates them so, and \<^verbatim>\<open>_update_rocket_dim\<close> and
  \<^verbatim>\<open>update_rocket\<close>, which return only for \<open>N \<ge> 2\<close>, keep the lengths and the first
  cross-section.
\<close>

theorem body_arrays_of_stations:
  "(0 < n \<longrightarrow> body_arrays n (initialize self n))
   \<and> (update_rocket_dim self l = Inr self' \<longrightarrow>
        2 \<le> length l \<and> body_arrays (length l) self')
   \<and> (update_rocket self0 d x = Inr self'' \<longrightarrow>
        2 \<le> length (l_rocket_dim d) \<and> body_arrays (length (l_rocket_dim d)) self'')"
proof (intro conjI impI)
  assume "0 < n"
  then show "body_arrays n (initialize self n)" by (rule body_arrays_initialize)
next
  assume a: "update_rocket_dim self l = Inr self'"
  show "2 \<le> length l" using update_rocket_dim_needs_two [OF a] .
  show "body_arrays (length l) self'" using update_rocket_dim_arrays [OF a] by simp
next
  assume a: "update_rocket self0 d x = Inr self''"
  from update_rocket_frame [OF a] obtain s1 F a' b' c' r where
    s1: "update_rocket_dim
             (self0\<lparr>ogive := l_ogive d, use_fins := l_use_fins d,
                   fins_attached := (l_fin0_attached d, l_fin1_attached d),
                   use_fins_control := l_use_fins_control d\<rparr>) (l_rocket_dim d) = Inr s1"
    and sf: "self'' = s1\<lparr>fin := F, xcg := x, avg_rad_fore := a', avg_rad_aft := b',
                       q_damp_body := c', relative_rough := 60 / 10 ^ 6, reynolds_crit := r\<rparr>"
    by blast
  show "2 \<le> length (l_rocket_dim d)" using update_rocket_dim_needs_two [OF s1] .
  show "body_arrays (length (l_rocket_dim d)) self''"
    using update_rocket_dim_arrays [OF s1] by (simp add: sf body_arrays_def)
qed

theorem body_arrays_of_stations_witness:
  "\<exists>s. update_rocket Rocket_init example_data 1.5 = Inr s
      \<and> length (l_rocket_dim example_data) = 3
      \<and> length (station_cross_area s) = 3 \<and> station_cross_area s ! 0 = 0
      \<and> length (component_plan_area s) = 2 \<and> length (component_volume s) = 2
      \<and> length (component_centroid s) = 2 \<and> length (component_cn s) = 2
      \<and> length (component_cn_alpha s) = 2 \<and> length (component_cm s) = 2"
proof -
  obtain s where s: "update_rocket Rocket_init example_data 1.5 = Inr s"
    using cone_cylinder_rocket [of "0.1" "1.5" 3 example_data 1 Rocket_init]
    by (auto simp: example_data_def)
  have "body_arrays (length (l_rocket_dim example_data)) s"
    using body_arrays_of_stations [where ?self0.0 = Rocket_init and d = example_data
        and x = "1.5" and self'' = s] s
    by simp
  then show ?thesis using s by (simp add: body_arrays_def example_data_def)
qed

subsection \<open>What each stage of \<^verbatim>\<open>calculate_aero_coef\<close> changes\<close>

lemma barrowman_cn_frame:
  assumes "barrowman_cn self aoa = Inr self'"
  shows "\<exists>c. self' = self\<lparr>component_cn := c\<rparr> \<and> length c = length (component_cn self)"
  using assms unfolding barrowman_cn_def
  apply (rule for_range_invariant
      [where P = "\<lambda>t. \<exists>c. t = self\<lparr>component_cn := c\<rparr> \<and> length c = length (component_cn self)"])
   apply (rule exI [of _ "component_cn self"])
   apply simp
  unfolding barrowman_cn_step_def
  apply (elim bindE_InrE exE conjE)
  apply (drule py_assign_Inr)
  apply auto
  done

lemma body_cn_frame:
  assumes "body_cn self aoa = Inr self'"
  shows "\<exists>c. self' = self\<lparr>component_cn := c\<rparr> \<and> length c = length (component_cn self)"
  using assms unfolding body_cn_def
  apply (elim bindE_InrE)
  apply (erule for_range_invariant
      [where P = "\<lambda>t. \<exists>c. t = self\<lparr>component_cn := c\<rparr> \<and> length c = length (component_cn self)"])
   apply (rule exI [of _ "component_cn self"])
   apply simp
  unfolding body_cn_add_step_def
  apply (elim bindE_InrE exE conjE)
  apply (drule py_assign_Inr)
  apply auto
  done

lemma calculate_cn_alpha_frame:
  assumes "calculate_cn_alpha self aoa = Inr self'"
  shows "\<exists>c. self' = self\<lparr>component_cn_alpha := c\<rparr>
             \<and> length c = length (component_cn_alpha self)"
  using assms unfolding calculate_cn_alpha_def
  apply (rule for_range_invariant
      [where P = "\<lambda>t. \<exists>c. t = self\<lparr>component_cn_alpha := c\<rparr>
                     \<and> length c = length (component_cn_alpha self)"])
   apply (rule exI [of _ "component_cn_alpha self"])
   apply simp
  unfolding calculate_cn_alpha_step_def
  apply (split if_split_asm)
   apply (elim bindE_InrE exE conjE)
   apply (drule py_assign_Inr)
   apply auto[1]
  apply (elim bindE_InrE exE conjE)
  apply (drule py_assign_Inr)
  apply auto
  done

lemma fin_cn_area_step_frame:
  assumes "fin_cn_area_step i t = Inr t'"
  shows "\<exists>cf. t' = t\<lparr>cn_alpha_fin := cf\<rparr>"
  using assms unfolding fin_cn_area_step_def Let_def
  apply (elim bindE_InrE)
  apply auto
  done

lemma fin_cn_interference_step_frame:
  assumes "fin_cn_interference_step i t = Inr t'"
  shows "\<exists>og cf. t' = t\<lparr>cn_alpha_og := og, cn_alpha_fin := cf\<rparr>"
  using assms unfolding fin_cn_interference_step_def Let_def
  apply (elim bindE_InrE)
  apply (rule exI [of _ "cn_alpha_og t'"], rule exI [of _ "cn_alpha_fin t'"])
  apply (split if_split_asm)
   apply (elim bindE_InrE)
   apply auto
  done

lemma fin_cn_frame:
  assumes "fin_cn self aoa act = Inr self'"
  shows "\<exists>og fc F cf n x.
           self' = self\<lparr>cn_alpha_og := og, cn_alpha_fin_control := fc, fin := F,
                        cn_alpha_fin := cf, cn_alpha_control_normal := n,
                        cn_alpha_axial := x\<rparr>"
  using assms unfolding fin_cn_def Let_def for_range_2
  apply (elim bindE_InrE)
  apply (drule fin_cn_area_step_frame fin_cn_interference_step_frame)+
  apply (elim exE)
  apply (rule exI [of _ "cn_alpha_og self'"], rule exI [of _ "cn_alpha_fin_control self'"],
      rule exI [of _ "fin self'"], rule exI [of _ "cn_alpha_fin self'"],
      rule exI [of _ "cn_alpha_control_normal self'"], rule exI [of _ "cn_alpha_axial self'"])
  apply auto
  done

lemma calculate_total_cn_step_frame:
  assumes "for_range n calculate_total_cn_step s = Inr s'"
  shows "\<exists>c. s' = s\<lparr>cn := c\<rparr>"
  using assms
  apply (rule for_range_invariant [where P = "\<lambda>t. \<exists>c. t = s\<lparr>cn := c\<rparr>"])
   apply (rule exI [of _ "cn s"])
   apply simp
  unfolding calculate_total_cn_step_def
  apply (elim bindE_InrE exE)
  apply auto
  done

lemma calculate_total_cn_fin_step_frame:
  assumes "for_range n (calculate_total_cn_fin_step aoa) s = Inr s'"
  shows "\<exists>c. s' = s\<lparr>cn := c\<rparr>"
  using assms
  apply (rule for_range_invariant [where P = "\<lambda>t. \<exists>c. t = s\<lparr>cn := c\<rparr>"])
   apply (rule exI [of _ "cn s"])
   apply simp
  unfolding calculate_total_cn_fin_step_def
  apply (elim bindE_InrE exE)
  apply auto
  done

lemma calculate_total_cn_frame:
  assumes "calculate_total_cn self aoa act = Inr self'"
  shows "\<exists>c g cc ca og fc F cf n x.
           self' = self\<lparr>cn := c, sign_corr := g, component_cn := cc,
                        component_cn_alpha := ca, cn_alpha_og := og,
                        cn_alpha_fin_control := fc, fin := F, cn_alpha_fin := cf,
                        cn_alpha_control_normal := n, cn_alpha_axial := x\<rparr>
         \<and> length cc = length (component_cn self)
         \<and> length ca = length (component_cn_alpha self)"
  using assms unfolding calculate_total_cn_def Let_def
  apply (elim bindE_InrE)
  apply (drule barrowman_cn_frame)
  apply (drule body_cn_frame)
  apply (drule calculate_cn_alpha_frame)
  apply (drule calculate_total_cn_step_frame)
  apply (elim exE conjE)
  apply (rule exI [of _ "cn self'"], rule exI [of _ "sign_corr self'"],
      rule exI [of _ "component_cn self'"], rule exI [of _ "component_cn_alpha self'"],
      rule exI [of _ "cn_alpha_og self'"], rule exI [of _ "cn_alpha_fin_control self'"],
      rule exI [of _ "fin self'"], rule exI [of _ "cn_alpha_fin self'"],
      rule exI [of _ "cn_alpha_control_normal self'"], rule exI [of _ "cn_alpha_axial self'"])
  apply (split if_split_asm)
   apply (drule fin_cn_frame)
   apply (elim exE)
   apply (split if_split_asm)
    apply (drule calculate_total_cn_fin_step_frame)
    apply (elim exE)
    apply auto[1]
   apply auto[1]
  apply (split if_split_asm)
   apply auto
  done

lemma calculate_cp_position_step_loop:
  assumes "for_range n (calculate_cp_position_step self) ab0 = Inr ab"
  shows "n \<le> length (component_centroid self) \<and> n \<le> length (rocket_dim self)
         \<and> n \<le> length (component_cn_alpha self)
         \<and> fst ab = fst ab0 + sum_list (map (\<lambda>i. (component_centroid self ! i
                + fst (rocket_dim self ! i)) * component_cn_alpha self ! i) [0..<n])
         \<and> snd ab = snd ab0 + sum_list (map (\<lambda>i. component_cn_alpha self ! i) [0..<n])"
  using assms
proof (induction n arbitrary: ab)
  case 0
  then show ?case by simp
next
  case (Suc n)
  from Suc.prems obtain t where t: "for_range n (calculate_cp_position_step self) ab0 = Inr t"
    and b: "calculate_cp_position_step self n t = Inr ab"
    by (auto simp: for_range_Suc bindE_eq_Inr)
  note ih = Suc.IH [OF t]
  from b have "n < length (component_centroid self) \<and> n < length (rocket_dim self)
         \<and> n < length (component_cn_alpha self)
         \<and> ab = (fst t + (component_centroid self ! n + fst (rocket_dim self ! n))
                    * component_cn_alpha self ! n, snd t + component_cn_alpha self ! n)"
    unfolding calculate_cp_position_step_def
    apply (elim bindE_InrE)
    apply (drule py_index_Inr)+
    apply auto
    done
  then show ?case using ih by simp
qed

lemma calculate_cp_position_value:
  assumes "calculate_cp_position self = Inr self'"
  shows "self' = self\<lparr>cp := cp self'\<rparr>
         \<and> length (component_cn_alpha self) \<le> length (component_centroid self)
         \<and> length (component_cn_alpha self) \<le> length (rocket_dim self)
         \<and> (use_fins self \<longrightarrow> (\<exists>xs. cn_alpha_fin self = PyList xs \<and> 2 \<le> length xs))
         \<and> (sum_list (map snd (cp_contributions self)) \<noteq> 0 \<longrightarrow>
              cp self' = sum_list (map (\<lambda>c. fst c * snd c) (cp_contributions self))
                           / sum_list (map snd (cp_contributions self)))
         \<and> (sum_list (map snd (cp_contributions self)) = 0 \<longrightarrow>
              cp self' = component_centroid self ! 0 \<and> 0 < length (component_centroid self))"
proof -
  let ?s = "self\<lparr>cp := 0\<rparr>"
  let ?n = "length (component_cn_alpha self)"
  from assms obtain ab ab' where
    l1: "for_range ?n (calculate_cp_position_step ?s) (0, 0) = Inr ab"
    and l2: "(if use_fins ?s then for_range 2 (calculate_cp_position_fin_step ?s) ab
              else Inr ab) = Inr ab'"
    and fin: "(if snd ab' \<noteq> 0 then Inr (?s\<lparr>cp := fst ab' / snd ab'\<rparr>)
               else bindE (py_index (component_centroid ?s) 0) (\<lambda>c. Inr (?s\<lparr>cp := c\<rparr>)))
              = Inr self'"
    unfolding calculate_cp_position_def Let_def
    apply (elim bindE_InrE)
    apply simp
    done
  have body: "?n \<le> length (component_centroid self)" "?n \<le> length (rocket_dim self)"
    "fst ab = sum_list (map (\<lambda>i. (component_centroid self ! i
                + fst (rocket_dim self ! i)) * component_cn_alpha self ! i) [0..<?n])"
    "snd ab = sum_list (map (\<lambda>i. component_cn_alpha self ! i) [0..<?n])"
    using calculate_cp_position_step_loop [OF l1] by simp_all
  have fins: "(use_fins self \<longrightarrow> (\<exists>xs. cn_alpha_fin self = PyList xs \<and> 2 \<le> length xs))
      \<and> fst ab' = sum_list (map (\<lambda>c. fst c * snd c) (cp_contributions self))
      \<and> snd ab' = sum_list (map snd (cp_contributions self))"
  proof (cases "use_fins self")
    case False
    then have "ab' = ab" using l2 by simp
    then show ?thesis using False body(3,4) by (simp add: cp_contributions_def comp_def)
  next
    case True
    then have "bindE (calculate_cp_position_fin_step ?s 0 ab)
                 (calculate_cp_position_fin_step ?s 1) = Inr ab'"
      using l2 by (simp add: for_range_2)
    then have "\<exists>xs. cn_alpha_fin self = PyList xs \<and> 2 \<le> length xs
        \<and> ab' = (fst ab + fin_cp_total (fst (fin self)) * xs ! 0
                     + fin_cp_total (snd (fin self)) * xs ! 1,
                 snd ab + xs ! 0 + xs ! 1)"
      unfolding calculate_cp_position_fin_step_def
      apply (elim bindE_InrE)
      apply (drule pv_index_Inr)+
      apply (auto simp: fin_at_def)
      done
    then show ?thesis using True body(3,4)
      by (auto simp add: cp_contributions_def comp_def)
  qed
  show ?thesis
  proof (cases "snd ab' = 0")
    case True
    then have "bindE (py_index (component_centroid self) 0) (\<lambda>c. Inr (?s\<lparr>cp := c\<rparr>))
                 = Inr self'"
      using fin by simp
    then have "0 < length (component_centroid self)
        \<and> self' = self\<lparr>cp := component_centroid self ! 0\<rparr>"
      apply (elim bindE_InrE)
      apply (drule py_index_Inr)
      apply auto
      done
    then show ?thesis using True fins body(1,2) by auto
  next
    case False
    then have "self' = self\<lparr>cp := fst ab' / snd ab'\<rparr>" using fin by simp
    then show ?thesis using False fins body(1,2) by auto
  qed
qed

lemma calculate_cf_frame:
  assumes "calculate_cf self = Inr self'"
  shows "\<exists>c. self' = self\<lparr>Cf := c\<rparr>"
  using assms unfolding calculate_cf_def Let_def
  apply (elim bindE_InrE)
  apply auto
  done

lemma pressure_drag_step_frame:
  assumes "pressure_drag_step i st = Inr st'"
  shows "\<exists>c p. fst st' = (fst st)\<lparr>cd_pressure_component := c, printed := p\<rparr>"
  using assms unfolding pressure_drag_step_def Let_def
  apply (elim bindE_InrE)
  apply (rule exI [of _ "cd_pressure_component (fst st')"], rule exI [of _ "printed (fst st')"])
  apply auto
  done

lemma calculate_pressure_drag_frame:
  assumes "calculate_pressure_drag self = Inr self'"
  shows "\<exists>c p. self' = self\<lparr>cd_pressure_component := c, printed := p\<rparr>"
proof -
  let ?n = "length (rocket_dim self) - 1"
  let ?s = "self\<lparr>cd_pressure_component := PyList (replicate ?n 0)\<rparr>"
  from assms obtain st where
    l: "for_range ?n pressure_drag_step (?s, None) = Inr st"
    and r: "(if ogive (fst st)
            then bindE (pv_assign (cd_pressure_component (fst st)) 0 0) (\<lambda>c.
                   Inr ((fst st)\<lparr>cd_pressure_component := c\<rparr>))
            else Inr (fst st)) = Inr self'"
    unfolding calculate_pressure_drag_def Let_def
    apply (elim bindE_InrE)
    apply simp
    done
  have "\<exists>c p. fst st = self\<lparr>cd_pressure_component := c, printed := p\<rparr>"
    using l
    apply (rule for_range_invariant
        [where P = "\<lambda>t. \<exists>c p. fst t = self\<lparr>cd_pressure_component := c, printed := p\<rparr>"])
     apply (rule exI [of _ "PyList (replicate ?n 0)"], rule exI [of _ "printed self"])
     apply simp
    apply (drule pressure_drag_step_frame)
    apply (elim exE)
    subgoal for i t t'
      apply (rule exI [of _ "cd_pressure_component (fst t')"], rule exI [of _ "printed (fst t')"])
      apply auto
      done
    done
  then obtain c p where f: "fst st = self\<lparr>cd_pressure_component := c, printed := p\<rparr>"
    by blast
  show ?thesis
    using r
    apply (split if_split_asm)
     apply (elim bindE_InrE)
     apply (rule exI [of _ "cd_pressure_component self'"], rule exI [of _ "printed self'"])
     apply (auto simp: f)[1]
    apply (rule exI [of _ "cd_pressure_component self'"], rule exI [of _ "printed self'"])
    apply (auto simp: f)
    done
qed

lemma calculate_cd_step_frame:
  assumes "calculate_cd_step n aoa i t = Inr t'"
  shows "\<exists>c p. t' = t\<lparr>cd_pressure_component := c, pressure_cd := p\<rparr>"
  using assms unfolding calculate_cd_step_def Let_def
  apply (rule_tac exI [of _ "cd_pressure_component t'"], rule_tac exI [of _ "pressure_cd t'"])
  apply (split if_split_asm)
   apply (elim bindE_InrE)
   apply auto[1]
  apply (elim bindE_InrE)
  apply auto
  done

lemma calculate_cd_frame:
  assumes "calculate_cd self aoa = Inr self'"
  shows "\<exists>f c p b d. self' = self\<lparr>cd0_friction := f, cd_pressure_component := c,
                                    pressure_cd := p, base_drag_cd := b, cd0 := d\<rparr>"
  using assms unfolding calculate_cd_def Let_def
  apply (elim bindE_InrE)
  apply (rule exI [of _ "cd0_friction self'"], rule exI [of _ "cd_pressure_component self'"],
      rule exI [of _ "pressure_cd self'"], rule exI [of _ "base_drag_cd self'"],
      rule exI [of _ "cd0 self'"])
  subgoal for v va vb vc vd
    apply (subgoal_tac "\<exists>c p. vb = (self\<lparr>cd0_friction := va, pressure_cd := 0\<rparr>)
                 \<lparr>cd_pressure_component := c, pressure_cd := p\<rparr>")
     apply auto[1]
    apply (erule for_range_invariant)
     apply (rule exI [of _ "cd_pressure_component self"], rule exI [of _ 0])
     apply simp
    apply (drule calculate_cd_step_frame)
    apply (elim exE)
    subgoal for i t t'
      apply (rule exI [of _ "cd_pressure_component t'"], rule exI [of _ "pressure_cd t'"])
      apply auto
      done
    done
  done

lemma fin_ca_sum_frame:
  assumes "fin_ca_sum self = Inr self'"
  shows "\<exists>c. self' = self\<lparr>ca := c\<rparr>"
  using assms unfolding fin_ca_sum_def for_range_2 fin_ca_step_def
  apply (elim bindE_InrE)
  apply auto
  done

lemma calculate_ca_frame:
  assumes "calculate_ca self aoa = Inr self'"
  shows "\<exists>c. self' = self\<lparr>ca := c\<rparr>"
  using assms unfolding calculate_ca_def Let_def control_fin_drag_def
  apply (elim bindE_InrE)
  apply (split if_split_asm)
   apply (elim bindE_InrE)
   apply (drule fin_ca_sum_frame)
   apply auto
  done

lemma calculate_total_ca_frame:
  assumes "calculate_total_ca self aoa velocity_0 rho mu = Inr self'"
  shows "\<exists>re c cp p b f pc bc d a.
           self' = self\<lparr>reynolds := re, Cf := c, cd_pressure_component := cp, printed := p,
                        base_drag := b, cd0_friction := f, pressure_cd := pc,
                        base_drag_cd := bc, cd0 := d, ca := a\<rparr>"
  using assms
  unfolding calculate_total_ca_def Let_def calculate_reynolds_def calculate_base_drag_def
  apply (elim bindE_InrE)
  apply (drule calculate_cf_frame)
  apply (drule calculate_pressure_drag_frame)
  apply (drule calculate_cd_frame)
  apply (drule calculate_ca_frame)
  apply (elim exE)
  apply (rule exI [of _ "reynolds self'"], rule exI [of _ "Cf self'"],
      rule exI [of _ "cd_pressure_component self'"], rule exI [of _ "printed self'"],
      rule exI [of _ "base_drag self'"], rule exI [of _ "cd0_friction self'"],
      rule exI [of _ "pressure_cd self'"], rule exI [of _ "base_drag_cd self'"],
      rule exI [of _ "cd0 self'"], rule exI [of _ "ca self'"])
  apply auto
  done

text \<open>The three stages of \<^verbatim>\<open>calculate_aero_coef\<close> and the object each starts from.\<close>

lemma calculate_aero_coef_stages:
  assumes "calculate_aero_coef self aoa v rho mu m act q = Inr (r, s)"
  shows "\<exists>v0 v1 s1 s2.
           py_index v 0 = Inr v0 \<and> py_index v 1 = Inr v1
         \<and> calculate_total_cn
              (self\<lparr>q_dyn := Some q, v_loc_tot := v,
                    mach := (if m < 0.001 then 0.001 else m),
                    beta := np_sqrt (1 - m\<^sup>2), actuator_angle := act,
                    aoa_ctrl_fin := aoa - act\<rparr>) aoa act = Inr s1
         \<and> calculate_cp_position s1 = Inr s2
         \<and> calculate_total_ca s2 aoa (sqrt (v0\<^sup>2 + v1\<^sup>2)) rho mu = Inr s
         \<and> r = (cn s, cp s, ca s)"
  using assms unfolding calculate_aero_coef_def Let_def
  apply (elim bindE_InrE)
  apply (cases "m < 0.001")
   apply auto
  done

lemmas cn_defs = calculate_total_cn_def barrowman_cn_def barrowman_cn_step_def body_cn_def
  body_cn_step_def body_cn_add_step_def calculate_cn_alpha_def calculate_cn_alpha_step_def
  calculate_total_cn_step_def

lemma length_2_conv: "length xs = 2 \<longleftrightarrow> (\<exists>a b. xs = [a, b])"
  by (auto simp: numeral_2_eq_2 length_Suc_conv)

lemma cone_cylinder_total_cn:
  assumes "cone_cylinder x1 x2 dm s" and "0 < dm"
  shows "\<exists>s1. calculate_total_cn s aoa act = Inr s1
           \<and> cn s1 = cone_cylinder_cn (ogive s) x1 x2 dm aoa"
proof -
  obtain c0 c1 where c: "component_cn s = [c0, c1]"
    using assms(1) by (auto simp: cone_cylinder_def length_2_conv)
  obtain a0 a1 where a: "component_cn_alpha s = [a0, a1]"
    using assms(1) by (auto simp: cone_cylinder_def length_2_conv)
  have A: "pi * (dm / 2)\<^sup>2 \<noteq> 0" using assms(2) by simp
  have f: "station_cross_area s = [0, pi * (dm / 2)\<^sup>2, pi * (dm / 2)\<^sup>2]"
    "area_ref s = pi * (dm / 2)\<^sup>2"
    "component_plan_area s
           = [if ogive s then 2 / 3 * x1 * dm else x1 * (dm / 2), (x2 - x1) * dm]"
    "\<not> use_fins s"
    using assms(1) by (simp_all add: cone_cylinder_def)
  define A where "A = pi * (dm / 2)\<^sup>2"
  define P0 where "P0 = (if ogive s then 2 / 3 * x1 * dm else x1 * (dm / 2))"
  define P1 where "P1 = (x2 - x1) * dm"
  define ang where "ang = (if aoa = 0 then 0.0001 else \<bar>aoa\<bar>)"
  have A0: "A \<noteq> 0" using A by (simp add: A_def)
  have g: "station_cross_area s = [0, A, A]" "area_ref s = A" "component_plan_area s = [P0, P1]"
    using f by (simp_all add: A_def P0_def P1_def)
  have "\<exists>s1. calculate_total_cn s aoa act = Inr s1
           \<and> cn s1 = sign_correction aoa
                * (0 + (2 * sin ang / A * (A - 0) + 1.1 * (P0 / A) * (sin ang)\<^sup>2)
                     + (2 * sin ang / A * (A - A) + 1.1 * (P1 / A) * (sin ang)\<^sup>2))"
    using c a g f(4) A0
    by (simp add: cn_defs for_range_eval prim_defs Let_def ang_def)
  moreover have "sign_correction aoa
                * (0 + (2 * sin ang / A * (A - 0) + 1.1 * (P0 / A) * (sin ang)\<^sup>2)
                     + (2 * sin ang / A * (A - A) + 1.1 * (P1 / A) * (sin ang)\<^sup>2))
        = cone_cylinder_cn (ogive s) x1 x2 dm aoa"
  proof -
    have e1: "2 * sin ang / A * (A - 0) = 2 * sin ang" using A0 by simp
    have e2: "2 * sin ang / A * (A - A) = 0" by simp
    have e3: "1.1 * (P0 / A) * (sin ang)\<^sup>2 + 1.1 * (P1 / A) * (sin ang)\<^sup>2
                = 1.1 * ((P0 + P1) / A) * (sin ang)\<^sup>2"
      by (simp add: add_divide_distrib algebra_simps)
    have "0 + (2 * sin ang / A * (A - 0) + 1.1 * (P0 / A) * (sin ang)\<^sup>2)
                     + (2 * sin ang / A * (A - A) + 1.1 * (P1 / A) * (sin ang)\<^sup>2)
          = 2 * sin ang + 1.1 * ((P0 + P1) / A) * (sin ang)\<^sup>2"
      using e3 by (simp only: e1 e2)
    then show ?thesis
      by (simp only: cone_cylinder_cn_def Let_def A_def P0_def P1_def ang_def)
  qed
  ultimately show ?thesis by simp
qed

lemma ln_large: 
  assumes "100000 \<le> (re :: real)"
  shows "4 < ln re"
proof -
  have "exp (4 :: real) = exp (of_nat 4 * 1)" by simp
  also have "\<dots> = exp 1 ^ 4" by (rule exp_of_nat_mult)
  also have "\<dots> \<le> (3 :: real) ^ 4" by (intro power_mono exp_le) simp
  finally have "exp (4 :: real) < re" using assms by simp
  moreover have "0 < re" using assms by simp
  ultimately show ?thesis by (metis exp_less_cancel_iff exp_ln)
qed

lemma calculate_cf_succeeds:
  assumes "reynolds_crit s = Some c" and "0 < length_rocket s" and "0 \<le> relative_rough s"
  shows "\<exists>s'. calculate_cf s = Inr s'"
proof (cases "np_less (reynolds s) 100000")
  case True
  then show ?thesis by (simp add: calculate_cf_def Let_def)
next
  case False
  show ?thesis
  proof (cases "np_less (reynolds s) c")
    case True
    then obtain re where re: "reynolds s = Finite re"
      using False by (cases "reynolds s") (simp_all add: np_less_def)
    then have "100000 \<le> re" using False by (simp add: np_less_def)
    then have "4 < ln re" by (rule ln_large)
    then have "1.5 * ln re - 5.6 \<noteq> 0" by simp
    then show ?thesis
      using False True re assms(1) by (simp add: calculate_cf_def Let_def np_div_def)
  next
    case c: False
    have "\<not> relative_rough s / length_rocket s < 0" using assms(2,3) by (simp add: not_less)
    then show ?thesis
      using False c assms by (simp add: calculate_cf_def Let_def py_div_def)
  qed
qed

lemma calculate_cp_position_succeeds:
  assumes "length (component_cn_alpha s) \<le> length (component_centroid s)"
    and "length (component_cn_alpha s) \<le> length (rocket_dim s)"
    and "\<not> use_fins s" and "0 < length (component_centroid s)"
  shows "\<exists>s'. calculate_cp_position s = Inr s'"
proof -
  have "\<exists>ab. for_range (length (component_cn_alpha s))
                (calculate_cp_position_step (s\<lparr>cp := 0\<rparr>)) (0, 0) = Inr ab \<and> True"
    apply (rule for_range_succeeds [where P = "\<lambda>i t. True"])
     apply simp
    using assms(1,2) apply (simp add: calculate_cp_position_step_def py_index_def)
    done
  then obtain ab where "for_range (length (component_cn_alpha s))
                (calculate_cp_position_step (s\<lparr>cp := 0\<rparr>)) (0, 0) = Inr ab" by blast
  then show ?thesis
    using assms(3,4) by (simp add: calculate_cp_position_def Let_def py_index_def)
qed

lemmas ca_defs = calculate_pressure_drag_def pressure_drag_step_def calculate_base_drag_def
  calculate_cd_def calculate_cd_step_def calculate_ca_def

lemma cone_cylinder_total_ca:
  assumes "cone_cylinder x1 x2 dm s" and "0 < dm" and "x1 \<noteq> 0" and "0 < x2"
  shows "\<exists>s'. calculate_total_ca s aoa velocity_0 rho mu = Inr s'
           \<and> printed s' = printed s @ (if x2 - x1 = 0 then [''Component length is zero''] else [])"
proof -
  let ?s0 = "calculate_reynolds s velocity_0 rho mu"
  have f: "rocket_dim s = [(0, 0), (x1, dm), (x2, dm)]"
    "station_cross_area s = [0, pi * (dm / 2)\<^sup>2, pi * (dm / 2)\<^sup>2]"
    "area_ref s = pi * (dm / 2)\<^sup>2" "\<not> use_fins s"
    "length_rocket s = x2" "fineness s = x2 / dm"
    "reynolds_crit s = Some (51 * ((60 / 10 ^ 6 / x2) powr (- 1.039)))"
    "relative_rough s = 60 / 10 ^ 6"
    "aoa_list_ca s = aoa_list_ca Rocket_init" "ca_scale s = ca_scale Rocket_init"
    using assms(1) by (simp_all add: cone_cylinder_def)
  obtain s1 where s1: "calculate_cf ?s0 = Inr s1"
    using calculate_cf_succeeds [of ?s0] f(5,7,8) assms(4)
    by (auto simp: calculate_reynolds_def)
  obtain c where c: "s1 = ?s0\<lparr>Cf := c\<rparr>" using calculate_cf_frame [OF s1] by blast
  obtain v where v: "np_interp aoa (aoa_list_ca Rocket_init) (ca_scale Rocket_init) = Inr v"
    using np_interp_total [of "aoa_list_ca Rocket_init" "ca_scale Rocket_init" aoa]
    by (auto simp: Rocket_init_def)
  define A where "A = pi * (dm / 2)\<^sup>2"
  define rr :: real where "rr = 60 / 10 ^ 6"
  define fn where "fn = x2 / dm"
  have A: "A \<noteq> 0" "fn \<noteq> 0" using assms(2,4) by (simp_all add: A_def fn_def)
  have g: "station_cross_area s = [0, A, A]" "area_ref s = A" "fineness s = fn"
    "relative_rough s = rr"
    using f by (simp_all add: A_def rr_def fn_def)
  show ?thesis
    unfolding calculate_total_ca_def Let_def
    using s1 f(1,4,5,9,10) g v A assms(3)
    by (simp add: c ca_defs calculate_reynolds_def for_range_eval prim_defs Let_def)
qed

text \<open>
  \<^verbatim>\<open>calculate_aero_coef\<close> on a cone and a cylinder without fins returns for every flight
  state, with the normal force coefficient \<open>cone_cylinder_cn\<close>, and leaves the object
  configured as it was.
\<close>

lemma cone_cylinder_evaluate:
  assumes "cone_cylinder x1 x2 dm s" and "0 < dm" and "x1 \<noteq> 0" and "0 < x2"
    and "2 \<le> length v"
  shows "\<exists>p a s'. calculate_aero_coef s aoa v rho mu m act q
                    = Inr ((cone_cylinder_cn (ogive s) x1 x2 dm aoa, p, a), s')
           \<and> cone_cylinder x1 x2 dm s' \<and> ogive s' = ogive s
           \<and> printed s'
                = printed s @ (if x2 - x1 = 0 then [''Component length is zero''] else [])
           \<and> mach s' = (if m < 0.001 then 0.001 else m)
           \<and> beta s' = np_sqrt (1 - m\<^sup>2)"
proof -
  let ?s0 = "(if m < 0.001 then s\<lparr>q_dyn := Some q, v_loc_tot := v, mach := 0.001\<rparr>
              else s\<lparr>q_dyn := Some q, v_loc_tot := v, mach := m\<rparr>)
               \<lparr>beta := np_sqrt (1 - m\<^sup>2), actuator_angle := act, aoa_ctrl_fin := aoa - act\<rparr>"
  have c0: "cone_cylinder x1 x2 dm ?s0" and o0: "ogive ?s0 = ogive s"
    and p0: "printed ?s0 = printed s"
    using assms(1) by (simp_all add: cone_cylinder_def)
  obtain s1 where s1: "calculate_total_cn ?s0 aoa act = Inr s1"
    and cn1: "cn s1 = cone_cylinder_cn (ogive s) x1 x2 dm aoa"
    using cone_cylinder_total_cn [OF c0 assms(2), of aoa act] o0 by auto
  obtain c g cc ca' og fc F cf n x where
    f1: "s1 = ?s0\<lparr>cn := c, sign_corr := g, component_cn := cc,
                        component_cn_alpha := ca', cn_alpha_og := og,
                        cn_alpha_fin_control := fc, fin := F, cn_alpha_fin := cf,
                        cn_alpha_control_normal := n, cn_alpha_axial := x\<rparr>"
    and l1: "length cc = length (component_cn ?s0)"
      "length ca' = length (component_cn_alpha ?s0)"
    using calculate_total_cn_frame [OF s1] by blast
  have c1: "cone_cylinder x1 x2 dm s1"
    using c0 l1 unfolding cone_cylinder_def by (simp add: f1)
  have h1: "length (component_cn_alpha s1) \<le> length (component_centroid s1)"
    "length (component_cn_alpha s1) \<le> length (rocket_dim s1)"
    "\<not> use_fins s1" "0 < length (component_centroid s1)"
    using c1 by (simp_all add: cone_cylinder_def)
  obtain s2 where s2: "calculate_cp_position s1 = Inr s2"
    using calculate_cp_position_succeeds [OF h1] by blast
  have f2: "s2 = s1\<lparr>cp := cp s2\<rparr>" using calculate_cp_position_value [OF s2] by simp
  have c2: "cone_cylinder x1 x2 dm s2"
    using c1 unfolding cone_cylinder_def by (subst f2, simp)+
  obtain v0 v1 vs where v: "v = v0 # v1 # vs"
    using assms(5) by (cases v; cases "tl v") auto
  obtain s3 where s3: "calculate_total_ca s2 aoa (sqrt (v0\<^sup>2 + v1\<^sup>2)) rho mu = Inr s3"
    and p3: "printed s3
               = printed s2 @ (if x2 - x1 = 0 then [''Component length is zero''] else [])"
    using cone_cylinder_total_ca [OF c2 assms(2,3,4)] by blast
  obtain re c' cp' p b f pc bc d a where
    f3: "s3 = s2\<lparr>reynolds := re, Cf := c', cd_pressure_component := cp', printed := p,
                        base_drag := b, cd0_friction := f, pressure_cd := pc,
                        base_drag_cd := bc, cd0 := d, ca := a\<rparr>"
    using calculate_total_ca_frame [OF s3] by blast
  have c3: "cone_cylinder x1 x2 dm s3"
    using c2 unfolding cone_cylinder_def by (simp add: f3)
  have e2: "cn s2 = cn s1" "ogive s2 = ogive s1" "printed s2 = printed s1" "mach s2 = mach s1"
    "beta s2 = beta s1"
    by (subst f2, simp)+
  have "calculate_aero_coef s aoa v rho mu m act q = Inr ((cn s3, cp s3, ca s3), s3)"
    using s1 s2 s3 v
    by (simp add: calculate_aero_coef_def Let_def py_index_def if_distrib [of "\<lambda>t. t\<lparr>beta := _\<rparr>"]
        split: if_splits)
  moreover have "cn s3 = cone_cylinder_cn (ogive s) x1 x2 dm aoa"
    using cn1 e2 by (simp add: f3)
  moreover have "ogive s3 = ogive s" "mach s3 = (if m < 0.001 then 0.001 else m)"
    "beta s3 = np_sqrt (1 - m\<^sup>2)"
    using e2 by (simp_all add: f3 f1)
  moreover have "printed s3
      = printed s @ (if x2 - x1 = 0 then [''Component length is zero''] else [])"
    using p3 e2 by (simp add: f1)
  ultimately show ?thesis using c3 by simp
qed

subsection \<open>The example body\<close>

lemma configured_cone_cylinder:
  assumes "update_rocket self d x = Inr s"
    and "l_rocket_dim d = [(0, 0), (x1, dm), (x2, dm)]" and "\<not> l_use_fins d"
    and "0 < dm" and "0 < x2"
    and "aoa_list_ca self = aoa_list_ca Rocket_init" and "ca_scale self = ca_scale Rocket_init"
  shows "cone_cylinder x1 x2 dm s \<and> ogive s = l_ogive d \<and> printed s = printed self"
proof -
  let ?s0 = "self\<lparr>ogive := l_ogive d, use_fins := l_use_fins d,
                   fins_attached := (l_fin0_attached d, l_fin1_attached d),
                   use_fins_control := l_use_fins_control d\<rparr>"
  from update_rocket_frame [OF assms(1)] assms(2) obtain s1 F a' b' c' r where
    s1: "update_rocket_dim ?s0 [(0, 0), (x1, dm), (x2, dm)] = Inr s1"
    and sf: "s = s1\<lparr>fin := F, xcg := x, avg_rad_fore := a', avg_rad_aft := b',
                  q_damp_body := c', relative_rough := 60 / 10 ^ 6, reynolds_crit := r\<rparr>"
    by auto
  have f1: "station_cross_area s1 = [0, pi * (dm / 2)\<^sup>2, pi * (dm / 2)\<^sup>2]"
      "area_ref s1 = pi * (dm / 2)\<^sup>2"
      "component_plan_area s1
         = [if ogive ?s0 then 2 / 3 * x1 * dm else x1 * (dm / 2), (x2 - x1) * dm]"
      "length_rocket s1 = x2" "fineness s1 = x2 / dm"
    using cone_cylinder_dim [OF assms(4), of ?s0 x1 x2] s1 by auto
  obtain a b c e m xl dd f p w wb where
    fr: "s1 = (initialize (?s0\<lparr>rocket_dim := [(0, 0), (x1, dm), (x2, dm)]\<rparr>)
                  (length [(0, 0), (x1, dm), (x2, dm)]))
                     \<lparr>station_cross_area := a, component_plan_area := b,
                      component_volume := c, component_centroid := e,
                      max_diam := m, length_rocket := xl, diameter := dd, fineness := f,
                      plan_area := p, area_wet_component := w, area_wet_body := wb,
                      area_ref := pi * (m / 2)\<^sup>2\<rparr>"
    using update_rocket_dim_frame [OF s1] by blast
  have ar: "body_arrays 3 s1" and rd: "rocket_dim s1 = [(0, 0), (x1, dm), (x2, dm)]"
    using update_rocket_dim_arrays [OF s1] by (simp_all add: numeral_3_eq_3)
  have g: "use_fins s1 = l_use_fins d" "ogive s1 = l_ogive d" "printed s1 = printed self"
    "aoa_list_ca s1 = aoa_list_ca self" "ca_scale s1 = ca_scale self"
    by (simp_all add: fr initialize_def)
  have l: "length_rocket s = x2" using sf f1(4) by simp
  have rc: "reynolds_crit s = Some (51 * ((60 / 10 ^ 6 / x2) powr (- 1.039)))"
    using update_rocket_reynolds_crit [OF assms(1)] l assms(5) by simp
  have "rocket_dim s = [(0, 0), (x1, dm), (x2, dm)]
          \<and> station_cross_area s = [0, pi * (dm / 2)\<^sup>2, pi * (dm / 2)\<^sup>2]
          \<and> area_ref s = pi * (dm / 2)\<^sup>2
          \<and> component_plan_area s
               = [if l_ogive d then 2 / 3 * x1 * dm else x1 * (dm / 2), (x2 - x1) * dm]
          \<and> length (component_cn s) = 2 \<and> length (component_cn_alpha s) = 2
          \<and> length (component_centroid s) = 2
          \<and> \<not> use_fins s \<and> ogive s = l_ogive d
          \<and> length_rocket s = x2 \<and> fineness s = x2 / dm
          \<and> relative_rough s = 60 / 10 ^ 6
          \<and> aoa_list_ca s = aoa_list_ca self \<and> ca_scale s = ca_scale self
          \<and> printed s = printed self"
    using f1 g ar rd assms(3) by (simp add: sf body_arrays_def)
  then show ?thesis using rc assms(6,7) by (simp add: cone_cylinder_def)
qed

lemma example_rocket_configured:
  "update_rocket Rocket_init example_data 1.5 = Inr example_rocket
   \<and> cone_cylinder 1 3 0.1 example_rocket \<and> \<not> ogive example_rocket
   \<and> printed example_rocket = []"
proof -
  obtain s where s: "update_rocket Rocket_init example_data 1.5 = Inr s"
    using cone_cylinder_rocket [of "0.1" "1.5" 3 example_data 1 Rocket_init]
    by (auto simp: example_data_def)
  then have e: "example_rocket = s" by (simp add: example_rocket_def)
  have "cone_cylinder 1 3 0.1 s \<and> ogive s = l_ogive example_data
           \<and> printed s = printed Rocket_init"
    using s by (intro configured_cone_cylinder [where x = "1.5" and d = example_data])
      (simp_all add: example_data_def)
  then show ?thesis using s e by (simp add: example_data_def Rocket_init_def)
qed

subsection \<open>Mach number and Prandtl-Glauert factor\<close>

text \<open>
  C3, as amended. \<^verbatim>\<open>calculate_aero_coef\<close> stores the Mach number clamped to the minimum
  0.001 in \<^verbatim>\<open>self.mach\<close>, and computes \<^verbatim>\<open>self.beta\<close> as \<^verbatim>\<open>sqrt(1 - mach**2)\<close> from the Mach
  number it was passed, not from the clamped one. The two agree from Mach 0.001 on.
\<close>

theorem mach_clamped_beta_from_argument:
  assumes "calculate_aero_coef self aoa v rho mu m act q = Inr (r, s)"
  shows "mach s = max m 0.001 \<and> beta s = np_sqrt (1 - m\<^sup>2)
         \<and> (0.001 \<le> m \<longrightarrow> beta s = np_sqrt (1 - (mach s)\<^sup>2))"
proof -
  let ?s0 = "self\<lparr>q_dyn := Some q, v_loc_tot := v,
                    mach := (if m < 0.001 then 0.001 else m),
                    beta := np_sqrt (1 - m\<^sup>2), actuator_angle := act,
                    aoa_ctrl_fin := aoa - act\<rparr>"
  from calculate_aero_coef_stages [OF assms] obtain v0 v1 s1 s2 where
    s1: "calculate_total_cn ?s0 aoa act = Inr s1"
    and s2: "calculate_cp_position s1 = Inr s2"
    and s3: "calculate_total_ca s2 aoa (sqrt (v0\<^sup>2 + v1\<^sup>2)) rho mu = Inr s"
    by blast
  obtain c g cc ca' og fc F cf n x where
    f1: "s1 = ?s0\<lparr>cn := c, sign_corr := g, component_cn := cc,
                        component_cn_alpha := ca', cn_alpha_og := og,
                        cn_alpha_fin_control := fc, fin := F, cn_alpha_fin := cf,
                        cn_alpha_control_normal := n, cn_alpha_axial := x\<rparr>"
    using calculate_total_cn_frame [OF s1] by blast
  have f2: "s2 = s1\<lparr>cp := cp s2\<rparr>" using calculate_cp_position_value [OF s2] by simp
  obtain re c' cp' p b f pc bc d a where
    f3: "s = s2\<lparr>reynolds := re, Cf := c', cd_pressure_component := cp', printed := p,
                        base_drag := b, cd0_friction := f, pressure_cd := pc,
                        base_drag_cd := bc, cd0 := d, ca := a\<rparr>"
    using calculate_total_ca_frame [OF s3] by blast
  have "mach s2 = mach s1" "beta s2 = beta s1" by (subst f2, simp)+
  then have "mach s = (if m < 0.001 then 0.001 else m)" "beta s = np_sqrt (1 - m\<^sup>2)"
    by (simp_all add: f3 f1)
  then show ?thesis by (auto simp: max_def)
qed

theorem mach_clamped_beta_from_argument_witness:
  "\<exists>r s. calculate_aero_coef example_rocket 0 [10, 0] 1.225 (1.784 / 10 ^ 5) 0 0 0 = Inr (r, s)
      \<and> mach s = 0.001 \<and> beta s = Some 1"
proof -
  have c: "cone_cylinder 1 3 0.1 example_rocket" using example_rocket_configured by simp
  obtain p a s where
    e: "calculate_aero_coef example_rocket 0 [10, 0] 1.225 (1.784 / 10 ^ 5) 0 0 0
          = Inr ((cone_cylinder_cn (ogive example_rocket) 1 3 0.1 0, p, a), s)"
    using cone_cylinder_evaluate [OF c, of "[10, 0]" 0 "1.225" "1.784 / 10 ^ 5" 0 0 0]
    by auto
  show ?thesis
    using e mach_clamped_beta_from_argument [OF e] by (simp add: np_sqrt_def)
qed

text \<open>
  C3 as stated fails at Mach 0, the rocket at rest: the Mach number used is 0.001, and
  \<^verbatim>\<open>beta\<close> is 1, not the square root of \<open>1 - 0.001\<^sup>2\<close>.
\<close>

theorem beta_not_from_clamped_mach_counterexample:
  "\<not> isl (calculate_aero_coef example_rocket 0 [10, 0] 1.225 (1.784 / 10 ^ 5) 0 0 0)
   \<and> mach (snd (projr (calculate_aero_coef example_rocket 0 [10, 0] 1.225
                          (1.784 / 10 ^ 5) 0 0 0))) = 0.001
   \<and> beta (snd (projr (calculate_aero_coef example_rocket 0 [10, 0] 1.225
                          (1.784 / 10 ^ 5) 0 0 0))) = Some 1
   \<and> beta (snd (projr (calculate_aero_coef example_rocket 0 [10, 0] 1.225
                          (1.784 / 10 ^ 5) 0 0 0)))
       \<noteq> np_sqrt (1 - (mach (snd (projr (calculate_aero_coef example_rocket 0 [10, 0] 1.225
                          (1.784 / 10 ^ 5) 0 0 0))))\<^sup>2)"
proof -
  have c: "cone_cylinder 1 3 0.1 example_rocket" using example_rocket_configured by simp
  obtain p a s where
    e: "calculate_aero_coef example_rocket 0 [10, 0] 1.225 (1.784 / 10 ^ 5) 0 0 0
          = Inr ((cone_cylinder_cn (ogive example_rocket) 1 3 0.1 0, p, a), s)"
    and m: "mach s = (if (0 :: real) < 0.001 then 0.001 else 0)"
    and b: "beta s = np_sqrt (1 - 0\<^sup>2)"
    using cone_cylinder_evaluate [OF c, of "[10, 0]" 0 "1.225" "1.784 / 10 ^ 5" 0 0 0]
    by auto
  have "sqrt (1 - (0.001 :: real)\<^sup>2) \<noteq> 1" by (simp add: power2_eq_square)
  then show ?thesis using e m b by (simp add: np_sqrt_def power2_eq_square)
qed

subsection \<open>The centre of pressure\<close>





subsection \<open>The normal force of a cone and a cylinder\<close>

lemma cone_cylinder_cn_antitone:
  assumes "0 < dm" and "0 < x1" and "x1 \<le> x2"
    and "0 \<le> a1" and "0 \<le> a2" and "a2 \<le> pi / 2"
    and "(if a1 = 0 then 0.0001 else a1) \<le> (if a2 = 0 then 0.0001 else a2)"
  shows "cone_cylinder_cn og x1 x2 dm a2 \<le> cone_cylinder_cn og x1 x2 dm a1
         \<and> cone_cylinder_cn og x1 x2 dm a1 \<le> 0"
proof -
  define e1 where "e1 = (if a1 = 0 then 0.0001 else a1)"
  define e2 where "e2 = (if a2 = 0 then 0.0001 else a2)"
  define k where "k = 1.1 * (((if og then 2 / 3 * x1 * dm else x1 * (dm / 2)) + (x2 - x1) * dm)
                       / (pi * (dm / 2)\<^sup>2))"
  have small: "(0.0001 :: real) \<le> pi / 2" using pi_ge_two by simp
  have r: "0 < e1" "e1 \<le> e2" "e2 \<le> pi / 2"
    using assms(4-7) small by (auto simp: e1_def e2_def split: if_splits)
  have s1: "0 \<le> sin e1" using r by (intro sin_ge_zero) (use pi_ge_two in auto)
  have s12: "sin e1 \<le> sin e2" using r by (intro sin_monotone_2pi_le) auto
  have sq: "(sin e1)\<^sup>2 \<le> (sin e2)\<^sup>2" using s12 s1 by (rule power_mono)
  have p: "0 \<le> (if og then 2 / 3 * x1 * dm else x1 * (dm / 2)) + (x2 - x1) * dm"
    using assms(1-3) by simp
  have k: "0 \<le> k" unfolding k_def using p assms(1) by simp
  have g: "2 * sin e1 + k * (sin e1)\<^sup>2 \<le> 2 * sin e2 + k * (sin e2)\<^sup>2"
    using s12 sq k by (intro add_mono mult_left_mono) auto
  have g0: "0 \<le> 2 * sin e1 + k * (sin e1)\<^sup>2" using s1 k by simp
  have c1: "cone_cylinder_cn og x1 x2 dm a1 = - (2 * sin e1 + k * (sin e1)\<^sup>2)"
    using assms(4) by (simp add: cone_cylinder_cn_def sign_correction_def e1_def k_def Let_def)
  have c2: "cone_cylinder_cn og x1 x2 dm a2 = - (2 * sin e2 + k * (sin e2)\<^sup>2)"
    using assms(5) by (simp add: cone_cylinder_cn_def sign_correction_def e2_def k_def Let_def)
  show ?thesis using g g0 by (simp add: c1 c2)
qed

text \<open>
  C4, as amended. For a body of a cone and a cylinder configured without fins, at every
  flight state \<^verbatim>\<open>calculate_aero_coef\<close> returns, and between 0 and 90 degrees the \<^verbatim>\<open>CN\<close> it
  returns is not positive and does not increase with the angle of attack: its magnitude
  does not decrease. The angle 0 counts as the angle 0.0001 that the source puts in its
  place.
\<close>

theorem cone_cylinder_cn_nonincreasing:
  assumes "update_rocket self d xcg0 = Inr s"
    and "l_rocket_dim d = [(0, 0), (x1, dm), (x2, dm)]" and "\<not> l_use_fins d"
    and "0 < dm" and "0 < x1" and "x1 < x2"
    and "aoa_list_ca self = aoa_list_ca Rocket_init" and "ca_scale self = ca_scale Rocket_init"
    and "2 \<le> length v"
    and "0 \<le> a1" and "0 \<le> a2" and "a2 \<le> pi / 2"
    and "(if a1 = 0 then 0.0001 else a1) \<le> (if a2 = 0 then 0.0001 else a2)"
  shows "\<exists>c1 p1 d1 s1 c2 p2 d2 s2.
           calculate_aero_coef s a1 v rho mu m act q = Inr ((c1, p1, d1), s1)
         \<and> calculate_aero_coef s a2 v rho mu m act q = Inr ((c2, p2, d2), s2)
         \<and> c2 \<le> c1 \<and> c1 \<le> 0"
proof -
  have x2: "0 < x2" "x1 \<noteq> 0" "x1 \<le> x2" using assms(5,6) by simp_all
  have c: "cone_cylinder x1 x2 dm s"
    using configured_cone_cylinder [OF assms(1,2,3,4) x2(1) assms(7,8)] by simp
  obtain p1 d1 s1 where
    e1: "calculate_aero_coef s a1 v rho mu m act q
           = Inr ((cone_cylinder_cn (ogive s) x1 x2 dm a1, p1, d1), s1)"
    using cone_cylinder_evaluate [OF c assms(4) x2(2) x2(1) assms(9)] by blast
  obtain p2 d2 s2 where
    e2: "calculate_aero_coef s a2 v rho mu m act q
           = Inr ((cone_cylinder_cn (ogive s) x1 x2 dm a2, p2, d2), s2)"
    using cone_cylinder_evaluate [OF c assms(4) x2(2) x2(1) assms(9)] by blast
  show ?thesis
    using e1 e2 cone_cylinder_cn_antitone [OF assms(4,5) x2(3) assms(10-13), of "ogive s"]
    by blast
qed

theorem cone_cylinder_cn_nonincreasing_witness:
  "\<exists>c1 p1 d1 s1 c2 p2 d2 s2.
      calculate_aero_coef example_rocket 0 [50, 0] 1.225 (1.784 / 10 ^ 5) 0.1 0 0
        = Inr ((c1, p1, d1), s1)
    \<and> calculate_aero_coef example_rocket (pi / 2) [50, 0] 1.225 (1.784 / 10 ^ 5) 0.1 0 0
        = Inr ((c2, p2, d2), s2)
    \<and> c2 \<le> c1 \<and> c1 \<le> 0"
proof -
  have u: "update_rocket Rocket_init example_data 1.5 = Inr example_rocket"
    using example_rocket_configured by simp
  have h: "l_rocket_dim example_data = [(0, 0), (1, 0.1), (3, 0.1)]"
    "\<not> l_use_fins example_data" "(0 :: real) < 0.1" "(0 :: real) < 1" "(1 :: real) < 3"
    "aoa_list_ca Rocket_init = aoa_list_ca Rocket_init"
    "ca_scale Rocket_init = ca_scale Rocket_init" "2 \<le> length [50, 0 :: real]"
    "(0 :: real) \<le> 0" "0 \<le> pi / 2" "pi / 2 \<le> pi / 2"
    by (simp_all add: example_data_def)
  have e: "(if (0 :: real) = 0 then 0.0001 else 0) \<le> (if pi / 2 = 0 then 0.0001 else pi / 2)"
    using pi_ge_two by simp
  show ?thesis
    using cone_cylinder_cn_nonincreasing [OF u h e] .
qed

text \<open>
  C4 as stated fails on the example body: from 30 to 90 degrees the \<^verbatim>\<open>CN\<close> returned
  decreases, since \<^verbatim>\<open>__sign_correction\<close> makes it negative for a positive angle of attack.
\<close>

theorem cn_decreases_counterexample:
  "\<not> isl (calculate_aero_coef example_rocket (pi / 6) [50, 0] 1.225 (1.784 / 10 ^ 5) 0.1 0 0)
   \<and> \<not> isl (calculate_aero_coef example_rocket (pi / 2) [50, 0] 1.225 (1.784 / 10 ^ 5) 0.1 0 0)
   \<and> 0 \<le> pi / 6 \<and> pi / 6 \<le> pi / 2
   \<and> fst (fst (projr (calculate_aero_coef example_rocket (pi / 2) [50, 0] 1.225
                        (1.784 / 10 ^ 5) 0.1 0 0)))
       < fst (fst (projr (calculate_aero_coef example_rocket (pi / 6) [50, 0] 1.225
                        (1.784 / 10 ^ 5) 0.1 0 0)))"
proof -
  have c: "cone_cylinder 1 3 0.1 example_rocket" and o: "\<not> ogive example_rocket"
    using example_rocket_configured by simp_all
  obtain p1 d1 s1 where
    e1: "calculate_aero_coef example_rocket (pi / 6) [50, 0] 1.225 (1.784 / 10 ^ 5) 0.1 0 0
           = Inr ((cone_cylinder_cn (ogive example_rocket) 1 3 0.1 (pi / 6), p1, d1), s1)"
    using cone_cylinder_evaluate [OF c, of "[50, 0]" "pi / 6" "1.225" "1.784 / 10 ^ 5" "0.1" 0 0]
    by auto
  obtain p2 d2 s2 where
    e2: "calculate_aero_coef example_rocket (pi / 2) [50, 0] 1.225 (1.784 / 10 ^ 5) 0.1 0 0
           = Inr ((cone_cylinder_cn (ogive example_rocket) 1 3 0.1 (pi / 2), p2, d2), s2)"
    using cone_cylinder_evaluate [OF c, of "[50, 0]" "pi / 2" "1.225" "1.784 / 10 ^ 5" "0.1" 0 0]
    by auto
  define k :: real where "k = 1.1 * ((1 * (0.1 / 2) + (3 - 1) * 0.1) / (pi * (0.1 / 2)\<^sup>2))"
  have k: "0 < k" unfolding k_def by simp
  have v1: "cone_cylinder_cn False 1 3 0.1 (pi / 6) = - (2 * (1 / 2) + k * (1 / 2)\<^sup>2)"
    unfolding cone_cylinder_cn_def Let_def k_def sign_correction_def
    by (simp add: sin_30)
  have v2: "cone_cylinder_cn False 1 3 0.1 (pi / 2) = - (2 * 1 + k * 1\<^sup>2)"
    unfolding cone_cylinder_cn_def Let_def k_def sign_correction_def
    by simp
  have "cone_cylinder_cn False 1 3 0.1 (pi / 2) < cone_cylinder_cn False 1 3 0.1 (pi / 6)"
    unfolding v1 v2 using k by (simp add: power2_eq_square)
  then show ?thesis using e1 e2 o by simp
qed

subsection \<open>Segments of zero length\<close>

lemma pressure_drag_step_printed:
  assumes "pressure_drag_step i st = Inr st'"
  shows "rocket_dim (fst st') = rocket_dim (fst st)
         \<and> printed (fst st')
             = printed (fst st)
               @ (if fst (rocket_dim (fst st) ! (i + 1)) - fst (rocket_dim (fst st) ! i) = 0
                  then [''Component length is zero''] else [])"
  using assms unfolding pressure_drag_step_def Let_def
  apply (elim bindE_InrE)
  apply (drule py_index_Inr)+
  apply (auto split: if_split_asm)
  done

lemma calculate_pressure_drag_printed:
  assumes "calculate_pressure_drag self = Inr self'"
  shows "printed self'
           = printed self
             @ replicate (zero_length_segments (rocket_dim self)) ''Component length is zero''"
proof -
  let ?n = "length (rocket_dim self) - 1"
  let ?s = "self\<lparr>cd_pressure_component := PyList (replicate ?n 0)\<rparr>"
  let ?Z = "\<lambda>i. fst (rocket_dim self ! (i + 1)) - fst (rocket_dim self ! i) = 0"
  from assms obtain st where
    l: "for_range ?n pressure_drag_step (?s, None) = Inr st"
    and r: "(if ogive (fst st)
            then bindE (pv_assign (cd_pressure_component (fst st)) 0 0) (\<lambda>c.
                   Inr ((fst st)\<lparr>cd_pressure_component := c\<rparr>))
            else Inr (fst st)) = Inr self'"
    unfolding calculate_pressure_drag_def Let_def
    apply (elim bindE_InrE)
    apply simp
    done
  have "rocket_dim (fst st) = rocket_dim self
        \<and> printed (fst st)
            = printed self @ replicate (length (filter ?Z [0..<?n])) ''Component length is zero''"
    using l
    apply (rule for_range_counted
        [where P = "\<lambda>i t. rocket_dim (fst t) = rocket_dim self
                    \<and> printed (fst t)
                        = printed self
                          @ replicate (length (filter ?Z [0..<i])) ''Component length is zero''"])
     apply simp
    apply (drule pressure_drag_step_printed)
    apply (simp add: replicate_app_Cons_same)
    done
  then have p: "printed (fst st)
            = printed self
              @ replicate (zero_length_segments (rocket_dim self)) ''Component length is zero''"
    by (simp add: zero_length_segments_def)
  have "printed self' = printed (fst st)"
  proof (cases "ogive (fst st)")
    case True
    with r show ?thesis by (auto simp: bindE_eq_Inr)
  next
    case False
    with r show ?thesis by simp
  qed
  then show ?thesis using p by simp
qed

lemma calculate_total_ca_printed:
  assumes "calculate_total_ca self aoa velocity_0 rho mu = Inr self'"
  shows "printed self'
           = printed self
             @ replicate (zero_length_segments (rocket_dim self)) ''Component length is zero''"
  using assms
  unfolding calculate_total_ca_def Let_def calculate_reynolds_def calculate_base_drag_def
  apply (elim bindE_InrE)
  apply (drule calculate_cf_frame)
  apply (drule calculate_pressure_drag_printed)
  apply (drule calculate_cd_frame)
  apply (drule calculate_ca_frame)
  apply (elim exE)
  apply simp
  done

lemma calculate_aero_coef_printed:
  assumes "calculate_aero_coef s aoa v rho mu m act q = Inr (r, s')"
  shows "printed s'
           = printed s
             @ replicate (zero_length_segments (rocket_dim s)) ''Component length is zero''"
proof -
  from calculate_aero_coef_stages [OF assms] obtain v0 v1 s1 s2 where
    a: "calculate_total_cn
              (s\<lparr>q_dyn := Some q, v_loc_tot := v,
                    mach := (if m < 0.001 then 0.001 else m),
                    beta := np_sqrt (1 - m\<^sup>2), actuator_angle := act,
                    aoa_ctrl_fin := aoa - act\<rparr>) aoa act = Inr s1"
    and b: "calculate_cp_position s1 = Inr s2"
    and c: "calculate_total_ca s2 aoa (sqrt (v0\<^sup>2 + v1\<^sup>2)) rho mu = Inr s'"
    by blast
  have 1: "printed s1 = printed s \<and> rocket_dim s1 = rocket_dim s"
    using calculate_total_cn_frame [OF a] by auto
  have f: "s2 = s1\<lparr>cp := cp s2\<rparr>" using calculate_cp_position_value [OF b] by simp
  have 2: "printed s2 = printed s1 \<and> rocket_dim s2 = rocket_dim s1"
    using arg_cong [OF f, of printed] arg_cong [OF f, of rocket_dim] by simp
  show ?thesis using calculate_total_ca_printed [OF c] 1 2 by simp
qed

lemma update_rocket_printed:
  assumes "update_rocket self d x = Inr s"
  shows "printed s = printed self \<and> rocket_dim s = l_rocket_dim d"
proof -
  let ?s0 = "self\<lparr>ogive := l_ogive d, use_fins := l_use_fins d,
                   fins_attached := (l_fin0_attached d, l_fin1_attached d),
                   use_fins_control := l_use_fins_control d\<rparr>"
  from update_rocket_frame [OF assms] obtain s1 F a' b' c' r where
    s1: "update_rocket_dim ?s0 (l_rocket_dim d) = Inr s1"
    and sf: "s = s1\<lparr>fin := F, xcg := x, avg_rad_fore := a', avg_rad_aft := b',
                  q_damp_body := c', relative_rough := 60 / 10 ^ 6, reynolds_crit := r\<rparr>"
    by auto
  have rd: "rocket_dim s1 = l_rocket_dim d"
    using update_rocket_dim_arrays [OF s1] by simp
  have "printed s1 = printed self"
    using update_rocket_dim_frame [OF s1] by (auto simp: initialize_def)
  then show ?thesis using sf rd by simp
qed

lemma zero_length_rocket_configured:
  "update_rocket Rocket_init zero_length_data 0.5 = Inr zero_length_rocket
   \<and> cone_cylinder 1 1 0.1 zero_length_rocket \<and> \<not> ogive zero_length_rocket
   \<and> printed zero_length_rocket = []"
proof -
  obtain s where s: "update_rocket Rocket_init zero_length_data 0.5 = Inr s"
    using cone_cylinder_rocket [of "0.1" "0.5" 1 zero_length_data 1 Rocket_init]
    by (auto simp: zero_length_data_def)
  then have e: "zero_length_rocket = s" by (simp add: zero_length_rocket_def)
  have "cone_cylinder 1 1 0.1 s \<and> ogive s = l_ogive zero_length_data
           \<and> printed s = printed Rocket_init"
    using s by (intro configured_cone_cylinder [where x = "0.5" and d = zero_length_data])
      (simp_all add: zero_length_data_def)
  then show ?thesis using s e by (simp add: zero_length_data_def Rocket_init_def)
qed

lemma zero_length_segments_examples:
  "zero_length_segments [(0, 0), (1, 0.1), (3, 0.1)] = 0"
  "zero_length_segments [(0, 0), (1, 0.1), (1, 0.1)] = 1"
  by (simp_all add: zero_length_segments_def upt_rec [of 0] upt_rec [of 1] upt_rec [of "Suc 0"])

text \<open>
  C5, as amended. \<^verbatim>\<open>update_rocket\<close> reports nothing, whatever the stations: when it returns
  it has printed nothing. Every call of \<^verbatim>\<open>calculate_aero_coef\<close> that returns has printed
  the line \<^verbatim>\<open>Component length is zero\<close> once for each segment of zero length of the
  station list, so on every query for a body with such a segment and never for a body
  without one.
\<close>

theorem zero_length_reported_at_evaluation:
  assumes "update_rocket self d x = Inr s"
    and "calculate_aero_coef s aoa v rho mu m act q = Inr (r, s')"
  shows "printed s = printed self
         \<and> printed s'
             = printed s
               @ replicate (zero_length_segments (l_rocket_dim d)) ''Component length is zero''"
  using update_rocket_printed [OF assms(1)] calculate_aero_coef_printed [OF assms(2)]
  by simp

theorem zero_length_reported_at_evaluation_witness:
  "(\<exists>r s'. update_rocket Rocket_init zero_length_data 0.5 = Inr zero_length_rocket
      \<and> calculate_aero_coef zero_length_rocket 0.1 [50, 0] 1.225 (1.784 / 10 ^ 5) 0.1 0 0
          = Inr (r, s')
      \<and> printed zero_length_rocket = [] \<and> printed s' = [''Component length is zero''])
   \<and> (\<exists>r s'. update_rocket Rocket_init example_data 1.5 = Inr example_rocket
      \<and> calculate_aero_coef example_rocket 0.1 [50, 0] 1.225 (1.784 / 10 ^ 5) 0.1 0 0
          = Inr (r, s')
      \<and> printed example_rocket = [] \<and> printed s' = [])"
proof -
  have u: "update_rocket Rocket_init zero_length_data 0.5 = Inr zero_length_rocket"
    and c: "cone_cylinder 1 1 0.1 zero_length_rocket"
    using zero_length_rocket_configured by simp_all
  obtain r s' where
    e: "calculate_aero_coef zero_length_rocket 0.1 [50, 0] 1.225 (1.784 / 10 ^ 5) 0.1 0 0
          = Inr (r, s')"
    using cone_cylinder_evaluate [OF c, of "[50, 0]" "0.1" "1.225" "1.784 / 10 ^ 5" "0.1" 0 0]
    by auto
  have z: "printed zero_length_rocket = [] \<and> printed s' = [''Component length is zero'']"
    using zero_length_reported_at_evaluation [OF u e] zero_length_segments_examples
    by (simp add: zero_length_data_def Rocket_init_def)
  have u2: "update_rocket Rocket_init example_data 1.5 = Inr example_rocket"
    and c2: "cone_cylinder 1 3 0.1 example_rocket"
    using example_rocket_configured by simp_all
  obtain r2 s2 where
    e2: "calculate_aero_coef example_rocket 0.1 [50, 0] 1.225 (1.784 / 10 ^ 5) 0.1 0 0
          = Inr (r2, s2)"
    using cone_cylinder_evaluate [OF c2, of "[50, 0]" "0.1" "1.225" "1.784 / 10 ^ 5" "0.1" 0 0]
    by auto
  have z2: "printed example_rocket = [] \<and> printed s2 = []"
    using zero_length_reported_at_evaluation [OF u2 e2] zero_length_segments_examples
    by (simp add: example_data_def Rocket_init_def)
  show ?thesis using u e z u2 e2 z2 by blast
qed

text \<open>
  C5 as stated fails on the stations \<^verbatim>\<open>[(0,0),(1,0.1),(1,0.1)]\<close>, whose second segment
  has the length 0: \<^verbatim>\<open>update_rocket\<close> accepts them and reports nothing, and each of two
  queries in a row returns its coefficients and prints the line.
\<close>

theorem zero_length_tolerated_counterexample:
  "zero_length_segments (l_rocket_dim zero_length_data) = 1
   \<and> \<not> isl (update_rocket Rocket_init zero_length_data 0.5)
   \<and> printed (projr (update_rocket Rocket_init zero_length_data 0.5)) = []
   \<and> \<not> isl (calculate_aero_coef (projr (update_rocket Rocket_init zero_length_data 0.5))
               0.1 [50, 0] 1.225 (1.784 / 10 ^ 5) 0.1 0 0)
   \<and> printed (snd (projr (calculate_aero_coef
                 (projr (update_rocket Rocket_init zero_length_data 0.5))
                 0.1 [50, 0] 1.225 (1.784 / 10 ^ 5) 0.1 0 0)))
       = [''Component length is zero'']
   \<and> \<not> isl (calculate_aero_coef
               (snd (projr (calculate_aero_coef
                 (projr (update_rocket Rocket_init zero_length_data 0.5))
                 0.1 [50, 0] 1.225 (1.784 / 10 ^ 5) 0.1 0 0)))
               0.2 [50, 0] 1.225 (1.784 / 10 ^ 5) 0.1 0 0)
   \<and> printed (snd (projr (calculate_aero_coef
               (snd (projr (calculate_aero_coef
                 (projr (update_rocket Rocket_init zero_length_data 0.5))
                 0.1 [50, 0] 1.225 (1.784 / 10 ^ 5) 0.1 0 0)))
               0.2 [50, 0] 1.225 (1.784 / 10 ^ 5) 0.1 0 0)))
       = [''Component length is zero'', ''Component length is zero'']"
proof -
  have u: "update_rocket Rocket_init zero_length_data 0.5 = Inr zero_length_rocket"
    and c: "cone_cylinder 1 1 0.1 zero_length_rocket"
    and p: "printed zero_length_rocket = []"
    using zero_length_rocket_configured by simp_all
  obtain r1 s1 where
    e1: "calculate_aero_coef zero_length_rocket 0.1 [50, 0] 1.225 (1.784 / 10 ^ 5) 0.1 0 0
          = Inr (r1, s1)"
    and c1: "cone_cylinder 1 1 0.1 s1"
    and p1: "printed s1 = printed zero_length_rocket @ [''Component length is zero'']"
    using cone_cylinder_evaluate [OF c, of "[50, 0]" "0.1" "1.225" "1.784 / 10 ^ 5" "0.1" 0 0]
    by auto
  obtain r2 s2 where
    e2: "calculate_aero_coef s1 0.2 [50, 0] 1.225 (1.784 / 10 ^ 5) 0.1 0 0 = Inr (r2, s2)"
    and p2: "printed s2 = printed s1 @ [''Component length is zero'']"
    using cone_cylinder_evaluate [OF c1, of "[50, 0]" "0.2" "1.225" "1.784 / 10 ^ 5" "0.1" 0 0]
    by auto
  have z: "zero_length_segments (l_rocket_dim zero_length_data) = 1"
    using zero_length_segments_examples by (simp add: zero_length_data_def)
  show ?thesis using z u p e1 p1 e2 p2 by simp
qed

subsection \<open>The slope of a fin at the angle 0\<close>

lemma Airfoil_get_aero_coef_slope:
  assumes "Airfoil_get_aero_coef af a = Inr ((c, d, k), af')" and "\<not> af_use_2pi af"
  shows "k = (if a = 0 then None else Some (c / a))"
  using assms unfolding Airfoil_get_aero_coef_def Airfoil_calculate_cn_alpha_def
    Airfoil_calculate_cn_ca_def Let_def
  apply (elim bindE_InrE)
  apply (auto split: if_split_asm)
  done

lemma Fin_calculate_cn_alpha_at_zero:
  assumes "Airfoil_tables_of_init (fin_flat_plate f)"
    and "af_use_windtunel (fin_flat_plate f) \<or> af_use_windtunnel_modified (fin_flat_plate f)"
    and "\<not> af_use_2pi (fin_flat_plate f)"
  shows "Fin_calculate_cn_alpha f 0 b m = Inl NonFinite"
proof -
  obtain c d k af' where
    g: "Airfoil_get_aero_coef (fin_flat_plate f) 0 = Inr ((c, d, k), af')"
    using Airfoil_get_aero_coef_value [OF assms(1,2), of 0] by blast
  have "k = None" using Airfoil_get_aero_coef_slope [OF g assms(3)] by simp
  then show ?thesis
    using g
    by (simp add: Fin_calculate_cn_alpha_def Fin_correct_cna_diederich_def finite_val_def Let_def)
qed

lemma Fin_correct_cna_diederich_succeeds:
  assumes "fin_cn_alpha_0 f = Some c" and "0 < c" and "fin_beta f = Some b" and "0 < b"
    and "(fin_mach f)\<^sup>2 < 1" and "0 < fin_aspect_ratio f" and "0 < cos (fin_sb_angle f)"
  shows "\<exists>f'. Fin_correct_cna_diederich f = Inr f'"
proof -
  define C where "C = cos (fin_sb_angle f)"
  define M where "M = fin_mach f"
  define AR where "AR = fin_aspect_ratio f"
  have C: "0 < C" "C\<^sup>2 \<le> 1" using assms(7) by (simp_all add: C_def abs_square_le_1)
  have M: "M\<^sup>2 < 1" using assms(5) by (simp add: M_def)
  have "M\<^sup>2 * C\<^sup>2 \<le> M\<^sup>2 * 1" using C(2) by (intro mult_left_mono) simp_all
  then have r: "0 < 1 - M\<^sup>2 * C\<^sup>2" using M by simp
  define root where "root = sqrt (1 - M\<^sup>2 * C\<^sup>2)"
  have root: "0 < root" using r by (simp add: root_def)
  define cs where "cs = b / root * C"
  have cs: "0 < cs" using root assms(4) C(1) by (simp add: cs_def)
  define e where "e = c / (2 * pi)"
  have e: "0 < e" using assms(2) by (simp add: e_def)
  have AR: "0 < AR" using assms(6) by (simp add: AR_def)
  define k2 where "k2 = AR * b / (e * cs)"
  have k2: "0 < k2" using AR assms(4) e cs by (simp add: k2_def)
  define k3 where "k3 = 4 * e\<^sup>2 * cs\<^sup>2 / (AR\<^sup>2 * b\<^sup>2)"
  have k3: "0 \<le> k3" by (simp add: k3_def)
  define k4 where "k4 = sqrt (1 + k3)"
  have k4: "0 \<le> k4" using k3 by (simp add: k4_def)
  have d: "k2 * k4 + 2 \<noteq> 0"
  proof -
    have "0 \<le> k2 * k4" using k2 k4 by simp
    then show ?thesis by simp
  qed
  have 1: "finite_val (fin_cn_alpha_0 f) = Inr c" "finite_val (fin_beta f) = Inr b"
    using assms(1,3) by (simp_all add: finite_val_def)
  have 2: "finite_val (np_sqrt (1 - (fin_mach f)\<^sup>2 * C\<^sup>2)) = Inr root"
    using r by (simp add: finite_val_def np_sqrt_def root_def M_def)
  have 3: "np_div b root = Inr (b / root)" using root by (simp add: np_div_def)
  have 4: "np_div 1 b = Inr (1 / b)" using assms(4) by (simp add: np_div_def)
  have 5: "np_div (AR * b) (e * (b / root * C)) = Inr k2"
  proof -
    have "e * (b / root * C) \<noteq> 0" using e cs by (simp only: cs_def [symmetric]) simp
    then show ?thesis by (simp only: np_div_def k2_def cs_def if_False)
  qed
  have 6: "np_div (4 * e\<^sup>2 * (b / root * C)\<^sup>2) (AR\<^sup>2 * b\<^sup>2) = Inr k3"
    using AR assms(4) by (simp add: np_div_def k3_def cs_def)
  have 7: "finite_val (np_sqrt (1 + k3)) = Inr k4"
    using k3 by (simp add: finite_val_def np_sqrt_def k4_def)
  have 8: "np_div k2 (k2 * k4 + 2) = Inr (k2 / (k2 * k4 + 2))" using d by (simp add: np_div_def)
  show ?thesis
    unfolding Fin_correct_cna_diederich_def Let_def
    apply (simp only: 1 bindE_simps e_def [symmetric] C_def [symmetric] AR_def [symmetric])
    apply (simp only: 2 3 4 5 6 7 8 bindE_simps)
    apply simp
    done
qed

lemma Fin_calculate_cn_alpha_succeeds:
  assumes "fin_flat_plate f = Airfoil_init" and "0 < b" and "m\<^sup>2 < 1"
    and "0 < fin_aspect_ratio f" and "0 < cos (fin_sb_angle f)"
  shows "\<exists>r. Fin_calculate_cn_alpha f 0.0001 (Some b) m = Inr r"
proof -
  have t: "Airfoil_tables_of_init Airfoil_init"
    "af_use_windtunel Airfoil_init \<or> af_use_windtunnel_modified Airfoil_init"
    "\<not> af_use_2pi Airfoil_init" "\<not> af_use_windtunel Airfoil_init"
    by (simp_all add: Airfoil_tables_of_init_def Airfoil_init_def)
  define x :: real where "x = 0.0001"
  have x: "0 < x" "x < pi / 2" "x < pi" "\<bar>x\<bar> = x" "x \<noteq> 0"
    using pi_ge_two by (simp_all add: x_def)
  obtain cl cd k af' where
    g: "Airfoil_get_aero_coef Airfoil_init x
           = Inr ((Airfoil_sign_correction x * (cl * cos \<bar>x\<bar> + cd * sin \<bar>x\<bar>),
                   - cl * sin \<bar>x\<bar> + cd * cos \<bar>x\<bar>, k), af')"
    and cl: "np_interp \<bar>x\<bar> (af_aoa_cl_modified Airfoil_init)
               (af_cl_list_modified Airfoil_init) = Inr cl"
    and cd: "np_interp \<bar>x\<bar> (af_aoa_cd Airfoil_init) (af_cd_list Airfoil_init) = Inr cd"
    using Airfoil_get_aero_coef_value [OF t(1,2), of x] t(4) by auto
  have cl0: "0 < cl" using cl by (auto simp: Airfoil_init_def np_interp_def x_def)
  have cd0: "0 < cd" using cd by (auto simp: Airfoil_init_def np_interp_def x_def)
  define c where "c = Airfoil_sign_correction x * (cl * cos \<bar>x\<bar> + cd * sin \<bar>x\<bar>)"
  have "0 < cl * cos x + cd * sin x"
    using cl0 cd0 cos_gt_zero [OF x(1,2)] sin_gt_zero [OF x(1,3)]
    by (intro add_pos_pos mult_pos_pos)
  then have c0: "0 < c" using x(1,4) by (simp add: c_def Airfoil_sign_correction_def)
  have g': "Airfoil_get_aero_coef Airfoil_init x
              = Inr ((c, - cl * sin \<bar>x\<bar> + cd * cos \<bar>x\<bar>, k), af')"
    using g by (simp only: c_def)
  have k: "k = Some (c / x)"
    using Airfoil_get_aero_coef_slope [OF g' t(3)] x(5) by simp
  define f' where
    "f' = f\<lparr>fin_beta := Some b, fin_mach := m, fin_flat_plate := af', fin_cn0 := c,
             fin_ca := - cl * sin \<bar>x\<bar> + cd * cos \<bar>x\<bar>, fin_cn_alpha_0 := k\<rparr>"
  have "\<exists>f''. Fin_correct_cna_diederich f' = Inr f''"
  proof (rule Fin_correct_cna_diederich_succeeds)
    show "fin_cn_alpha_0 f' = Some (c / x)" by (simp add: f'_def k)
    show "0 < c / x" using c0 x(1) by simp
    show "fin_beta f' = Some b" by (simp add: f'_def)
    show "0 < b" by (rule assms(2))
    show "(fin_mach f')\<^sup>2 < 1" using assms(3) by (simp add: f'_def)
    show "0 < fin_aspect_ratio f'" using assms(4) by (simp add: f'_def)
    show "0 < cos (fin_sb_angle f')" using assms(5) by (simp add: f'_def)
  qed
  then obtain f'' where d: "Fin_correct_cna_diederich f' = Inr f''" by blast
  have "Fin_calculate_cn_alpha f x (Some b) m = Inr (fin_cn_alpha f'', f'')"
    using g' d assms(1)
    by (simp add: Fin_calculate_cn_alpha_def Let_def f'_def)
  then show ?thesis by (auto simp: x_def)
qed

lemma main_fin_update:
  "\<exists>f. Fin_update f0 [(2.5, 0.05), (2.7, 0.15), (3, 0.15), (3, 0.05)] True = Inr f
       \<and> fin_flat_plate f = fin_flat_plate f0
       \<and> fin_aspect_ratio f = 1 / 2 \<and> fin_sb_angle f = arctan (3 / 2)"
  by (simp add: fin_geometry_defs prim_defs Let_def power2_eq_square)

lemma zero_fin_update:
  "\<exists>f. Fin_update f0 zero_fin True = Inr f \<and> fin_flat_plate f = fin_flat_plate f0"
  by (simp add: fin_geometry_defs zero_fin_def prim_defs Let_def)

lemma update_rocket_fins:
  assumes "update_rocket self d x = Inr s'" and "l_use_fins d" and "\<not> l_use_fins_control d"
  shows "\<exists>f0 f1. Fin_update (snd (fin self)) zero_fin True = Inr f1
           \<and> Fin_update (fst (fin self)) (l_fin0 d) (l_fin0_attached d) = Inr f0
           \<and> fin s' = (f0, f1) \<and> use_fins s'"
  using assms unfolding update_rocket_def Let_def
  apply (elim bindE_InrE)
  apply (drule calculate_pitch_damping_body_frame)
  apply (drule calculate_reynolds_crit_frame)
  apply (drule update_rocket_dim_frame)
  apply (elim exE)
  apply (simp add: initialize_def)
  apply (elim bindE_InrE)
  apply auto
  done

lemma finned_rocket_configured:
  "update_rocket Rocket_init finned_data 1.5 = Inr finned_rocket
   \<and> use_fins finned_rocket
   \<and> station_cross_area finned_rocket = [0, pi * (0.1 / 2)\<^sup>2, pi * (0.1 / 2)\<^sup>2]
   \<and> area_ref finned_rocket = pi * (0.1 / 2)\<^sup>2
   \<and> component_plan_area finned_rocket = [1 * (0.1 / 2), (3 - 1) * 0.1]
   \<and> length (component_cn finned_rocket) = 2
   \<and> length (component_cn_alpha finned_rocket) = 2
   \<and> fin_flat_plate (fst (fin finned_rocket)) = Airfoil_init
   \<and> fin_aspect_ratio (fst (fin finned_rocket)) = 1 / 2
   \<and> fin_sb_angle (fst (fin finned_rocket)) = arctan (3 / 2)
   \<and> fin_flat_plate (snd (fin finned_rocket)) = Airfoil_init"
proof -
  let ?d = "finned_data"
  let ?s0 = "Rocket_init\<lparr>ogive := l_ogive ?d, use_fins := l_use_fins ?d,
                   fins_attached := (l_fin0_attached ?d, l_fin1_attached ?d),
                   use_fins_control := l_use_fins_control ?d\<rparr>"
  have d: "l_rocket_dim ?d = [(0, 0), (1, 0.1), (3, 0.1)]" "l_use_fins ?d"
    "\<not> l_use_fins_control ?d" "l_fin0_attached ?d" "\<not> l_ogive ?d"
    "l_fin0 ?d = [(2.5, 0.05), (2.7, 0.15), (3, 0.15), (3, 0.05)]"
    by (simp_all add: finned_data_def)
  obtain s1 where s1: "update_rocket_dim ?s0 [(0, 0), (1, 0.1), (3, 0.1)] = Inr s1"
    and f1: "station_cross_area s1 = [0, pi * (0.1 / 2)\<^sup>2, pi * (0.1 / 2)\<^sup>2]"
      "area_ref s1 = pi * (0.1 / 2)\<^sup>2"
      "component_plan_area s1
         = [if ogive ?s0 then 2 / 3 * 1 * 0.1 else 1 * (0.1 / 2), (3 - 1) * 0.1]"
      "length_rocket s1 = 3"
    using cone_cylinder_dim [of "0.1" ?s0 1 3] by auto
  obtain a b c e m xl dd f p w wb where
    fr: "s1 = (initialize (?s0\<lparr>rocket_dim := [(0, 0), (1, 0.1), (3, 0.1)]\<rparr>)
                  (length [(0 :: real, 0 :: real), (1, 0.1), (3, 0.1)]))
                     \<lparr>station_cross_area := a, component_plan_area := b,
                      component_volume := c, component_centroid := e,
                      max_diam := m, length_rocket := xl, diameter := dd, fineness := f,
                      plan_area := p, area_wet_component := w, area_wet_body := wb,
                      area_ref := pi * (m / 2)\<^sup>2\<rparr>"
    using update_rocket_dim_frame [OF s1] by blast
  have ar: "body_arrays 3 s1" and rd: "rocket_dim s1 = [(0, 0), (1, 0.1), (3, 0.1)]"
    using update_rocket_dim_arrays [OF s1] by (simp_all add: numeral_3_eq_3)
  have g: "use_fins s1" "\<not> use_fins_control s1" "fst (fins_attached s1)"
    "fin s1 = (Fin_init, Fin_init)"
    using d by (simp_all add: fr initialize_def Rocket_init_def)
  obtain fz where fz: "Fin_update Fin_init zero_fin True = Inr fz"
    and pz: "fin_flat_plate fz = fin_flat_plate Fin_init"
    using zero_fin_update by blast
  obtain fm where fm: "Fin_update Fin_init [(2.5, 0.05), (2.7, 0.15), (3, 0.15), (3, 0.05)] True
                         = Inr fm"
    and pm: "fin_flat_plate fm = fin_flat_plate Fin_init" "fin_aspect_ratio fm = 1 / 2"
      "fin_sb_angle fm = arctan (3 / 2)"
    using main_fin_update by blast
  have "\<exists>s. update_rocket Rocket_init ?d 1.5 = Inr s"
    using s1 fz fm rd g f1(4) d
    by (simp add: setup_defs Let_def prim_defs)
  then obtain s where s: "update_rocket Rocket_init ?d 1.5 = Inr s" by blast
  then have e: "finned_rocket = s" by (simp add: finned_rocket_def)
  from update_rocket_frame [OF s] d(1) s1 obtain F a' b' c' r where
    sf: "s = s1\<lparr>fin := F, xcg := 1.5, avg_rad_fore := a', avg_rad_aft := b',
                  q_damp_body := c', relative_rough := 60 / 10 ^ 6, reynolds_crit := r\<rparr>"
    by auto
  have fs: "fin s = (fm, fz)" "use_fins s"
    using update_rocket_fins [OF s d(2,3)] fz fm d(4,6) by (auto simp: Rocket_init_def)
  have "station_cross_area s = [0, pi * (0.1 / 2)\<^sup>2, pi * (0.1 / 2)\<^sup>2]
        \<and> area_ref s = pi * (0.1 / 2)\<^sup>2
        \<and> component_plan_area s = [1 * (0.1 / 2), (3 - 1) * 0.1]
        \<and> length (component_cn s) = 2 \<and> length (component_cn_alpha s) = 2"
    using f1 ar d(5) by (simp add: sf body_arrays_def)
  then show ?thesis
    using s e fs pz pm by (simp add: Fin_init_def)
qed

lemma body_stages:
  assumes "component_cn S = [c0, c1]" and "component_cn_alpha S = [a0, a1]"
    and "station_cross_area S = [0, A, A]" and "area_ref S = A"
    and "component_plan_area S = [P0, P1]" and "A \<noteq> 0" and "ang \<noteq> 0"
  shows "\<exists>s1 s2 s3. barrowman_cn S ang = Inr s1 \<and> body_cn s1 ang = Inr s2
           \<and> calculate_cn_alpha s2 ang = Inr s3
           \<and> fin s3 = fin S \<and> use_fins s3 = use_fins S \<and> beta s3 = beta S
           \<and> mach s3 = mach S \<and> aoa_ctrl_fin s3 = aoa_ctrl_fin S"
  using assms
  by (simp add: barrowman_cn_def barrowman_cn_step_def body_cn_def body_cn_step_def
      body_cn_add_step_def calculate_cn_alpha_def calculate_cn_alpha_step_def
      for_range_eval prim_defs Let_def)

text \<open>
  C1 fails on the control fin. On the example body with fins, the call
  \<^verbatim>\<open>calculate_aero_coef(0)\<close> with the default arguments of the source (velocity
  \<^verbatim>\<open>[10,0]\<close>, density 1.225, viscosity 1.784e-5, Mach 0.001, actuator angle 0) evaluates
  the main fin at the substituted angle 0.0001 and the control fin at
  \<^verbatim>\<open>aoa - actuator_angle = 0\<close>, where \<^verbatim>\<open>Airfoil._calculate_cn_alpha\<close> divides by the angle:
  the slope of the control fin, and with it the coefficients returned, are not finite.
\<close>

theorem control_fin_slope_at_zero_angle:
  "update_rocket Rocket_init finned_data 1.5 = Inr finned_rocket
   \<and> calculate_aero_coef finned_rocket 0 [10, 0] 1.225 (1.784 / 10 ^ 5) 0.001 0 0
       = Inl NonFinite"
proof -
  define b :: real where "b = sqrt (1 - 0.001\<^sup>2)"
  have b: "0 < b" by (simp add: b_def power2_eq_square)
  have nb: "np_sqrt (1 - 0.001\<^sup>2) = Some b"
    by (simp add: np_sqrt_def b_def power2_eq_square)
  define S where
    "S = finned_rocket\<lparr>q_dyn := Some 0, v_loc_tot := [10, 0], mach := 0.001,
            beta := Some b, actuator_angle := 0, aoa_ctrl_fin := 0,
            cn := 0, sign_corr := sign_correction 0\<rparr>"
  note c = finned_rocket_configured
  obtain c0 c1 where cc: "component_cn finned_rocket = [c0, c1]"
    using c by (auto simp: length_2_conv)
  obtain a0 a1 where ca: "component_cn_alpha finned_rocket = [a0, a1]"
    using c by (auto simp: length_2_conv)
  have S: "component_cn S = [c0, c1]" "component_cn_alpha S = [a0, a1]"
    "station_cross_area S = [0, pi * (0.1 / 2)\<^sup>2, pi * (0.1 / 2)\<^sup>2]"
    "area_ref S = pi * (0.1 / 2)\<^sup>2"
    "component_plan_area S = [1 * (0.1 / 2), (3 - 1) * 0.1]"
    using c cc ca by (simp_all add: S_def)
  have A: "pi * (0.1 / 2)\<^sup>2 \<noteq> 0" "(0.0001 :: real) \<noteq> 0" by simp_all
  obtain s1 s2 s3 where
    st: "barrowman_cn S 0.0001 = Inr s1" "body_cn s1 0.0001 = Inr s2"
      "calculate_cn_alpha s2 0.0001 = Inr s3"
    and fr: "fin s3 = fin S" "use_fins s3 = use_fins S" "beta s3 = beta S"
      "mach s3 = mach S" "aoa_ctrl_fin s3 = aoa_ctrl_fin S"
    using body_stages [OF S A] by blast
  have v: "fin s3 = fin finned_rocket" "use_fins s3" "beta s3 = Some b" "mach s3 = 0.001"
    "aoa_ctrl_fin s3 = 0"
    using fr c by (simp_all add: S_def)
  have cs: "0 < cos (arctan (3 / 2 :: real))" by (simp add: cos_arctan power2_eq_square)
  obtain r0 where
    m0: "Fin_calculate_cn_alpha (fst (fin finned_rocket)) 0.0001 (Some b) 0.001 = Inr r0"
    using Fin_calculate_cn_alpha_succeeds [of "fst (fin finned_rocket)" b "0.001"] c b cs
    by (auto simp: power2_eq_square)
  have t: "Airfoil_tables_of_init Airfoil_init"
    "af_use_windtunel Airfoil_init \<or> af_use_windtunnel_modified Airfoil_init"
    "\<not> af_use_2pi Airfoil_init"
    by (simp_all add: Airfoil_tables_of_init_def Airfoil_init_def)
  have m1: "Fin_calculate_cn_alpha (snd (fin finned_rocket)) 0 (Some b) 0.001 = Inl NonFinite"
    using Fin_calculate_cn_alpha_at_zero [of "snd (fin finned_rocket)"] c t by simp
  have n0: "Fin_calculate_cn_alpha (fst (fin s3)) 0.0001 (beta s3) (mach s3) = Inr r0"
    unfolding v by (rule m0)
  have n1: "Fin_calculate_cn_alpha (snd (fin s3)) (aoa_ctrl_fin s3) (beta s3) (mach s3)
              = Inl NonFinite"
    unfolding v by (rule m1)
  have fc: "fin_cn s3 0.0001 0 = Inl NonFinite"
    using n0 n1 by (simp add: fin_cn_def Let_def prim_defs)
  have "calculate_total_cn
          (finned_rocket\<lparr>q_dyn := Some 0, v_loc_tot := [10, 0], mach := 0.001,
            beta := Some b, actuator_angle := 0, aoa_ctrl_fin := 0\<rparr>) 0 0 = Inl NonFinite"
    using st fc v(2) by (simp add: calculate_total_cn_def Let_def S_def)
  then have "calculate_aero_coef finned_rocket 0 [10, 0] 1.225 (1.784 / 10 ^ 5) 0.001 0 0
               = Inl NonFinite"
    using nb by (simp add: calculate_aero_coef_def Let_def py_index_def)
  then show ?thesis using c by simp
qed

subsection \<open>\<^verbatim>\<open>numpy.interp\<close> on an increasing table\<close>

lemma interp_walk_bracket:
  "sorted xs \<Longrightarrow> length ys = length xs \<Longrightarrow> Suc j < length xs \<Longrightarrow> hd xs \<le> x
   \<Longrightarrow> xs ! j \<le> x \<Longrightarrow> x < xs ! Suc j
   \<Longrightarrow> interp_walk x xs ys
        = ((ys ! Suc j - ys ! j) / (xs ! Suc j - xs ! j)) * (x - xs ! j) + ys ! j"
proof (induction x xs ys arbitrary: j rule: interp_walk.induct)
  case (1 x x0 x1 xs y0 y1 ys)
  show ?case
  proof (cases "x < x1")
    case True
    have "j = 0"
    proof (rule ccontr)
      assume "j \<noteq> 0"
      then obtain k where k: "j = Suc k" by (cases j) auto
      have "x1 \<le> (x1 # xs) ! k" using "1.prems"(1,3) k
        by (cases k) auto
      then show False using "1.prems"(5) True k by simp
    qed
    then show ?thesis using True by simp
  next
    case False
    then obtain k where k: "j = Suc k" using "1.prems"(6) by (cases j) auto
    have "interp_walk x (x1 # xs) (y1 # ys)
            = (((y1 # ys) ! Suc k - (y1 # ys) ! k) / ((x1 # xs) ! Suc k - (x1 # xs) ! k))
                * (x - (x1 # xs) ! k) + (y1 # ys) ! k"
      using "1.IH" [of k] False "1.prems" k by simp
    then show ?thesis using False k by simp
  qed
qed simp_all

lemma interp_walk_last:
  "sorted xs \<Longrightarrow> length ys = length xs \<Longrightarrow> xs \<noteq> [] \<Longrightarrow> x = last xs
   \<Longrightarrow> interp_walk x xs ys = last ys"
proof (induction x xs ys rule: interp_walk.induct)
  case (1 x x0 x1 xs y0 y1 ys)
  have "x1 \<le> last (x1 # xs)" using "1.prems"(1) by auto
  then show ?case using 1 by simp
qed auto

subsection \<open>The thrust curve\<close>

text \<open>
  C8, as amended. For a motor curve with a non-empty, increasing list of times and as many
  thrust values, \<^verbatim>\<open>get_thrust\<close> returns the larger of 0.001 and the piecewise-linear
  interpolation of the curve at \<^verbatim>\<open>t - t_launch\<close>: before the first sample the first thrust
  value, from the last sample on the last one, and inside an interval the value on the
  line through its two samples, each raised to the floor 0.001 when it is below.
\<close>

theorem get_thrust_interpolates:
  assumes "motor self = (ts, fs)" and "ts \<noteq> []" and "sorted ts" and "length fs = length ts"
  shows "\<exists>v. get_thrust self t t_launch = Inr (v, self\<lparr>thrust := v\<rparr>)
     \<and> 0.001 \<le> v
     \<and> (t - t_launch < hd ts \<longrightarrow> v = max 0.001 (hd fs))
     \<and> (last ts \<le> t - t_launch \<longrightarrow> v = max 0.001 (last fs))
     \<and> (\<forall>j. Suc j < length ts \<and> ts ! j \<le> t - t_launch \<and> t - t_launch < ts ! Suc j \<longrightarrow>
          v = max 0.001 (((fs ! Suc j - fs ! j) / (ts ! Suc j - ts ! j))
                           * (t - t_launch - ts ! j) + fs ! j))"
proof -
  define x where "x = t - t_launch"
  obtain u where u: "np_interp x ts fs = Inr u"
    using np_interp_total assms(2,4) by blast
  have g: "get_thrust self t t_launch = Inr (max 0.001 u, self\<lparr>thrust := max 0.001 u\<rparr>)"
    using u assms(1) by (simp add: get_thrust_def x_def Let_def max_def)
  have hl: "hd ts \<le> last ts"
    using assms(2,3) by (cases ts) auto
  have lo: "u = hd fs" if "x < hd ts"
    using that u assms(2,4) hl by (simp add: np_interp_def split: if_splits)
  have hi: "u = last fs" if "last ts \<le> x"
  proof (cases "last ts < x")
    case True
    then show ?thesis using u assms(2,4) by (simp add: np_interp_def)
  next
    case False
    then have e: "x = last ts" using that by simp
    then have "u = interp_walk x ts fs"
      using u assms(2,4) hl by (simp add: np_interp_def split: if_splits)
    then show ?thesis using interp_walk_last [OF assms(3,4,2) e] by simp
  qed
  have mid: "u = ((fs ! Suc j - fs ! j) / (ts ! Suc j - ts ! j)) * (x - ts ! j) + fs ! j"
    if "Suc j < length ts" "ts ! j \<le> x" "x < ts ! Suc j" for j
  proof -
    have "ts ! 0 \<le> ts ! j"
      using that(1) assms(3) by (intro sorted_nth_mono) auto
    then have a: "hd ts \<le> x"
      using that(2) assms(2) by (simp add: hd_conv_nth)
    have "ts ! Suc j \<le> ts ! (length ts - 1)"
      using that(1) assms(3) by (intro sorted_nth_mono) auto
    then have b: "x \<le> last ts"
      using that(3) assms(2) by (simp add: last_conv_nth)
    have "u = interp_walk x ts fs"
      using u a b assms(2,4) by (simp add: np_interp_def split: if_splits)
    then show ?thesis
      using interp_walk_bracket [OF assms(3,4) that(1) a that(2,3)] by simp
  qed
  show ?thesis
    using g lo hi mid unfolding x_def by (intro exI [of _ "max 0.001 u"]) auto
qed

theorem get_thrust_interpolates_witness:
  "get_thrust (set_motor Rocket_init ([0, 1, 3], [0, 10, 4])) 7 5
     = Inr (7, (set_motor Rocket_init ([0, 1, 3], [0, 10, 4]))\<lparr>thrust := 7\<rparr>)"
proof -
  let ?r = "set_motor Rocket_init ([0, 1, 3], [0, 10, 4])"
  have m: "motor ?r = ([0, 1, 3], [0, 10, 4])" by (simp add: set_motor_def)
  have n: "[0, 1, 3 :: real] \<noteq> []" by simp
  have s: "sorted [0, 1, 3 :: real]" by simp
  have l: "length [0, 10, 4 :: real] = length [0, 1, 3 :: real]" by simp
  from get_thrust_interpolates [OF m n s l, of 7 5]
  obtain v where v: "get_thrust ?r 7 5 = Inr (v, ?r\<lparr>thrust := v\<rparr>)"
    and mid: "\<forall>j. Suc j < length [0, 1, 3 :: real] \<and> [0, 1, 3 :: real] ! j \<le> 7 - 5
            \<and> 7 - 5 < [0, 1, 3 :: real] ! Suc j \<longrightarrow>
          v = max 0.001 ((([0, 10, 4 :: real] ! Suc j - [0, 10, 4] ! j)
                / ([0, 1, 3 :: real] ! Suc j - [0, 1, 3] ! j)) * (7 - 5 - [0, 1, 3] ! j) + [0, 10, 4] ! j)"
    by blast
  have "v = 7" using mid [rule_format, of 1] by simp
  then show ?thesis using v by simp
qed

text \<open>
  C8 as stated fails on a curve that starts at zero thrust: one second before ignition the
  source returns the floor 0.001, not the first sample's thrust 0.
\<close>

theorem get_thrust_first_sample_counterexample:
  "fst (motor (set_motor Rocket_init ([0, 1], [0, 10]))) = [0, 1]
   \<and> snd (motor (set_motor Rocket_init ([0, 1], [0, 10]))) = [0, 10]
   \<and> get_thrust (set_motor Rocket_init ([0, 1], [0, 10])) (- 1) 0
       = Inr (0.001, (set_motor Rocket_init ([0, 1], [0, 10]))\<lparr>thrust := 0.001\<rparr>)
   \<and> hd (snd (motor (set_motor Rocket_init ([0, 1], [0, 10])))) \<noteq> 0.001"
  by (simp add: set_motor_def get_thrust_def np_interp_def Let_def)

subsection \<open>The pad latch\<close>

lemma update_rocket_sets_flag:
  assumes "update_rocket self d x = Inr s"
  shows "is_in_the_pad_flag s"
proof -
  from update_rocket_frame [OF assms] obtain s1 F a' b' c' r where
    s1: "update_rocket_dim
           (self\<lparr>ogive := l_ogive d, use_fins := l_use_fins d,
                 fins_attached := (l_fin0_attached d, l_fin1_attached d),
                 use_fins_control := l_use_fins_control d\<rparr>) (l_rocket_dim d) = Inr s1"
    and sf: "s = s1\<lparr>fin := F, xcg := x, avg_rad_fore := a', avg_rad_aft := b',
                  q_damp_body := c', relative_rough := 60 / 10 ^ 6, reynolds_crit := r\<rparr>"
    by auto
  have "is_in_the_pad_flag s1"
    using update_rocket_dim_frame [OF s1] by (auto simp: initialize_def)
  then show ?thesis using sf by simp
qed

lemma calculate_aero_coef_keeps_flag:
  assumes "calculate_aero_coef s aoa v rho mu m act q = Inr (r, s')"
  shows "is_in_the_pad_flag s' = is_in_the_pad_flag s"
proof -
  from calculate_aero_coef_stages [OF assms] obtain v0 v1 s1 s2 where
    a: "calculate_total_cn
              (s\<lparr>q_dyn := Some q, v_loc_tot := v,
                    mach := (if m < 0.001 then 0.001 else m),
                    beta := np_sqrt (1 - m\<^sup>2), actuator_angle := act,
                    aoa_ctrl_fin := aoa - act\<rparr>) aoa act = Inr s1"
    and b: "calculate_cp_position s1 = Inr s2"
    and c: "calculate_total_ca s2 aoa (sqrt (v0\<^sup>2 + v1\<^sup>2)) rho mu = Inr s'"
    by blast
  have 1: "is_in_the_pad_flag s1 = is_in_the_pad_flag s"
    using calculate_total_cn_frame [OF a] by auto
  have f: "s2 = s1\<lparr>cp := cp s2\<rparr>" using calculate_cp_position_value [OF b] by simp
  have 2: "is_in_the_pad_flag s2 = is_in_the_pad_flag s1"
    using arg_cong [OF f, of is_in_the_pad_flag] by simp
  have 3: "is_in_the_pad_flag s' = is_in_the_pad_flag s2"
    using calculate_total_ca_frame [OF c] by auto
  show ?thesis using 1 2 3 by simp
qed

lemma perform_is_in_the_pad:
  assumes "perform (IsInThePad alt) self = Inr (r, s)"
  shows "r = Flag (is_in_the_pad_flag self \<and> alt \<le> 0.2)
         \<and> is_in_the_pad_flag s = (is_in_the_pad_flag self \<and> alt \<le> 0.2)"
  using assms by (auto simp: perform_def is_in_the_pad_def Let_def split: if_split_asm)

lemma perform_rearms:
  assumes "perform c self = Inr (r, s)" and "rearms c"
  shows "is_in_the_pad_flag s \<and> pad_answers (r # rs) = pad_answers rs"
proof (cases c)
  case (UpdateRocket l0 xcg0)
  with assms(1) obtain s1 where "update_rocket self l0 xcg0 = Inr s1" and "r = NoValue"
    and "s = s1"
    by (auto simp: perform_def bindE_eq_Inr)
  then show ?thesis using update_rocket_sets_flag by simp
next
  case ResetVariables
  with assms(1) show ?thesis by (auto simp: perform_def reset_variables_def)
qed (use assms(2) in simp_all)

lemma perform_keeps_flag:
  assumes "perform c self = Inr (r, s)" and "\<not> rearms c" and "altitudes [c] = []"
  shows "is_in_the_pad_flag s = is_in_the_pad_flag self
         \<and> pad_answers (r # rs) = pad_answers rs"
proof (cases c)
  case (CalculateAeroCoef aoa v rho mu m act q)
  with assms(1) obtain t where
    "calculate_aero_coef self aoa v rho mu m act q = Inr t" and "r = Coefficients (fst t)"
    and "s = snd t"
    by (auto simp: perform_def bindE_eq_Inr)
  then show ?thesis
    using calculate_aero_coef_keeps_flag [of self aoa v rho mu m act q "fst t" "snd t"]
    by simp
next
  case GetQDampBody
  with assms(1) show ?thesis by (auto simp: perform_def bindE_eq_Inr)
next
  case GetQDampFin
  with assms(1) show ?thesis
    by (auto simp: perform_def bindE_eq_Inr get_q_damp_fin_def split: if_split_asm)
next
  case ReferenceArea
  with assms(1) show ?thesis by (auto simp: perform_def)
next
  case (SetMotor data)
  with assms(1) show ?thesis by (auto simp: perform_def set_motor_def)
next
  case (GetThrust t t_launch)
  with assms(1) show ?thesis
    by (auto simp: perform_def bindE_eq_Inr get_thrust_def Let_def split: if_split_asm)
next
  case BurnoutTime
  with assms(1) show ?thesis by (auto simp: perform_def bindE_eq_Inr)
qed (use assms(2,3) in simp_all)

lemma run_Cons:
  assumes "run self (c # cs) = Inr (rs, s)"
  shows "\<exists>r s1 rs'. perform c self = Inr (r, s1) \<and> run s1 cs = Inr (rs', s) \<and> rs = r # rs'"
  using assms by (auto simp: bindE_eq_Inr)

lemma run_latch:
  assumes "run self cs = Inr (rs, s)" and "\<forall>c \<in> set cs. \<not> rearms c"
  shows "pad_answers rs
           = (if is_in_the_pad_flag self
              then replicate (length (takeWhile (\<lambda>alt. alt \<le> 0.2) (altitudes cs))) True
                   @ replicate (length (dropWhile (\<lambda>alt. alt \<le> 0.2) (altitudes cs))) False
              else replicate (length (altitudes cs)) False)
         \<and> is_in_the_pad_flag s
             = (is_in_the_pad_flag self \<and> (\<forall>alt \<in> set (altitudes cs). alt \<le> 0.2))"
  using assms
proof (induction cs arbitrary: self rs)
  case Nil
  then show ?case by simp
next
  case (Cons c cs)
  from run_Cons [OF Cons.prems(1)] obtain r s1 rs' where
    p: "perform c self = Inr (r, s1)" and t: "run s1 cs = Inr (rs', s)" and rs: "rs = r # rs'"
    by blast
  have n: "\<not> rearms c" "\<forall>c \<in> set cs. \<not> rearms c" using Cons.prems(2) by simp_all
  note IH = Cons.IH [OF t n(2)]
  show ?case
  proof (cases "\<exists>alt. c = IsInThePad alt")
    case True
    then obtain alt where c: "c = IsInThePad alt" by blast
    have q: "r = Flag (is_in_the_pad_flag self \<and> alt \<le> 0.2)"
      "is_in_the_pad_flag s1 = (is_in_the_pad_flag self \<and> alt \<le> 0.2)"
      using perform_is_in_the_pad [of alt self r s1] p c by simp_all
    show ?thesis using IH by (auto simp: rs c q)
  next
    case False
    then have a: "altitudes [c] = []" "altitudes (c # cs) = altitudes cs"
      by (cases c; simp)+
    have "is_in_the_pad_flag s1 = is_in_the_pad_flag self"
      "pad_answers (r # rs') = pad_answers rs'"
      using perform_keeps_flag [OF p n(1) a(1)] by simp_all
    then show ?thesis using IH by (simp add: rs a(2))
  qed
qed

lemma run_rearmed:
  assumes "run self cs = Inr (rs, s)" and "cs \<noteq> []" and "rearms (last cs)"
  shows "is_in_the_pad_flag s"
  using assms
proof (induction cs arbitrary: self rs)
  case Nil
  then show ?case by simp
next
  case (Cons c cs)
  from run_Cons [OF Cons.prems(1)] obtain r s1 rs' where
    p: "perform c self = Inr (r, s1)" and t: "run s1 cs = Inr (rs', s)" and rs: "rs = r # rs'"
    by blast
  show ?case
  proof (cases "cs = []")
    case True
    then have "s = s1" "rearms c" using t Cons.prems(3) by simp_all
    then show ?thesis using perform_rearms [OF p] by simp
  next
    case False
    then show ?thesis using Cons.IH [OF t] Cons.prems(3) by simp
  qed
qed

lemma run_pad_or_reset:
  assumes "\<forall>c \<in> set cs. (\<exists>alt. c = IsInThePad alt) \<or> c = ResetVariables"
  shows "\<exists>rs s. run self cs = Inr (rs, s)"
  using assms
proof (induction cs arbitrary: self)
  case Nil
  then show ?case by simp
next
  case (Cons c cs)
  obtain r s1 where p: "perform c self = Inr (r, s1)"
    using Cons.prems by (auto simp: perform_def)
  obtain rs s where "run s1 cs = Inr (rs, s)" using Cons.IH [of s1] Cons.prems by auto
  then show ?case using p by simp
qed

text \<open>
  C9, as amended. The pad latch is one-way between the calls that set it again. In a
  sequence of calls of the public methods of one \<^verbatim>\<open>Rocket\<close> that has no \<^verbatim>\<open>reset_variables\<close>
  and no \<^verbatim>\<open>update_rocket\<close>, started with the flag set, the answers of \<^verbatim>\<open>is_in_the_pad\<close> are
  \<open>True\<close> up to the first call whose altitude exceeds 0.2 and \<open>False\<close> from that call on,
  whatever the later altitudes and the other calls in between are; started with the flag
  cleared every answer is \<open>False\<close>; the flag is set at the end exactly when it was set at
  the start and no altitude exceeded 0.2. After a sequence that ends with
  \<^verbatim>\<open>reset_variables\<close> or with \<^verbatim>\<open>update_rocket\<close> the flag is set. A sequence of calls of
  \<^verbatim>\<open>is_in_the_pad\<close> and \<^verbatim>\<open>reset_variables\<close> alone raises no exception.
\<close>

theorem pad_latch_one_way_until_rearmed:
  "((\<forall>c \<in> set cs. (\<exists>alt. c = IsInThePad alt) \<or> c = ResetVariables) \<longrightarrow>
      (\<exists>rs s. run self cs = Inr (rs, s)))
   \<and> (\<forall>rs s. run self cs = Inr (rs, s) \<longrightarrow>
        ((\<forall>c \<in> set cs. \<not> rearms c) \<and> is_in_the_pad_flag self \<longrightarrow>
           pad_answers rs
             = replicate (length (takeWhile (\<lambda>alt. alt \<le> 0.2) (altitudes cs))) True
               @ replicate (length (dropWhile (\<lambda>alt. alt \<le> 0.2) (altitudes cs))) False)
      \<and> ((\<forall>c \<in> set cs. \<not> rearms c) \<and> \<not> is_in_the_pad_flag self \<longrightarrow>
           pad_answers rs = replicate (length (altitudes cs)) False)
      \<and> ((\<forall>c \<in> set cs. \<not> rearms c) \<longrightarrow>
           is_in_the_pad_flag s
             = (is_in_the_pad_flag self \<and> (\<forall>alt \<in> set (altitudes cs). alt \<le> 0.2)))
      \<and> (cs \<noteq> [] \<and> rearms (last cs) \<longrightarrow> is_in_the_pad_flag s))"
proof (intro conjI allI impI)
  assume "\<forall>c \<in> set cs. (\<exists>alt. c = IsInThePad alt) \<or> c = ResetVariables"
  then show "\<exists>rs s. run self cs = Inr (rs, s)" by (rule run_pad_or_reset)
next
  fix rs s
  assume r: "run self cs = Inr (rs, s)"
    and h: "(\<forall>c \<in> set cs. \<not> rearms c) \<and> is_in_the_pad_flag self"
  show "pad_answers rs
          = replicate (length (takeWhile (\<lambda>alt. alt \<le> 0.2) (altitudes cs))) True
            @ replicate (length (dropWhile (\<lambda>alt. alt \<le> 0.2) (altitudes cs))) False"
    using run_latch [OF r] h by simp
next
  fix rs s
  assume r: "run self cs = Inr (rs, s)"
    and h: "(\<forall>c \<in> set cs. \<not> rearms c) \<and> \<not> is_in_the_pad_flag self"
  show "pad_answers rs = replicate (length (altitudes cs)) False"
    using run_latch [OF r] h by simp
next
  fix rs s
  assume r: "run self cs = Inr (rs, s)" and h: "\<forall>c \<in> set cs. \<not> rearms c"
  show "is_in_the_pad_flag s
          = (is_in_the_pad_flag self \<and> (\<forall>alt \<in> set (altitudes cs). alt \<le> 0.2))"
    using run_latch [OF r h] by simp
next
  fix rs s
  assume r: "run self cs = Inr (rs, s)" and h: "cs \<noteq> [] \<and> rearms (last cs)"
  show "is_in_the_pad_flag s" using run_rearmed [OF r] h by simp
qed

theorem pad_latch_one_way_until_rearmed_witness:
  "(\<exists>rs s. run Rocket_init
              [IsInThePad 0, IsInThePad 0.3, SetMotor ([0, 1], [5, 0]), GetThrust 1 0,
               BurnoutTime, ReferenceArea, GetQDampFin, IsInThePad 0.1, IsInThePad 5,
               IsInThePad 0] = Inr (rs, s)
       \<and> pad_answers rs = [True, False, False, False, False]
       \<and> \<not> is_in_the_pad_flag s)
   \<and> (\<exists>rs s. run Rocket_init [IsInThePad 1, UpdateRocket example_data 1.5] = Inr (rs, s)
       \<and> is_in_the_pad_flag s)
   \<and> (\<exists>rs s. run Rocket_init [IsInThePad 1, ResetVariables, IsInThePad 0] = Inr (rs, s))"
proof -
  let ?t1 = "[IsInThePad 0, IsInThePad 0.3, SetMotor ([0, 1], [5, 0]), GetThrust 1 0,
               BurnoutTime, ReferenceArea, GetQDampFin, IsInThePad 0.1, IsInThePad 5,
               IsInThePad 0]"
  have f: "is_in_the_pad_flag Rocket_init" "\<not> use_fins Rocket_init"
    by (simp_all add: Rocket_init_def)
  have "\<exists>rs s. run Rocket_init ?t1 = Inr (rs, s)"
    using f(2)
    by (simp add: perform_def is_in_the_pad_def set_motor_def get_thrust_def np_interp_def
        burnout_time_def py_last_def get_q_damp_fin_def Let_def)
  then obtain rs s where r1: "run Rocket_init ?t1 = Inr (rs, s)" by blast
  have n1: "\<forall>c \<in> set ?t1. \<not> rearms c" by simp
  have a1: "pad_answers rs = [True, False, False, False, False]"
    "\<not> is_in_the_pad_flag s"
    using pad_latch_one_way_until_rearmed [of ?t1 Rocket_init] r1 n1 f(1) by auto
  let ?s = "snd (is_in_the_pad Rocket_init 1)"
  obtain u where u: "update_rocket ?s example_data 1.5 = Inr u"
    using cone_cylinder_rocket [of "0.1" "1.5" 3 example_data 1 ?s]
    by (auto simp: example_data_def)
  have r2: "run Rocket_init [IsInThePad 1, UpdateRocket example_data 1.5]
              = Inr ([Flag (fst (is_in_the_pad Rocket_init 1)), NoValue], u)"
    using u by (simp add: perform_def)
  have a2: "is_in_the_pad_flag u"
    using pad_latch_one_way_until_rearmed
            [of "[IsInThePad 1, UpdateRocket example_data 1.5]" Rocket_init] r2
    by simp
  have a3: "\<exists>rs s. run Rocket_init [IsInThePad 1, ResetVariables, IsInThePad 0] = Inr (rs, s)"
    using pad_latch_one_way_until_rearmed
            [of "[IsInThePad 1, ResetVariables, IsInThePad 0]" Rocket_init]
    by simp
  show ?thesis using r1 a1 r2 a2 a3 by blast
qed

text \<open>
  C9 as stated fails: after the latch has cleared, \<^verbatim>\<open>update_rocket\<close> sets it again
  without any call of \<^verbatim>\<open>reset_variables\<close>, and the next \<^verbatim>\<open>is_in_the_pad\<close> below 0.2
  answers \<open>True\<close>.
\<close>

theorem pad_latch_rearmed_by_update_rocket_counterexample:
  "\<not> fst (is_in_the_pad Rocket_init 1)
   \<and> \<not> isl (update_rocket (snd (is_in_the_pad Rocket_init 1)) example_data 1.5)
   \<and> fst (is_in_the_pad
            (projr (update_rocket (snd (is_in_the_pad Rocket_init 1)) example_data 1.5)) 0)"
proof -
  let ?s = "snd (is_in_the_pad Rocket_init 1)"
  have a: "\<not> fst (is_in_the_pad Rocket_init 1)"
    by (simp add: is_in_the_pad_def Rocket_init_def)
  obtain u where u: "update_rocket ?s example_data 1.5 = Inr u"
    using cone_cylinder_rocket [of "0.1" "1.5" 3 example_data 1 ?s]
    by (auto simp: example_data_def)
  have "is_in_the_pad_flag u" using update_rocket_sets_flag [OF u] .
  then have "fst (is_in_the_pad u 0)" by (simp add: is_in_the_pad_def)
  then show ?thesis using a u by simp
qed

subsection \<open>The motor before \<^verbatim>\<open>set_motor\<close>\<close>

text \<open>
  C10. A fresh \<^verbatim>\<open>Rocket\<close> and a rocket after \<^verbatim>\<open>reset_variables\<close> hold the motor curve
  \<^verbatim>\<open>[[], []]\<close>. With that curve \<^verbatim>\<open>burnout_time\<close> is an \<^verbatim>\<open>IndexError\<close> and \<^verbatim>\<open>get_thrust\<close> is the
  \<^verbatim>\<open>ValueError\<close> of \<^verbatim>\<open>numpy.interp\<close> on an empty table; after \<^verbatim>\<open>set_motor\<close> with a non-empty
  curve of two lists of one length both return a value.
\<close>

theorem empty_motor_fails:
  "motor Rocket_init = ([], [])
   \<and> motor (reset_variables self) = ([], [])
   \<and> (motor self = ([], []) \<longrightarrow>
        burnout_time self = Inl IndexError \<and> get_thrust self t t_launch = Inl ValueError)
   \<and> (ts \<noteq> [] \<and> length fs = length ts \<longrightarrow>
        burnout_time (set_motor self (ts, fs)) = Inr (last ts)
        \<and> (\<exists>v. get_thrust (set_motor self (ts, fs)) t t_launch = Inr v))"
  by (auto simp add: Rocket_init_def reset_variables_def burnout_time_def get_thrust_def
      py_last_def np_interp_def set_motor_def Let_def)

theorem empty_motor_fails_witness:
  "burnout_time Rocket_init = Inl IndexError
   \<and> get_thrust Rocket_init 1 0 = Inl ValueError
   \<and> burnout_time (reset_variables (set_motor Rocket_init ([0, 1], [5, 0]))) = Inl IndexError
   \<and> get_thrust (reset_variables (set_motor Rocket_init ([0, 1], [5, 0]))) 1 0
       = Inl ValueError
   \<and> burnout_time (set_motor Rocket_init ([0, 1], [5, 0])) = Inr 1
   \<and> (\<exists>v. get_thrust (set_motor Rocket_init ([0, 1], [5, 0])) 1 0 = Inr v)"
proof -
  let ?r = "set_motor Rocket_init ([0, 1], [5, 0])"
  have a: "motor Rocket_init = ([], [])"
    using empty_motor_fails [of Rocket_init 1 0 "[0, 1]" "[5, 0]"] by blast
  have b: "motor (reset_variables ?r) = ([], [])"
    using empty_motor_fails [of ?r 1 0 "[0, 1]" "[5, 0]"] by blast
  show ?thesis
    using a b empty_motor_fails [of Rocket_init 1 0 "[0, 1]" "[5, 0]"]
      empty_motor_fails [of "reset_variables ?r" 1 0 "[0, 1]" "[5, 0]"]
    by simp
qed

end
